(* ===== verification/Prelude.thy ===== *)
theory Prelude
  imports Main "HOL-Library.Sublist"
begin

text \<open>
  Shared vocabulary of the development: the Python built-ins the service code
  relies on (\<open>str()\<close> of an integer, \<open>range()\<close>, \<open>in\<close> on strings, ASCII
  lower-casing), the named collections that the component theories fill, and
  the generic list and string lemmas their proofs share.
\<close>

named_theorems world_simps
  \<open>equations describing how one operation changes the modelled world\<close>

named_theorems json_simps
  \<open>evaluation rules for the JSON helpers\<close>

section \<open>Python \<open>str()\<close> on integers\<close>

text \<open>
  Python's \<open>str(n)\<close> for an \<open>int\<close>: decimal digits, a leading minus sign for
  negative values.  Used by every f-string of the source that prints a status
  code, an attempt count or a flow count.
\<close>

fun show_nat :: "nat \<Rightarrow> string" where
  "show_nat n =
     (if n < 10 then [char_of (48 + n)]
      else show_nat (n div 10) @ [char_of (48 + n mod 10)])"

declare show_nat.simps [simp del]

definition show_int :: "int \<Rightarrow> string" where
  "show_int i = (if i < 0 then CHR ''-'' # show_nat (nat (- i)) else show_nat (nat i))"

definition is_digit :: "char \<Rightarrow> bool" where
  "is_digit c \<longleftrightarrow> 48 \<le> (of_char c :: nat) \<and> (of_char c :: nat) < 58"

text \<open>The inverse of \<open>show_nat\<close>, for the round trip: Python's \<open>int()\<close> on a digit string.\<close>

fun read_digits :: "nat \<Rightarrow> string \<Rightarrow> nat" where
  "read_digits acc [] = acc"
| "read_digits acc (c # cs) = read_digits (10 * acc + (of_char c - 48)) cs"

section \<open>Python \<open>range()\<close> and \<open>in\<close>\<close>

text \<open>\<open>range(n)\<close> for an \<open>int\<close> bound: empty when \<open>n \<le> 0\<close>.\<close>

definition py_range :: "int \<Rightarrow> nat list" where
  "py_range n = [0..<nat n]"

text \<open>\<open>s in t\<close> on Python strings: \<open>s\<close> occurs contiguously in \<open>t\<close>.\<close>

abbreviation str_contains :: "string \<Rightarrow> string \<Rightarrow> bool" where
  "str_contains t s \<equiv> sublist s t"

section \<open>ASCII lower-casing\<close>

definition lower_char :: "char \<Rightarrow> char" where
  "lower_char c =
     (if 65 \<le> (of_char c :: nat) \<and> (of_char c :: nat) \<le> 90 then char_of (of_char c + (32::nat)) else c)"

definition lower_ascii :: "string \<Rightarrow> string" where
  "lower_ascii s = map lower_char s"

section \<open>Shared lemmas\<close>

lemma show_nat_digits: "\<forall>c \<in> set (show_nat n). is_digit c"
proof (induction n rule: show_nat.induct)
  case (1 n)
  have d: "is_digit (char_of (48 + k mod 10))" for k :: nat
  proof -
    have "k mod 10 < 10" by simp
    then have "48 + k mod 10 < 256" by linarith
    then show ?thesis by (simp add: is_digit_def take_bit_nat_eq_self)
  qed
  show ?case
  proof (cases "n < 10")
    case True
    with d [of n] show ?thesis by (simp add: show_nat.simps [of n])
  next
    case False
    with "1.IH" d [of n] show ?thesis by (simp add: show_nat.simps [of n])
  qed
qed

lemma show_nat_nonempty [simp]: "show_nat n \<noteq> []"
  by (subst show_nat.simps) simp

lemma of_char_digit: "k < 10 \<Longrightarrow> of_char (char_of (48 + k) :: char) = 48 + (k::nat)"
  by (simp add: take_bit_nat_eq_self)

lemma read_digits_append:
  "read_digits acc (xs @ ys) = read_digits (read_digits acc xs) ys"
  by (induction xs arbitrary: acc) simp_all

lemma read_show_nat: "read_digits 0 (show_nat n) = n"
proof (induction n rule: show_nat.induct)
  case (1 n)
  show ?case
  proof (cases "n < 10")
    case True
    then show ?thesis by (simp add: show_nat.simps [of n] of_char_digit)
  next
    case False
    with "1.IH" show ?thesis
      by (simp add: show_nat.simps [of n] read_digits_append of_char_digit)
  qed
qed

lemma show_nat_inj: "show_nat m = show_nat n \<Longrightarrow> m = n"
  by (metis read_show_nat)

lemma show_int_nonneg [simp]: "0 \<le> i \<Longrightarrow> show_int i = show_nat (nat i)"
  by (simp add: show_int_def)

lemma py_range_length [simp]: "length (py_range n) = nat n"
  by (simp add: py_range_def)

lemma py_range_Suc: "0 \<le> n \<Longrightarrow> py_range (n + 1) = py_range n @ [nat n]"
  by (simp add: py_range_def nat_add_distrib)

lemma str_contains_middle [intro]: "str_contains (p @ s @ q) s"
  by simp

lemma str_contains_Cons: "str_contains t s \<Longrightarrow> str_contains (c # t) s"
  by (metis sublist_Cons_right)

lemma nth_in_takeWhile: "i < length (takeWhile P xs) \<Longrightarrow> P (xs ! i)"
  by (metis nth_mem takeWhile_nth set_takeWhileD)

lemma length_takeWhile_upt:
  assumes "k \<le> d" and "\<forall>i<k. P (f (s + i))" and "k < d \<Longrightarrow> \<not> P (f (s + k))"
  shows "length (takeWhile P (map f [s..<s + d])) = k"
proof -
  have "takeWhile P (map f [s..<s + d]) = take k (map f [s..<s + d])"
    by (rule takeWhile_eq_take_P_nth) (use assms in \<open>auto simp: add.commute\<close>)
  with assms(1) show ?thesis by simp
qed

lemma sum_pow2_upt: "sum_list (map (\<lambda>i. (2::nat) ^ i) [0..<n]) = 2 ^ n - 1"
  by (induction n) simp_all

end
