(* ===== verification/Runtime.thy ===== *)
theory Runtime
  imports Prelude
begin

text \<open>
  The Python values the service handles: decoded JSON (what \<open>response.json()\<close>
  returns and what \<open>model_dump()\<close> produces), the Python operations the
  source applies to them (\<open>isinstance\<close>, \<open>in\<close>, \<open>[]\<close>, iteration, \<open>type()\<close>),
  and the exceptions that cross the code of \<open>src/backend/services/langflow_service.py\<close>.
\<close>

section \<open>Decoded JSON\<close>

text \<open>
  \<open>json.loads\<close> produces \<open>None\<close>, \<open>bool\<close>, \<open>int\<close>, \<open>str\<close>, \<open>list\<close> and \<open>dict\<close>.
  A \<open>dict\<close> is kept as the association list of its members in document order;
  as in \<open>json.loads\<close>, a duplicated key reads as its last occurrence.
  JSON numbers with a fraction are not modelled (no code path of the service
  inspects one).  \<open>JOther c\<close> is any other Python object, known by its class
  \<open>c\<close>: what \<open>response.json()\<close> returns when the response is a test double,
  e.g. the coroutine an \<open>AsyncMock\<close> method returns.
\<close>

datatype json =
    JNull
  | JBool bool
  | JInt int
  | JStr string
  | JArr "json list"
  | JObj "(string \<times> json) list"
  | JOther string

type_synonym py_dict = "(string \<times> json) list"

text \<open>\<open>d[k]\<close> / \<open>d.get(k)\<close> on a decoded dict.\<close>

definition dict_get :: "py_dict \<Rightarrow> string \<Rightarrow> json option" where
  "dict_get d k = map_of (rev d) k"

text \<open>\<open>k in d\<close> on a dict.\<close>

definition dict_has :: "py_dict \<Rightarrow> string \<Rightarrow> bool" where
  "dict_has d k \<longleftrightarrow> k \<in> set (map fst d)"

text \<open>\<open>type(v).__name__\<close> and the \<open>repr\<close> of \<open>type(v)\<close> that an f-string prints.\<close>

fun py_type_name :: "json \<Rightarrow> string" where
  "py_type_name JNull = ''NoneType''"
| "py_type_name (JBool _) = ''bool''"
| "py_type_name (JInt _) = ''int''"
| "py_type_name (JStr _) = ''str''"
| "py_type_name (JArr _) = ''list''"
| "py_type_name (JObj _) = ''dict''"
| "py_type_name (JOther c) = c"

definition py_type_repr :: "json \<Rightarrow> string" where
  "py_type_repr v = ''<class '' @ [CHR 0x27] @ py_type_name v @ [CHR 0x27, CHR ''>'']"

text \<open>
  \<open>for x in v\<close>: a list yields its items, a dict its keys, a string its
  one-character strings; anything else raises \<open>TypeError\<close> (\<open>None\<close> here).
\<close>

fun py_iter :: "json \<Rightarrow> json list option" where
  "py_iter (JArr xs) = Some xs"
| "py_iter (JObj d) = Some (map (JStr \<circ> fst) d)"
| "py_iter (JStr s) = Some (map (\<lambda>c. JStr [c]) s)"
| "py_iter _ = None"

section \<open>Exceptions\<close>

text \<open>
  The exception classes that reach the service's \<open>except\<close> clauses, each with
  the message \<open>str(e)\<close> prints.  The transport exceptions are httpx's
  (\<open>httpx.TimeoutException\<close>, \<open>httpx.ConnectError\<close>, \<open>httpx.HTTPStatusError\<close>,
  and any other \<open>httpx.HTTPError\<close> such as \<open>ReadError\<close>); \<open>LangflowServiceError\<close>
  is the service's own class (line 46); \<open>TypeError\<close> and \<open>ValueError\<close> come
  from the Python runtime (\<open>**\<close> on a non-mapping, \<open>response.json()\<close> on a body
  that is not JSON).  An \<open>HTTPStatusError\<close> carries the status code and body text
  of the response it was raised for.
\<close>

datatype exn =
    TimeoutException string
  | ConnectError string
  | HTTPStatusError int string string
  | TransportError string
  | LangflowServiceError string
  | TypeError string
  | ValueError string

fun exn_str :: "exn \<Rightarrow> string" where
  "exn_str (TimeoutException m) = m"
| "exn_str (ConnectError m) = m"
| "exn_str (HTTPStatusError _ _ m) = m"
| "exn_str (TransportError m) = m"
| "exn_str (LangflowServiceError m) = m"
| "exn_str (TypeError m) = m"
| "exn_str (ValueError m) = m"

fun is_service_error :: "exn \<Rightarrow> bool" where
  "is_service_error (LangflowServiceError _) = True"
| "is_service_error _ = False"

text \<open>\<open>f"{last_exception}"\<close> where \<open>last_exception\<close> may still be \<open>None\<close>.\<close>

definition str_opt_exn :: "exn option \<Rightarrow> string" where
  "str_opt_exn e = (case e of None \<Rightarrow> ''None'' | Some x \<Rightarrow> exn_str x)"

section \<open>Lemmas\<close>

lemma dict_get_has: "dict_get d k \<noteq> None \<longleftrightarrow> dict_has d k"
  by (simp add: dict_get_def dict_has_def map_of_eq_None_iff image_iff)

lemma dict_get_Cons_last [json_simps]:
  "dict_get (d @ [(k, v)]) k' = (if k' = k then Some v else dict_get d k')"
  by (simp add: dict_get_def)

lemma dict_get_Nil [json_simps]: "dict_get [] k = None"
  by (simp add: dict_get_def)

lemma dict_get_Cons [json_simps]:
  "dict_get ((k, v) # d) k' = (case dict_get d k' of None \<Rightarrow> if k' = k then Some v else None | Some x \<Rightarrow> Some x)"
  by (simp add: dict_get_def map_add_def split: option.split)

lemma dict_has_simps [json_simps]:
  "dict_has [] k = False"
  "dict_has ((k', v) # d) k = (k = k' \<or> dict_has d k)"
  by (auto simp: dict_has_def)

lemma str_opt_exn_Some [simp]: "str_opt_exn (Some e) = exn_str e"
  by (simp add: str_opt_exn_def)

end
