(* ===== verification/Models.thy ===== *)
theory Models
  imports Runtime "HOL-Library.Monad_Syntax"
begin

text \<open>
  The pydantic models of \<open>langflow_service.py\<close> (lines 15--43): \<open>FlowResponse\<close>,
  \<open>FlowExecutionRequest\<close> and \<open>FlowExecutionResponse\<close> as records, their
  \<open>model_dump()\<close> as a function to JSON, and \<open>FlowResponse(**d)\<close> as a validator
  returning \<open>None\<close> where pydantic raises \<open>ValidationError\<close>.  The field checks
  follow pydantic's default (lax) mode on the values \<open>json.loads\<close> produces:
  \<open>str\<close> takes only strings; \<open>bool\<close> takes booleans, the integers 0 and 1 and
  the usual yes/no strings; \<open>Optional[...] = None\<close> takes a missing key or
  \<open>null\<close>; \<open>List[str]\<close> takes a list of strings; unknown keys are ignored.
\<close>

section \<open>Records\<close>

text \<open>
  \<open>FlowResponse\<close>.  Its \<open>id\<close> field is named \<open>flow_id\<close> here, since \<open>id\<close> is the
  identity function of HOL; \<open>data: Optional[Any]\<close> is a JSON value whose
  \<open>None\<close> is \<open>JNull\<close>.
\<close>

record flow_response =
  flow_id :: string
  name :: string
  folder_id :: string
  is_component :: bool
  endpoint_name :: "string option"
  description :: string
  data :: json
  access_type :: string
  tags :: "string list"
  mcp_enabled :: bool
  action_name :: "string option"
  action_description :: "string option"

record flow_execution_request =
  input_value :: string
  output_type :: string
  input_type :: string
  tweaks :: py_dict

record flow_execution_response =
  success :: bool
  result :: json
  error :: "string option"

text \<open>The constructor \<open>FlowExecutionRequest(input_value=..., tweaks=...)\<close> with its defaults.\<close>

definition mk_execution_request :: "string \<Rightarrow> py_dict \<Rightarrow> flow_execution_request" where
  "mk_execution_request v tw =
     \<lparr>input_value = v, output_type = ''chat'', input_type = ''chat'', tweaks = tw\<rparr>"

section \<open>\<open>model_dump()\<close>\<close>

definition dump_opt_str :: "string option \<Rightarrow> json" where
  "dump_opt_str s = (case s of None \<Rightarrow> JNull | Some x \<Rightarrow> JStr x)"

definition dump_flow :: "flow_response \<Rightarrow> json" where
  "dump_flow f = JObj
     [(''id'', JStr (flow_id f)),
      (''name'', JStr (name f)),
      (''folder_id'', JStr (folder_id f)),
      (''is_component'', JBool (is_component f)),
      (''endpoint_name'', dump_opt_str (endpoint_name f)),
      (''description'', JStr (description f)),
      (''data'', data f),
      (''access_type'', JStr (access_type f)),
      (''tags'', JArr (map JStr (tags f))),
      (''mcp_enabled'', JBool (mcp_enabled f)),
      (''action_name'', dump_opt_str (action_name f)),
      (''action_description'', dump_opt_str (action_description f))]"

definition dump_execution_request :: "flow_execution_request \<Rightarrow> json" where
  "dump_execution_request r = JObj
     [(''input_value'', JStr (input_value r)),
      (''output_type'', JStr (output_type r)),
      (''input_type'', JStr (input_type r)),
      (''tweaks'', JObj (tweaks r))]"

definition dump_execution_response :: "flow_execution_response \<Rightarrow> json" where
  "dump_execution_response r = JObj
     [(''success'', JBool (success r)),
      (''result'', result r),
      (''error'', dump_opt_str (error r))]"

section \<open>Validation: \<open>FlowResponse(**flow_data)\<close>\<close>

fun v_str :: "json \<Rightarrow> string option" where
  "v_str (JStr s) = Some s"
| "v_str _ = None"

definition bool_true_strs :: "string list" where
  "bool_true_strs = [''1'', ''on'', ''t'', ''true'', ''y'', ''yes'']"

definition bool_false_strs :: "string list" where
  "bool_false_strs = [''0'', ''off'', ''f'', ''false'', ''n'', ''no'']"

fun v_bool :: "json \<Rightarrow> bool option" where
  "v_bool (JBool b) = Some b"
| "v_bool (JInt i) = (if i = 0 then Some False else if i = 1 then Some True else None)"
| "v_bool (JStr s) =
     (if lower_ascii s \<in> set bool_true_strs then Some True
      else if lower_ascii s \<in> set bool_false_strs then Some False else None)"
| "v_bool _ = None"

fun v_str_list :: "json \<Rightarrow> string list option" where
  "v_str_list (JArr xs) = those (map v_str xs)"
| "v_str_list _ = None"

text \<open>A required field, and an \<open>Optional[...] = None\<close> field.\<close>

definition req_field :: "(json \<Rightarrow> 'a option) \<Rightarrow> string \<Rightarrow> py_dict \<Rightarrow> 'a option" where
  "req_field v k d = (case dict_get d k of None \<Rightarrow> None | Some x \<Rightarrow> v x)"

definition opt_field :: "(json \<Rightarrow> 'a option) \<Rightarrow> string \<Rightarrow> py_dict \<Rightarrow> 'a option option" where
  "opt_field v k d =
     (case dict_get d k of
        None \<Rightarrow> Some None
      | Some JNull \<Rightarrow> Some None
      | Some x \<Rightarrow> map_option Some (v x))"

text \<open>\<open>data: Optional[Any] = None\<close>: any value, \<open>None\<close> when the key is missing.\<close>

definition any_field :: "string \<Rightarrow> py_dict \<Rightarrow> json" where
  "any_field k d = (case dict_get d k of None \<Rightarrow> JNull | Some x \<Rightarrow> x)"

definition validate_flow :: "py_dict \<Rightarrow> flow_response option" where
  "validate_flow d = do {
     i \<leftarrow> req_field v_str ''id'' d;
     n \<leftarrow> req_field v_str ''name'' d;
     fo \<leftarrow> req_field v_str ''folder_id'' d;
     ic \<leftarrow> req_field v_bool ''is_component'' d;
     en \<leftarrow> opt_field v_str ''endpoint_name'' d;
     de \<leftarrow> req_field v_str ''description'' d;
     at \<leftarrow> req_field v_str ''access_type'' d;
     tg \<leftarrow> req_field v_str_list ''tags'' d;
     me \<leftarrow> req_field v_bool ''mcp_enabled'' d;
     an \<leftarrow> opt_field v_str ''action_name'' d;
     ad \<leftarrow> opt_field v_str ''action_description'' d;
     Some \<lparr>flow_id = i, name = n, folder_id = fo, is_component = ic, endpoint_name = en,
           description = de, data = any_field ''data'' d, access_type = at, tags = tg,
           mcp_enabled = me, action_name = an, action_description = ad\<rparr>
   }"

section \<open>Lemmas\<close>

lemma those_map_v_str [simp]: "those (map (v_str \<circ> JStr) xs) = Some xs"
  by (induction xs) simp_all

lemma opt_field_dump_opt_str [simp]:
  "dict_get d k = Some (dump_opt_str s) \<Longrightarrow> opt_field v_str k d = Some s"
  by (cases s) (simp_all add: opt_field_def dump_opt_str_def)

lemma req_field_hit [simp]: "dict_get d k = Some x \<Longrightarrow> req_field v k d = v x"
  by (simp add: req_field_def)

lemma any_field_hit [simp]: "dict_get d k = Some x \<Longrightarrow> any_field k d = x"
  by (simp add: any_field_def)

lemma dump_opt_str_eq [simp]: "dump_opt_str a = dump_opt_str b \<longleftrightarrow> a = b"
  by (cases a; cases b) (simp_all add: dump_opt_str_def)

lemma dump_flow_inj: "dump_flow f = dump_flow g \<Longrightarrow> f = g"
  by (cases f, cases g) (simp add: dump_flow_def inj_def)

end
