(* ===== verification/Transport.thy ===== *)
theory Transport
  imports Runtime Complex_Main
begin

text \<open>
  The state the service object keeps and the effects it has on the outside
  world, from \<open>LangflowService.__init__\<close>, \<open>_get_client\<close> and \<open>close\<close>
  (lines 54--78 of \<open>langflow_service.py\<close>), together with the httpx calls the
  retry primitive makes: \<open>client.request\<close>, \<open>response.raise_for_status()\<close>,
  \<open>response.json()\<close> and \<open>asyncio.sleep\<close>.

  The outside world is a record \<open>world\<close>: the service object, the trace of
  observable events (pools opened and closed, requests sent, sleeps), and the
  network, an oracle \<open>net\<close> giving the outcome of the \<open>n\<close>-th request sent
  (\<open>sent\<close> counts them).  Every operation takes the world and returns its
  result with the new world.
\<close>

section \<open>Responses and transport outcomes\<close>

text \<open>
  An httpx response: status code, body text (\<open>response.text\<close>), and what \<open>response.json()\<close>
  gives on that text (the decoded value, or the decoder's error message).
\<close>

record response =
  status_code :: int
  response_text :: string
  json_body :: "string + json"

text \<open>What one \<open>client.request(...)\<close> does: return a response or raise.\<close>

datatype transport_outcome =
    Responded response
  | TimedOut string
  | ConnectFailed string
  | OtherFailure string

text \<open>The keyword arguments \<open>**kwargs\<close> passed on to \<open>client.request\<close>.\<close>

record req_args =
  params :: "(string \<times> string) list"
  json_payload :: "json option"
  headers :: "(string \<times> string) list"

definition no_args :: req_args where
  "no_args = \<lparr>params = [], json_payload = None, headers = []\<rparr>"

section \<open>Service object, pool and world\<close>

text \<open>\<open>httpx.AsyncClient(timeout=..., limits=httpx.Limits(...))\<close>: the connection pool.\<close>

record pool =
  pool_timeout :: real
  max_keepalive_connections :: nat
  max_connections :: nat
  is_closed :: bool

text \<open>\<open>LangflowService\<close>: \<open>self.base_url\<close>, \<open>self.timeout\<close>, \<open>self._client\<close>.\<close>

record service =
  base_url :: string
  timeout :: real
  client :: "pool option"

datatype event =
    PoolOpened
  | PoolClosed
  | Request string string req_args
  | Slept nat

record world =
  svc :: service
  events :: "event list"
  net :: "nat \<Rightarrow> transport_outcome"
  sent :: nat

text \<open>\<open>base_url.rstrip('/')\<close>.\<close>

definition rstrip_slash :: "string \<Rightarrow> string" where
  "rstrip_slash s = rev (dropWhile (\<lambda>c. c = CHR ''/'') (rev s))"

text \<open>\<open>LangflowService(base_url, timeout)\<close> (lines 54--64).\<close>

definition new_service :: "string \<Rightarrow> real \<Rightarrow> service" where
  "new_service b t = \<lparr>base_url = rstrip_slash b, timeout = t, client = None\<rparr>"

text \<open>\<open>LangflowService()\<close> with the defaults of line 54.\<close>

definition default_service :: service where
  "default_service = new_service ''http://localhost:7860'' 30"

section \<open>Operations\<close>

text \<open>\<open>_get_client\<close> (lines 66--73): reuse the pool unless there is none or it is closed.\<close>

definition open_pool :: "world \<Rightarrow> pool \<times> world" where
  "open_pool w =
     (let p = \<lparr>pool_timeout = timeout (svc w), max_keepalive_connections = 5,
               max_connections = 10, is_closed = False\<rparr>
      in (p, w\<lparr>svc := (svc w)\<lparr>client := Some p\<rparr>, events := events w @ [PoolOpened]\<rparr>))"

definition get_client :: "world \<Rightarrow> pool \<times> world" where
  "get_client w =
     (case client (svc w) of
        None \<Rightarrow> open_pool w
      | Some p \<Rightarrow> if is_closed p then open_pool w else (p, w))"

text \<open>\<open>close\<close> (lines 75--78): \<open>aclose()\<close> the pool if there is one that is open.\<close>

definition close :: "world \<Rightarrow> world" where
  "close w =
     (case client (svc w) of
        None \<Rightarrow> w
      | Some p \<Rightarrow>
          if \<not> is_closed p
          then w\<lparr>svc := (svc w)\<lparr>client := Some (p\<lparr>is_closed := True\<rparr>)\<rparr>,
                 events := events w @ [PoolClosed]\<rparr>
          else w)"

text \<open>What the awaited call returns or raises, for one outcome of the network.\<close>

definition outcome_result :: "transport_outcome \<Rightarrow> exn + response" where
  "outcome_result t =
     (case t of
        Responded r \<Rightarrow> Inr r
      | TimedOut s \<Rightarrow> Inl (TimeoutException s)
      | ConnectFailed s \<Rightarrow> Inl (ConnectError s)
      | OtherFailure s \<Rightarrow> Inl (TransportError s))"

text \<open>\<open>await client.request(method, url, **kwargs)\<close> (line 107).\<close>

definition client_request :: "string \<Rightarrow> string \<Rightarrow> req_args \<Rightarrow> world \<Rightarrow> (exn + response) \<times> world" where
  "client_request m u a w =
     (outcome_result (net w (sent w)),
      w\<lparr>events := events w @ [Request m u a], sent := Suc (sent w)\<rparr>)"

text \<open>
  httpx's \<open>raise_for_status()\<close> (line 108): any status outside 2xx raises
  \<open>HTTPStatusError\<close>, whose message names the status class, the code and the URL
  (the reason phrase and the documentation link of httpx's message are omitted).
\<close>

definition status_class_name :: "int \<Rightarrow> string" where
  "status_class_name c =
     (if 100 \<le> c \<and> c < 200 then ''Informational response''
      else if 300 \<le> c \<and> c < 400 then ''Redirect response''
      else if 400 \<le> c \<and> c < 500 then ''Client error''
      else if 500 \<le> c \<and> c < 600 then ''Server error''
      else ''Invalid status code'')"

definition raise_for_status :: "string \<Rightarrow> response \<Rightarrow> exn + response" where
  "raise_for_status u r =
     (if 200 \<le> status_code r \<and> status_code r < 300 then Inr r
      else Inl (HTTPStatusError (status_code r) (response_text r)
             (status_class_name (status_code r) @ '' '' @ [CHR 0x27] @ show_int (status_code r)
              @ [CHR 0x27] @ '' for url '' @ [CHR 0x27] @ u @ [CHR 0x27])))"

text \<open>\<open>response.json()\<close>: a body that is not JSON raises \<open>ValueError\<close> (\<open>JSONDecodeError\<close>).\<close>

definition response_json :: "response \<Rightarrow> exn + json" where
  "response_json r = (case json_body r of Inl m \<Rightarrow> Inl (ValueError m) | Inr v \<Rightarrow> Inr v)"

text \<open>\<open>await asyncio.sleep(t)\<close> (line 130).\<close>

definition sleep :: "nat \<Rightarrow> world \<Rightarrow> world" where
  "sleep t w = w\<lparr>events := events w @ [Slept t]\<rparr>"

section \<open>Reading the trace\<close>

text \<open>The requests sent, the sleeps taken, and the pools opened and closed, in a trace.\<close>

fun is_request :: "event \<Rightarrow> bool" where
  "is_request (Request _ _ _) = True"
| "is_request _ = False"

fun slept_times :: "event list \<Rightarrow> nat list" where
  "slept_times [] = []"
| "slept_times (Slept t # es) = t # slept_times es"
| "slept_times (_ # es) = slept_times es"

definition request_count :: "event list \<Rightarrow> nat" where
  "request_count es = length (filter is_request es)"

definition opened_count :: "event list \<Rightarrow> nat" where
  "opened_count es = count_list es PoolOpened"

definition closed_count :: "event list \<Rightarrow> nat" where
  "closed_count es = count_list es PoolClosed"

text \<open>A world in which nothing has happened yet.\<close>

definition init_world :: "service \<Rightarrow> (nat \<Rightarrow> transport_outcome) \<Rightarrow> world" where
  "init_world s n = \<lparr>svc = s, events = [], net = n, sent = 0\<rparr>"

section \<open>Lemmas\<close>

lemma slept_times_append [simp]: "slept_times (xs @ ys) = slept_times xs @ slept_times ys"
  by (induction xs rule: slept_times.induct) simp_all

lemma request_count_simps [simp]:
  "request_count [] = 0"
  "request_count (xs @ ys) = request_count xs + request_count ys"
  "request_count (Request m u a # es) = Suc (request_count es)"
  "request_count (Slept t # es) = request_count es"
  "request_count (PoolOpened # es) = request_count es"
  "request_count (PoolClosed # es) = request_count es"
  by (simp_all add: request_count_def)

lemma get_client_net [world_simps]: "net (snd (get_client w)) = net w"
  by (auto simp: get_client_def open_pool_def Let_def split: option.splits)

lemma get_client_sent [world_simps]: "sent (snd (get_client w)) = sent w"
  by (auto simp: get_client_def open_pool_def Let_def split: option.splits)

lemma get_client_open [world_simps]:
  "client (svc (snd (get_client w))) = Some (fst (get_client w)) \<and> \<not> is_closed (fst (get_client w))"
  by (auto simp: get_client_def open_pool_def Let_def split: option.splits)

lemma client_request_world [world_simps]:
  "snd (client_request m u a w) = w\<lparr>events := events w @ [Request m u a], sent := Suc (sent w)\<rparr>"
  by (simp add: client_request_def)

lemma sleep_simps [world_simps]:
  "net (sleep t w) = net w" "sent (sleep t w) = sent w" "svc (sleep t w) = svc w"
  "events (sleep t w) = events w @ [Slept t]"
  by (simp_all add: sleep_def)

lemma close_closes [world_simps]:
  "client (svc w) \<noteq> None \<Longrightarrow> \<exists>p. client (svc (close w)) = Some p \<and> is_closed p"
  by (auto simp: close_def)

lemma get_client_counts [world_simps]:
  "request_count (events (snd (get_client w))) = request_count (events w)"
  "slept_times (events (snd (get_client w))) = slept_times (events w)"
  by (auto simp: get_client_def open_pool_def Let_def split: option.splits)

lemma get_client_filter_requests [world_simps]:
  "filter is_request (events (snd (get_client w))) = filter is_request (events w)"
  by (auto simp: get_client_def open_pool_def Let_def split: option.splits)

end
