(* ===== verification/Retry.thy ===== *)
theory Retry
  imports Transport
begin

text \<open>
  The retry primitive \<open>_make_request_with_retry\<close> (lines 80--135 of
  \<open>langflow_service.py\<close>).  The \<open>for attempt in range(max_retries + 1)\<close> loop is
  \<open>retry_loop\<close>, structural recursion on the list of attempt numbers; its body
  is one request with \<open>raise_for_status\<close> (\<open>send_once\<close>), the three \<open>except\<close>
  clauses (\<open>retry_handler\<close>) and the backoff sleep (\<open>backoff\<close>).

  The abstract specification \<open>retry_spec\<close> says what the loop computes without
  looping: classify each network outcome as a final result or as a failure to
  retry (\<open>attempt_result\<close>); the call stops at the first final result, or
  after \<open>max_retries + 1\<close> retried failures with the "Failed to make request"
  error; its trace is the requests it sent, separated by sleeps of 1, 2, 4, ...
  time units (\<open>attempt_events\<close>).  \<open>retry_loop_closed\<close> proves that the loop
  implements it.
\<close>

section \<open>The loop\<close>

text \<open>Lines 107--109: send, then \<open>raise_for_status()\<close>.\<close>

definition send_once :: "string \<Rightarrow> string \<Rightarrow> req_args \<Rightarrow> world \<Rightarrow> (exn + response) \<times> world" where
  "send_once m u a w =
     (case client_request m u a w of
        (Inl e, w') \<Rightarrow> (Inl e, w')
      | (Inr r, w') \<Rightarrow> (raise_for_status u r, w'))"

text \<open>
  Lines 111--124: \<open>Inl\<close> is an exception that leaves the loop (a 4xx status
  becomes a \<open>LangflowServiceError\<close>; an exception no clause catches propagates
  as it is), \<open>Inr\<close> the exception kept as \<open>last_exception\<close>.
\<close>

fun retry_handler :: "exn \<Rightarrow> exn + exn" where
  "retry_handler (TimeoutException s) = Inr (TimeoutException s)"
| "retry_handler (ConnectError s) = Inr (ConnectError s)"
| "retry_handler (HTTPStatusError c t s) =
     (if 400 \<le> c \<and> c < 500
      then Inl (LangflowServiceError (''Client error '' @ show_int c @ '': '' @ t))
      else Inr (HTTPStatusError c t s))"
| "retry_handler e = Inl e"

text \<open>Lines 127--130.\<close>

definition backoff :: "int \<Rightarrow> nat \<Rightarrow> world \<Rightarrow> world" where
  "backoff mr attempt w = (if int attempt < mr then sleep (2 ^ attempt) w else w)"

text \<open>Line 133.\<close>

definition exhausted_error :: "int \<Rightarrow> exn option \<Rightarrow> exn" where
  "exhausted_error mr last_exc =
     LangflowServiceError
       (''Failed to make request after '' @ show_int (mr + 1) @ '' attempts: '' @ str_opt_exn last_exc)"

fun retry_loop ::
  "string \<Rightarrow> string \<Rightarrow> req_args \<Rightarrow> int \<Rightarrow> nat list \<Rightarrow> exn option \<Rightarrow> world \<Rightarrow> (exn + response) \<times> world"
where
  "retry_loop m u a mr [] last_exc w = (Inl (exhausted_error mr last_exc), w)"
| "retry_loop m u a mr (attempt # rest) last_exc w =
     (case send_once m u a w of
        (Inr r, w1) \<Rightarrow> (Inr r, w1)
      | (Inl e, w1) \<Rightarrow>
          (case retry_handler e of
             Inl e' \<Rightarrow> (Inl e', w1)
           | Inr e' \<Rightarrow> retry_loop m u a mr rest (Some e') (backoff mr attempt w1)))"

text \<open>The whole method: \<open>_get_client()\<close> once, then the loop over \<open>range(max_retries + 1)\<close>.\<close>

definition make_request_with_retry ::
  "string \<Rightarrow> string \<Rightarrow> req_args \<Rightarrow> int \<Rightarrow> world \<Rightarrow> (exn + response) \<times> world"
where
  "make_request_with_retry m u a mr w =
     (case get_client w of (_, w1) \<Rightarrow> retry_loop m u a mr (py_range (mr + 1)) None w1)"

text \<open>The default \<open>max_retries=3\<close> of line 84.\<close>

definition default_max_retries :: int where
  "default_max_retries = 3"

section \<open>Abstract specification\<close>

datatype attempt_result = Stop "exn + response" | Again exn

text \<open>What one attempt makes of one network outcome.\<close>

definition checked_result :: "string \<Rightarrow> transport_outcome \<Rightarrow> exn + response" where
  "checked_result u t = (case outcome_result t of Inl e \<Rightarrow> Inl e | Inr r \<Rightarrow> raise_for_status u r)"

definition attempt_result :: "string \<Rightarrow> transport_outcome \<Rightarrow> attempt_result" where
  "attempt_result u t =
     (case checked_result u t of
        Inr r \<Rightarrow> Stop (Inr r)
      | Inl e \<Rightarrow> (case retry_handler e of Inl f \<Rightarrow> Stop (Inl f) | Inr g \<Rightarrow> Again g))"

fun is_again :: "attempt_result \<Rightarrow> bool" where
  "is_again (Again _) = True"
| "is_again (Stop _) = False"

fun stop_value :: "attempt_result \<Rightarrow> exn + response" where
  "stop_value (Stop v) = v"
| "stop_value (Again e) = Inl e"

definition last_exn :: "attempt_result list \<Rightarrow> exn option" where
  "last_exn rs = (case rev rs of Again e # _ \<Rightarrow> Some e | _ \<Rightarrow> None)"

text \<open>
  The result of a call over the outcomes \<open>os\<close> of its attempts, and how many
  requests it sends.
\<close>

definition retry_spec :: "string \<Rightarrow> int \<Rightarrow> transport_outcome list \<Rightarrow> (exn + response) \<times> nat" where
  "retry_spec u mr os =
     (let rs = map (attempt_result u) os; k = length (takeWhile is_again rs) in
      if k < length rs then (stop_value (rs ! k), Suc k)
      else (Inl (exhausted_error mr (last_exn rs)), length rs))"

text \<open>\<open>k\<close> requests, the first numbered \<open>j\<close>, with a sleep of \<open>2^i\<close> after attempt \<open>i\<close> but the last.\<close>

fun attempt_events :: "string \<Rightarrow> string \<Rightarrow> req_args \<Rightarrow> nat \<Rightarrow> nat \<Rightarrow> event list" where
  "attempt_events m u a j 0 = []"
| "attempt_events m u a j (Suc 0) = [Request m u a]"
| "attempt_events m u a j (Suc (Suc k)) =
     Request m u a # Slept (2 ^ j) # attempt_events m u a (Suc j) (Suc k)"

text \<open>A network that times out once, then answers 200 (the scenario of the test suite).\<close>

definition W_ts :: world where
  "W_ts = init_world default_service
     (\<lambda>i. if i = 0 then TimedOut ''Timeout''
          else Responded \<lparr>status_code = 200, response_text = ''{}'', json_body = Inr (JObj [])\<rparr>)"

text \<open>A network that always times out, one that answers 400, a redirect response, one whose connection drops mid-read.\<close>

definition W_persist :: world where
  "W_persist = init_world default_service (\<lambda>_. TimedOut ''Persistent timeout'')"

definition resp_400 :: response where
  "resp_400 = \<lparr>status_code = 400, response_text = ''Bad Request'', json_body = Inl ''Expecting value''\<rparr>"

definition resp_302 :: response where
  "resp_302 = \<lparr>status_code = 302, response_text = [], json_body = Inl []\<rparr>"

definition W_400 :: world where
  "W_400 = init_world default_service (\<lambda>_. Responded resp_400)"

definition W_read :: world where
  "W_read = init_world default_service (\<lambda>_. OtherFailure ''Server disconnected'')"

section \<open>The loop implements the specification\<close>

lemma send_once_eq:
  "send_once m u a w =
     (checked_result u (net w (sent w)), w\<lparr>events := events w @ [Request m u a], sent := Suc (sent w)\<rparr>)"
  by (simp add: send_once_def client_request_def checked_result_def split: sum.split)

lemma retry_loop_step:
  "retry_loop m u a mr (j # js) last_exc w =
     (let w1 = w\<lparr>events := events w @ [Request m u a], sent := Suc (sent w)\<rparr> in
      case attempt_result u (net w (sent w)) of
        Stop v \<Rightarrow> (v, w1)
      | Again e \<Rightarrow> retry_loop m u a mr js (Some e) (backoff mr j w1))"
  by (simp add: send_once_eq attempt_result_def Let_def split: sum.split)

lemma last_exn_Cons:
  "rs \<noteq> [] \<Longrightarrow> last_exn (r # rs) = last_exn rs"
  by (simp add: last_exn_def split: list.split)

lemma last_exn_single [simp]: "last_exn [Again e] = Some e"
  by (simp add: last_exn_def)

lemma backoff_last: "j + Suc 0 = nat (mr + 1) \<Longrightarrow> backoff mr j w = w"
  by (simp add: backoff_def)

lemma backoff_inner: "j + Suc (Suc d) = nat (mr + 1) \<Longrightarrow> backoff mr j w = sleep (2 ^ j) w"
  by (simp add: backoff_def)

lemma retry_loop_closed:
  assumes "j + d = nat (mr + 1)"
  shows "retry_loop m u a mr [j..<j + d] last_exc w =
     (let rs = map (attempt_result u \<circ> net w) [sent w..<sent w + d];
          k = length (takeWhile is_again rs)
      in if k < d
         then (stop_value (rs ! k),
               w\<lparr>events := events w @ attempt_events m u a j (Suc k), sent := sent w + Suc k\<rparr>)
         else (Inl (exhausted_error mr (if d = 0 then last_exc else last_exn rs)),
               w\<lparr>events := events w @ attempt_events m u a j d, sent := sent w + d\<rparr>))"
  using assms
proof (induction d arbitrary: j last_exc w)
  case 0
  then show ?case by simp
next
  case (Suc d)
  let ?w1 = "w\<lparr>events := events w @ [Request m u a], sent := Suc (sent w)\<rparr>"
  define rs' where "rs' = map (attempt_result u \<circ> net w) [Suc (sent w)..<Suc (sent w) + d]"
  have upt: "[j..<j + Suc d] = j # [Suc j..<Suc j + d]"
    by (simp add: upt_rec)
  have rs: "map (attempt_result u \<circ> net w) [sent w..<sent w + Suc d] =
              attempt_result u (net w (sent w)) # rs'"
    by (simp add: upt_rec rs'_def)
  show ?case
  proof (cases "attempt_result u (net w (sent w))")
    case (Stop v)
    then show ?thesis
      by (simp only: upt rs retry_loop_step) (simp add: Let_def)
  next
    case (Again e)
    show ?thesis
    proof (cases d)
      case 0
      have bo: "backoff mr j ?w1 = ?w1"
        using Suc.prems 0 by (simp add: backoff_last)
      show ?thesis
        by (simp only: upt retry_loop_step) (simp add: Let_def Again bo 0)
    next
      case (Suc d')
      let ?w2 = "sleep (2 ^ j) ?w1"
      have pre: "Suc j + d = nat (mr + 1)"
        using Suc.prems by simp
      have bo: "backoff mr j ?w1 = ?w2"
        using Suc.prems Suc by (simp add: backoff_inner)
      have w2: "net ?w2 = net w" "sent ?w2 = Suc (sent w)"
          "events ?w2 = events w @ [Request m u a, Slept (2 ^ j)]"
        by (simp_all add: sleep_def)
      have step: "retry_loop m u a mr [j..<j + Suc d] last_exc w =
                    retry_loop m u a mr [Suc j..<Suc j + d] (Some e) ?w2"
        by (simp only: upt retry_loop_step) (simp add: Let_def Again bo)
      have dnz: "(d = 0) = False"
        using Suc by simp
      define k' where "k' = length (takeWhile is_again rs')"
      have ih: "retry_loop m u a mr [Suc j..<Suc j + d] (Some e) ?w2 =
          (if k' < d
           then (stop_value (rs' ! k'),
                 ?w2\<lparr>events := events ?w2 @ attempt_events m u a (Suc j) (Suc k'), sent := sent ?w2 + Suc k'\<rparr>)
           else (Inl (exhausted_error mr (last_exn rs')),
                 ?w2\<lparr>events := events ?w2 @ attempt_events m u a (Suc j) d, sent := sent ?w2 + d\<rparr>))"
        using Suc.IH [OF pre, of "Some e" ?w2] dnz
        by (simp only: w2 Let_def rs'_def [symmetric] k'_def [symmetric] if_False)
      have k: "length (takeWhile is_again (Again e # rs')) = Suc k'"
        by (simp add: Again k'_def)
      have ne: "rs' \<noteq> []"
        using Suc by (simp add: rs'_def)
      show ?thesis
        by (simp only: step rs ih Again) (simp add: Let_def k w2 last_exn_Cons ne Suc sleep_def k'_def [symmetric])
    qed
  qed
qed

lemma make_request_loop:
  "make_request_with_retry m u a mr w =
     retry_loop m u a mr [0..<0 + nat (mr + 1)] None (snd (get_client w))"
  by (simp add: make_request_with_retry_def py_range_def split: prod.split)

lemma make_request_stops:
  assumes "k < nat (mr + 1)"
    and "\<forall>i<k. is_again (attempt_result u (net w (sent w + i)))"
    and "attempt_result u (net w (sent w + k)) = Stop v"
  shows "make_request_with_retry m u a mr w =
     (v, (snd (get_client w))\<lparr>events := events (snd (get_client w)) @ attempt_events m u a 0 (Suc k),
                            sent := sent w + Suc k\<rparr>)"
proof -
  let ?w1 = "snd (get_client w)"
  have len: "length (takeWhile is_again (map (attempt_result u \<circ> net ?w1) [sent ?w1..<sent ?w1 + nat (mr + 1)])) = k"
    using assms by (intro length_takeWhile_upt) (simp_all add: world_simps)
  have nth: "map (attempt_result u \<circ> net ?w1) [sent ?w1..<sent ?w1 + nat (mr + 1)] ! k = Stop v"
    using assms by (simp add: world_simps)
  show ?thesis
    using retry_loop_closed [of 0 "nat (mr + 1)" mr m u a None ?w1] assms(1) len nth
    by (simp add: make_request_loop Let_def world_simps)
qed

lemma make_request_exhausts:
  assumes "\<forall>i<nat (mr + 1). is_again (attempt_result u (net w (sent w + i)))"
  shows "make_request_with_retry m u a mr w =
     (Inl (exhausted_error mr (last_exn (map (attempt_result u \<circ> net w) [sent w..<sent w + nat (mr + 1)]))),
      (snd (get_client w))\<lparr>events := events (snd (get_client w)) @ attempt_events m u a 0 (nat (mr + 1)),
                            sent := sent w + nat (mr + 1)\<rparr>)"
proof -
  let ?w1 = "snd (get_client w)"
  have len: "length (takeWhile is_again (map (attempt_result u \<circ> net ?w1) [sent ?w1..<sent ?w1 + nat (mr + 1)])) = nat (mr + 1)"
    using assms by (intro length_takeWhile_upt) (simp_all add: world_simps)
  show ?thesis
    using retry_loop_closed [of 0 "nat (mr + 1)" mr m u a None ?w1] len
    by (cases "nat (mr + 1) = 0") (simp_all add: make_request_loop Let_def world_simps last_exn_def)
qed

lemma request_count_attempt_events [simp]: "request_count (attempt_events m u a j k) = k"
  by (induction m u a j k rule: attempt_events.induct) simp_all

lemma slept_times_attempt_events:
  "slept_times (attempt_events m u a j (Suc k)) = map (\<lambda>i. 2 ^ (j + i)) [0..<k]"
proof (induction k arbitrary: j)
  case 0
  then show ?case by simp
next
  case (Suc k)
  then show ?case by (simp add: map_upt_Suc del: upt_Suc)
qed


lemma make_request_trace:
  "\<exists>k \<le> nat (mr + 1). snd (make_request_with_retry m u a mr w) =
     (snd (get_client w))\<lparr>events := events (snd (get_client w)) @ attempt_events m u a 0 k,
                           sent := sent w + k\<rparr>"
  using retry_loop_closed [of 0 "nat (mr + 1)" mr m u a None "snd (get_client w)"]
  by (auto simp: make_request_loop Let_def world_simps split: if_splits intro: Suc_leI)

lemma slept_times_attempt_events_any:
  "slept_times (attempt_events m u a 0 k) = map (\<lambda>i. 2 ^ i) [0..<k - 1]"
  by (cases k) (simp_all add: slept_times_attempt_events)

lemma attempt_result_transient [simp]:
  "attempt_result u (TimedOut s) = Again (TimeoutException s)"
  "attempt_result u (ConnectFailed s) = Again (ConnectError s)"
  "attempt_result u (OtherFailure s) = Stop (Inl (TransportError s))"
  by (simp_all add: attempt_result_def checked_result_def outcome_result_def)

lemma attempt_result_Responded:
  "attempt_result u (Responded r) =
     (if 200 \<le> status_code r \<and> status_code r < 300 then Stop (Inr r)
      else if 400 \<le> status_code r \<and> status_code r < 500
      then Stop (Inl (LangflowServiceError (''Client error '' @ show_int (status_code r) @ '': '' @ response_text r)))
      else Again (HTTPStatusError (status_code r) (response_text r)
                   (status_class_name (status_code r) @ '' '' @ [CHR 0x27] @ show_int (status_code r)
                    @ [CHR 0x27] @ '' for url '' @ [CHR 0x27] @ u @ [CHR 0x27])))"
  by (simp add: attempt_result_def checked_result_def outcome_result_def raise_for_status_def)

lemma last_exn_replicate [simp]: "0 < n \<Longrightarrow> last_exn (replicate n (Again e)) = Some e"
  unfolding last_exn_def rev_replicate by (cases n) simp_all

lemma make_request_trace_pos:
  assumes "0 \<le> mr"
  shows "\<exists>k. 1 \<le> k \<and> k \<le> nat (mr + 1) \<and> snd (make_request_with_retry m u a mr w) =
     (snd (get_client w))\<lparr>events := events (snd (get_client w)) @ attempt_events m u a 0 k,
                           sent := sent w + k\<rparr>"
proof -
  let ?w1 = "snd (get_client w)"
  let ?k = "length (takeWhile is_again (map (attempt_result u \<circ> net ?w1) [sent ?w1..<sent ?w1 + nat (mr + 1)]))"
  note c = retry_loop_closed [of 0 "nat (mr + 1)" mr m u a None ?w1]
  show ?thesis
  proof (cases "?k < nat (mr + 1)")
    case True
    then show ?thesis
      using c by (intro exI [of _ "Suc ?k"]) (simp add: make_request_loop Let_def world_simps)
  next
    case False
    then show ?thesis
      using c assms by (intro exI [of _ "nat (mr + 1)"]) (simp add: make_request_loop Let_def world_simps)
  qed
qed

lemma filter_request_attempt_events [simp]:
  "filter is_request (attempt_events m u a j k) = replicate k (Request m u a)"
  by (induction m u a j k rule: attempt_events.induct) simp_all

lemma make_request_result_cases:
  "fst (make_request_with_retry m u a mr w) = Inl e \<Longrightarrow> is_service_error e \<Longrightarrow> exn_str e \<noteq> []"
proof -
  assume r: "fst (make_request_with_retry m u a mr w) = Inl e" and s: "is_service_error e"
  let ?w1 = "snd (get_client w)"
  let ?rs = "map (attempt_result u \<circ> net ?w1) [sent ?w1..<sent ?w1 + nat (mr + 1)]"
  let ?k = "length (takeWhile is_again ?rs)"
  show ?thesis
  proof (cases "?k < nat (mr + 1)")
    case True
    then have "\<not> is_again (?rs ! ?k)"
      using nth_length_takeWhile [of is_again ?rs] by simp
    then obtain v where v: "?rs ! ?k = Stop v"
      by (cases "?rs ! ?k") auto
    have "v = Inl e"
      using r True v retry_loop_closed [of 0 "nat (mr + 1)" mr m u a None ?w1]
      by (simp add: make_request_loop Let_def)
    with v True have "attempt_result u (net ?w1 (sent ?w1 + ?k)) = Stop (Inl e)"
      by simp
    with s show ?thesis
      by (auto simp: attempt_result_def checked_result_def outcome_result_def raise_for_status_def
               split: sum.splits transport_outcome.splits if_splits elim: retry_handler.elims)
  next
    case False
    then have "e = exhausted_error mr (if nat (mr + 1) = 0 then None else last_exn ?rs)"
      using r retry_loop_closed [of 0 "nat (mr + 1)" mr m u a None ?w1]
      by (simp add: make_request_loop Let_def)
    then show ?thesis by (simp add: exhausted_error_def)
  qed
qed

lemma make_request_W_400:
  "make_request_with_retry m u a default_max_retries W_400 =
     (Inl (LangflowServiceError ''Client error 400: Bad Request''),
      (snd (get_client W_400))\<lparr>events := events (snd (get_client W_400)) @ [Request m u a], sent := Suc 0\<rparr>)"
proof -
  have c: "show_int 400 = ''400''" by code_simp
  have "make_request_with_retry m u a default_max_retries W_400 =
     (Inl (LangflowServiceError (''Client error '' @ show_int 400 @ '': '' @ ''Bad Request'')),
      (snd (get_client W_400))\<lparr>events := events (snd (get_client W_400)) @ attempt_events m u a 0 (Suc 0),
                               sent := sent W_400 + Suc 0\<rparr>)"
    by (rule make_request_stops) (simp_all add: W_400_def init_world_def resp_400_def default_max_retries_def attempt_result_Responded)
  then show ?thesis using c by (simp add: W_400_def init_world_def)
qed

lemma attempt_result_success:
  "attempt_result u t = Stop (Inr r) \<longleftrightarrow> t = Responded r \<and> 200 \<le> status_code r \<and> status_code r < 300"
  by (cases t) (auto simp: attempt_result_Responded)

lemma make_request_result:
  "fst (make_request_with_retry m u a mr w) =
     (let rs = map (attempt_result u \<circ> net w) [sent w..<sent w + nat (mr + 1)];
          k = length (takeWhile is_again rs)
      in if k < nat (mr + 1) then stop_value (rs ! k)
         else Inl (exhausted_error mr (if nat (mr + 1) = 0 then None else last_exn rs)))"
  using retry_loop_closed [of 0 "nat (mr + 1)" mr m u a None "snd (get_client w)"]
  by (simp add: make_request_loop Let_def world_simps split: if_splits)

text \<open>
  C1.  \<open>_make_request_with_retry\<close> implements its loop-free specification: after
  \<open>_get_client()\<close>, the call returns what \<open>retry_spec\<close> computes from the outcomes
  of the next \<open>max_retries + 1\<close> requests, sends exactly the number of requests
  \<open>retry_spec\<close> gives, and leaves the trace \<open>attempt_events\<close>: those requests
  separated by sleeps of \<open>2^0, 2^1, ...\<close>.
\<close>

theorem make_request_with_retry_refines:
  "make_request_with_retry m u a mr w =
     (let w1 = snd (get_client w);
          (res, k) = retry_spec u mr (map (net w1) [sent w1..<sent w1 + nat (mr + 1)])
      in (res, w1\<lparr>events := events w1 @ attempt_events m u a 0 k, sent := sent w1 + k\<rparr>))"
  using retry_loop_closed [of 0 "nat (mr + 1)" mr m u a None "snd (get_client w)"]
  by (cases "nat (mr + 1) = 0")
     (simp_all add: make_request_loop retry_spec_def Let_def last_exn_def)

text \<open>
  C2.  A request that times out on its first attempt and succeeds on its second
  (with \<open>max_retries \<ge> 1\<close>) returns the successful response after exactly two
  requests with one sleep of \<open>2^0 = 1\<close> between them.
\<close>

theorem retry_timeout_then_success:
  assumes "1 \<le> mr" and "net w (sent w) = TimedOut s" and "net w (Suc (sent w)) = Responded r"
    and "200 \<le> status_code r" and "status_code r < 300"
  shows "make_request_with_retry m u a mr w =
     (Inr r, (snd (get_client w))\<lparr>events := events (snd (get_client w)) @ [Request m u a, Slept 1, Request m u a],
                                   sent := sent w + 2\<rparr>)"
proof -
  have "make_request_with_retry m u a mr w =
     (Inr r, (snd (get_client w))\<lparr>events := events (snd (get_client w)) @ attempt_events m u a 0 (Suc 1),
                                   sent := sent w + Suc 1\<rparr>)"
    using assms by (intro make_request_stops) (simp_all add: attempt_result_Responded)
  then show ?thesis by (simp add: numeral_2_eq_2)
qed

theorem retry_timeout_then_success_witness:
  "1 \<le> default_max_retries \<and> net W_ts (sent W_ts) = TimedOut ''Timeout'' \<and>
   make_request_with_retry ''GET'' ''http://test.com'' no_args default_max_retries W_ts =
     (Inr \<lparr>status_code = 200, response_text = ''{}'', json_body = Inr (JObj [])\<rparr>,
      (snd (get_client W_ts))\<lparr>events := [PoolOpened, Request ''GET'' ''http://test.com'' no_args, Slept 1,
                                         Request ''GET'' ''http://test.com'' no_args], sent := 2\<rparr>)"
  using retry_timeout_then_success [of default_max_retries W_ts "''Timeout''"
          "\<lparr>status_code = 200, response_text = ''{}'', json_body = Inr (JObj [])\<rparr>" "''GET''" "''http://test.com''" no_args]
  by (simp add: W_ts_def init_world_def default_max_retries_def get_client_def open_pool_def Let_def default_service_def new_service_def)

text \<open>
  C3.  When every attempt fails with the same retryable failure (timeout,
  connection error, status outside 2xx and 4xx) and \<open>max_retries \<ge> 0\<close>, the call
  sends exactly \<open>max_retries + 1\<close> requests and raises
  \<open>LangflowServiceError("Failed to make request after <max_retries+1> attempts: <last error>")\<close>.
\<close>

theorem retry_persistent_failure:
  assumes "0 \<le> mr" and "attempt_result u t = Again e" and "\<forall>i. net w i = t"
  shows "fst (make_request_with_retry m u a mr w) =
           Inl (LangflowServiceError
                  (''Failed to make request after '' @ show_int (mr + 1) @ '' attempts: '' @ exn_str e)) \<and>
         request_count (events (snd (make_request_with_retry m u a mr w))) =
           request_count (events w) + nat (mr + 1)"
proof -
  have rs: "map (attempt_result u \<circ> net w) [sent w..<sent w + nat (mr + 1)] = replicate (nat (mr + 1)) (Again e)"
  proof -
    have "net w = (\<lambda>_. t)" using assms(3) by auto
    with assms(2) show ?thesis by (simp add: comp_def map_replicate_const)
  qed
  have pos: "nat (mr + 1) = Suc (nat mr)"
    using assms(1) by simp
  show ?thesis
    using make_request_exhausts [of mr u w m a] assms rs pos
    by (simp add: world_simps exhausted_error_def last_exn_def)
qed

theorem retry_persistent_failure_witness:
  "0 \<le> default_max_retries \<and>
   attempt_result ''http://test.com'' (TimedOut ''Persistent timeout'') = Again (TimeoutException ''Persistent timeout'') \<and>
   (\<forall>i. net W_persist i = TimedOut ''Persistent timeout'') \<and>
   fst (make_request_with_retry ''GET'' ''http://test.com'' no_args default_max_retries W_persist) =
     Inl (LangflowServiceError ''Failed to make request after 4 attempts: Persistent timeout'') \<and>
   request_count (events (snd (make_request_with_retry ''GET'' ''http://test.com'' no_args default_max_retries W_persist))) = 4"
proof -
  have h: "0 \<le> default_max_retries" "\<forall>i. net W_persist i = TimedOut ''Persistent timeout''"
    by (simp_all add: default_max_retries_def W_persist_def init_world_def)
  have four: "show_int (default_max_retries + 1) = ''4''"
    by code_simp
  show ?thesis
    using retry_persistent_failure [OF h(1) attempt_result_transient(1) h(2), where m = "''GET''" and a = no_args] h four
    by (simp add: W_persist_def init_world_def default_max_retries_def)
qed

text \<open>
  C4.  A 4xx status on the first attempt is not retried: the call sends one
  request, sleeps never, and raises
  \<open>LangflowServiceError("Client error <status>: <body text>")\<close>.
\<close>

theorem retry_client_error_no_retry:
  assumes "0 \<le> mr" and "net w (sent w) = Responded r"
    and "400 \<le> status_code r" and "status_code r < 500"
  shows "make_request_with_retry m u a mr w =
     (Inl (LangflowServiceError (''Client error '' @ show_int (status_code r) @ '': '' @ response_text r)),
      (snd (get_client w))\<lparr>events := events (snd (get_client w)) @ [Request m u a], sent := Suc (sent w)\<rparr>)"
proof -
  have "make_request_with_retry m u a mr w =
     (Inl (LangflowServiceError (''Client error '' @ show_int (status_code r) @ '': '' @ response_text r)),
      (snd (get_client w))\<lparr>events := events (snd (get_client w)) @ attempt_events m u a 0 (Suc 0),
                            sent := sent w + Suc 0\<rparr>)"
    using assms by (intro make_request_stops) (simp_all add: attempt_result_Responded)
  then show ?thesis by simp
qed

theorem retry_client_error_no_retry_witness:
  "0 \<le> default_max_retries \<and> net W_400 (sent W_400) = Responded resp_400 \<and>
   400 \<le> status_code resp_400 \<and> status_code resp_400 < 500 \<and>
   fst (make_request_with_retry ''GET'' ''http://test.com'' no_args default_max_retries W_400) =
     Inl (LangflowServiceError ''Client error 400: Bad Request'') \<and>
   request_count (events (snd (make_request_with_retry ''GET'' ''http://test.com'' no_args default_max_retries W_400))) = 1"
proof -
  have h: "0 \<le> default_max_retries" "net W_400 (sent W_400) = Responded resp_400"
      "400 \<le> status_code resp_400" "status_code resp_400 < 500"
    by (simp_all add: default_max_retries_def W_400_def init_world_def resp_400_def)
  have c: "show_int (status_code resp_400) = ''400''" "response_text resp_400 = ''Bad Request''"
    by code_simp+
  show ?thesis
    using retry_client_error_no_retry [OF h, of "''GET''" "''http://test.com''" no_args] h c
    by (simp add: world_simps W_400_def init_world_def)
qed

text \<open>
  C5.  The backoff is pure exponential: a call that sends \<open>k\<close> requests
  (\<open>k \<le> max_retries + 1\<close>) sleeps exactly \<open>2^0, 2^1, ..., 2^(k-2)\<close>, in that order,
  with no jitter and no cap.
\<close>

theorem retry_backoff_exponential:
  "\<exists>k \<le> nat (mr + 1).
     request_count (events (snd (make_request_with_retry m u a mr w))) = request_count (events w) + k \<and>
     slept_times (events (snd (make_request_with_retry m u a mr w))) =
       slept_times (events w) @ map (\<lambda>i. 2 ^ i) [0..<k - 1]"
proof -
  obtain k where "k \<le> nat (mr + 1)" and
    w': "snd (make_request_with_retry m u a mr w) =
       (snd (get_client w))\<lparr>events := events (snd (get_client w)) @ attempt_events m u a 0 k,
                             sent := sent w + k\<rparr>"
    using make_request_trace by blast
  then show ?thesis
    by (intro exI [of _ k]) (simp add: w' world_simps slept_times_attempt_events_any)
qed

text \<open>
  C6.  Bounds of one call: it sends at most \<open>max_retries + 1\<close> requests and
  sleeps less than \<open>2^max_retries\<close> time units in total (\<open>2^k - 1\<close> after
  \<open>k + 1\<close> attempts).
\<close>

theorem retry_bounds:
  "request_count (events (snd (make_request_with_retry m u a mr w))) \<le> request_count (events w) + nat (mr + 1) \<and>
   sum_list (slept_times (events (snd (make_request_with_retry m u a mr w)))) <
     sum_list (slept_times (events w)) + 2 ^ nat mr"
proof -
  obtain k where k: "k \<le> nat (mr + 1)" and
    w': "snd (make_request_with_retry m u a mr w) =
       (snd (get_client w))\<lparr>events := events (snd (get_client w)) @ attempt_events m u a 0 k,
                             sent := sent w + k\<rparr>"
    using make_request_trace by blast
  have "(2::nat) ^ (k - 1) \<le> 2 ^ nat mr"
    using k by (intro power_increasing) simp_all
  then have "(2::nat) ^ (k - 1) - 1 < 2 ^ nat mr"
    by (simp add: less_le_trans [OF diff_less])
  with k show ?thesis
    by (simp add: w' world_simps slept_times_attempt_events_any sum_pow2_upt)
qed

text \<open>
  C8.  Only \<open>TimeoutException\<close>, \<open>ConnectError\<close> and non-4xx
  \<open>HTTPStatusError\<close> are retried.  Any other transport failure, such as a
  connection dropped while reading the response (httpx \<open>ReadError\<close>), ends the
  call after one request and leaves it as the raw httpx exception, not as a
  \<open>LangflowServiceError\<close>.
\<close>

theorem retry_other_transport_error_propagates:
  assumes "0 \<le> mr" and "net w (sent w) = OtherFailure s"
  shows "fst (make_request_with_retry m u a mr w) = Inl (TransportError s) \<and>
         request_count (events (snd (make_request_with_retry m u a mr w))) = Suc (request_count (events w))"
proof -
  have "make_request_with_retry m u a mr w =
     (Inl (TransportError s),
      (snd (get_client w))\<lparr>events := events (snd (get_client w)) @ attempt_events m u a 0 (Suc 0),
                            sent := sent w + Suc 0\<rparr>)"
    using assms by (intro make_request_stops) simp_all
  then show ?thesis by (simp add: world_simps)
qed

theorem retry_other_transport_error_propagates_witness:
  "0 \<le> default_max_retries \<and> net W_read (sent W_read) = OtherFailure ''Server disconnected'' \<and>
   fst (make_request_with_retry ''GET'' ''http://test.com'' no_args default_max_retries W_read) =
     Inl (TransportError ''Server disconnected'') \<and>
   request_count (events (snd (make_request_with_retry ''GET'' ''http://test.com'' no_args default_max_retries W_read))) = 1"
proof -
  have h: "0 \<le> default_max_retries" "net W_read (sent W_read) = OtherFailure ''Server disconnected''"
    by (simp_all add: default_max_retries_def W_read_def init_world_def)
  show ?thesis
    using retry_other_transport_error_propagates [OF h, of "''GET''" "''http://test.com''" no_args] h
    by (simp add: W_read_def init_world_def)
qed

text \<open>
  C9.  A redirect status (3xx) is retried like a server error: \<open>raise_for_status\<close>
  raises for it and the handler keeps only 4xx out of the retry path.
\<close>

theorem redirect_is_retried:
  assumes "300 \<le> status_code r" and "status_code r < 400"
  shows "is_again (attempt_result u (Responded r))"
  using assms by (simp add: attempt_result_Responded)

theorem redirect_is_retried_witness:
  "300 \<le> status_code resp_302 \<and>
   status_code resp_302 < 400 \<and>
   is_again (attempt_result ''http://test.com'' (Responded resp_302))"
  using redirect_is_retried [of resp_302 "''http://test.com''"]
  by (simp add: resp_302_def)

text \<open>
  C10.  With a negative \<open>max_retries\<close> the loop runs zero times: no request is
  sent and the call raises "Failed to make request after \<open>max_retries + 1\<close>
  attempts: None".
\<close>

theorem retry_negative_max_retries:
  assumes "mr < 0"
  shows "make_request_with_retry m u a mr w =
     (Inl (LangflowServiceError (''Failed to make request after '' @ show_int (mr + 1) @ '' attempts: None'')),
      snd (get_client w))"
  using assms by (simp add: make_request_loop exhausted_error_def str_opt_exn_def)

theorem retry_negative_max_retries_witness:
  "(-1::int) < 0 \<and>
   make_request_with_retry ''GET'' ''http://test.com'' no_args (-1) W_read =
     (Inl (LangflowServiceError ''Failed to make request after 0 attempts: None''), snd (get_client W_read))"
proof -
  have z: "show_int (-1 + 1) = ''0''"
    by code_simp
  show ?thesis
    using retry_negative_max_retries [of "-1" "''GET''" "''http://test.com''" no_args W_read] z
    by simp
qed

text \<open>
  C7.  Eventual success: a call returns a response exactly when, within its
  \<open>max_retries + 1\<close> attempts, the server answers 2xx after nothing but
  retryable failures (timeouts, connect errors, statuses outside 2xx and 4xx).
  A server that recovers inside the retry budget is always reached, and no other
  network makes the call succeed.
\<close>

theorem retry_succeeds_iff:
  "(\<exists>r. fst (make_request_with_retry m u a mr w) = Inr r) \<longleftrightarrow>
   (\<exists>k < nat (mr + 1). (\<forall>i<k. is_again (attempt_result u (net w (sent w + i)))) \<and>
      (\<exists>r. net w (sent w + k) = Responded r \<and> 200 \<le> status_code r \<and> status_code r < 300))"
  (is "?L \<longleftrightarrow> ?R")
proof
  let ?rs = "map (attempt_result u \<circ> net w) [sent w..<sent w + nat (mr + 1)]"
  let ?k = "length (takeWhile is_again ?rs)"
  assume ?L
  then obtain r where r: "fst (make_request_with_retry m u a mr w) = Inr r" by blast
  then have k: "?k < nat (mr + 1)" and v: "stop_value (?rs ! ?k) = Inr r"
    by (simp_all add: make_request_result Let_def split: if_splits)
  have "\<not> is_again (?rs ! ?k)"
    using k nth_length_takeWhile [of is_again ?rs] by simp
  with v have "attempt_result u (net w (sent w + ?k)) = Stop (Inr r)"
    using k by (cases "?rs ! ?k") simp_all
  moreover have "\<forall>i<?k. is_again (attempt_result u (net w (sent w + i)))"
  proof (intro allI impI)
    fix i assume "i < ?k"
    then have "is_again (?rs ! i)" by (rule nth_in_takeWhile)
    with \<open>i < ?k\<close> k show "is_again (attempt_result u (net w (sent w + i)))" by simp
  qed
  ultimately show ?R using k by (auto simp: attempt_result_success)
next
  assume ?R
  then obtain k r where k: "k < nat (mr + 1)" and a: "\<forall>i<k. is_again (attempt_result u (net w (sent w + i)))"
    and s: "net w (sent w + k) = Responded r" "200 \<le> status_code r" "status_code r < 300" by blast
  have st: "attempt_result u (net w (sent w + k)) = Stop (Inr r)"
    using s by (simp add: attempt_result_success)
  have "length (takeWhile is_again (map (attempt_result u \<circ> net w) [sent w..<sent w + nat (mr + 1)])) = k"
    using k a st by (intro length_takeWhile_upt) simp_all
  with k st show ?L by (simp add: make_request_result Let_def)
qed

theorem retry_succeeds_iff_witness:
  "(\<exists>k < nat (default_max_retries + 1). (\<forall>i<k. is_again (attempt_result ''http://test.com'' (net W_ts (sent W_ts + i)))) \<and>
      (\<exists>r. net W_ts (sent W_ts + k) = Responded r \<and> 200 \<le> status_code r \<and> status_code r < 300)) \<and>
   (\<exists>r. fst (make_request_with_retry ''GET'' ''http://test.com'' no_args default_max_retries W_ts) = Inr r)"
proof -
  have h: "\<exists>k < nat (default_max_retries + 1). (\<forall>i<k. is_again (attempt_result ''http://test.com'' (net W_ts (sent W_ts + i)))) \<and>
      (\<exists>r. net W_ts (sent W_ts + k) = Responded r \<and> 200 \<le> status_code r \<and> status_code r < 300)"
    by (rule exI [of _ 1]) (simp add: default_max_retries_def W_ts_def init_world_def)
  show ?thesis
    using h retry_succeeds_iff [of "''GET''" "''http://test.com''" no_args default_max_retries W_ts] by blast
qed

end
