(* ===== verification/Urls.thy ===== *)
theory Urls
  imports Prelude
begin

text \<open>
  URL construction of \<open>get_flows\<close> and \<open>execute_flow\<close>:
  \<open>urljoin(self.base_url, "/api/v1/flows/")\<close> (line 148) and
  \<open>urljoin(self.base_url, f"/api/v1/run/{flow_id}")\<close> (line 207).  Python's
  \<open>urllib.parse.urljoin\<close> is modelled for a reference that starts with one
  \<open>/\<close>, the only kind these calls pass: the base contributes its scheme and
  network location; the reference's path is split at \<open>/\<close> (empty segments are
  kept, as CPython keeps them for a reference with an absolute path), and
  \<open>.\<close> and \<open>..\<close> segments are resolved; its query
  (after \<open>?\<close>), fragment (after \<open>#\<close>) and last-segment parameters (after
  \<open>;\<close>) are kept aside and put back.  The flow id is interpolated unquoted, so
  these rules apply to whatever characters it holds.

  Not modelled: \<open>urlsplit\<close>'s validation of the base's network location, which
  raises \<open>ValueError\<close> for an unbalanced or invalid bracketed (IPv6) host and
  for a non-ASCII host whose NFKC form holds a separator, and its stripping of
  leading C0 control characters and spaces.  \<open>plain_host\<close> excludes the hosts
  where the validation applies, so the properties below hold of Python's
  \<open>urljoin\<close> as they are stated.
\<close>

section \<open>String helpers: \<open>str.split\<close>, \<open>str.join\<close>, \<open>str.partition\<close>\<close>

text \<open>\<open>s.split(c)\<close>: always at least one part.\<close>

fun split_on :: "char \<Rightarrow> string \<Rightarrow> string list" where
  "split_on c [] = [[]]"
| "split_on c (x # xs) =
     (if x = c then [] # split_on c xs
      else (case split_on c xs of p # ps \<Rightarrow> (x # p) # ps | [] \<Rightarrow> [[x]]))"

text \<open>\<open>c.join(parts)\<close>.\<close>

fun join_on :: "char \<Rightarrow> string list \<Rightarrow> string" where
  "join_on c [] = []"
| "join_on c [p] = p"
| "join_on c (p # ps) = p @ c # join_on c ps"

text \<open>\<open>s.split(c, 1)\<close> when \<open>c in s\<close>, else \<open>(s, None)\<close>.\<close>

definition split_first :: "char \<Rightarrow> string \<Rightarrow> string \<times> string option" where
  "split_first c s =
     (if c \<in> set s then (takeWhile (\<lambda>x. x \<noteq> c) s, Some (tl (dropWhile (\<lambda>x. x \<noteq> c) s)))
      else (s, None))"

section \<open>\<open>urlsplit\<close> of the base\<close>

definition scheme_char :: "char \<Rightarrow> bool" where
  "scheme_char c \<longleftrightarrow>
     (let n = (of_char c :: nat) in
      (65 \<le> n \<and> n \<le> 90) \<or> (97 \<le> n \<and> n \<le> 122) \<or> (48 \<le> n \<and> n \<le> 57) \<or> c \<in> set ''+-.'')"

definition ascii_letter :: "char \<Rightarrow> bool" where
  "ascii_letter c \<longleftrightarrow> (let n = (of_char c :: nat) in (65 \<le> n \<and> n \<le> 90) \<or> (97 \<le> n \<and> n \<le> 122))"

text \<open>The scheme (lower-cased) and the rest, as \<open>urlsplit\<close> separates them.\<close>

definition split_scheme :: "string \<Rightarrow> string \<times> string" where
  "split_scheme s =
     (let i = length (takeWhile (\<lambda>x. x \<noteq> CHR '':'') s) in
      if i < length s \<and> 0 < i \<and> ascii_letter (hd s) \<and> (\<forall>x \<in> set (take i s). scheme_char x)
      then (lower_ascii (take i s), drop (Suc i) s) else ([], s))"

text \<open>The network location after \<open>//\<close>, up to the first \<open>/\<close>, \<open>?\<close> or \<open>#\<close>.\<close>

definition split_netloc :: "string \<Rightarrow> string \<times> string" where
  "split_netloc s =
     (if take 2 s = ''//''
      then (takeWhile (\<lambda>x. x \<notin> set ''/?#'') (drop 2 s), dropWhile (\<lambda>x. x \<notin> set ''/?#'') (drop 2 s))
      else ([], s))"

definition uses_relative :: "string list" where
  "uses_relative = ['''', ''ftp'', ''http'', ''gopher'', ''nntp'', ''imap'', ''wais'', ''file'', ''https'',
     ''shttp'', ''mms'', ''prospero'', ''rtsp'', ''rtsps'', ''rtspu'', ''sftp'', ''svn'', ''svn+ssh'', ''ws'', ''wss'']"

definition uses_netloc :: "string list" where
  "uses_netloc = ['''', ''ftp'', ''http'', ''gopher'', ''nntp'', ''telnet'', ''imap'', ''wais'', ''file'', ''mms'',
     ''https'', ''shttp'', ''snews'', ''prospero'', ''rtsp'', ''rtsps'', ''rtspu'', ''rsync'', ''svn'',
     ''svn+ssh'', ''sftp'', ''nfs'', ''git'', ''git+ssh'', ''ws'', ''wss'', ''itms-services'']"

definition uses_params :: "string list" where
  "uses_params = ['''', ''ftp'', ''hdl'', ''prospero'', ''http'', ''imap'', ''https'', ''shttp'', ''rtsp'',
     ''rtsps'', ''rtspu'', ''sip'', ''sips'', ''mms'', ''sftp'', ''tel'']"

text \<open>\<open>urlsplit\<close> removes tab, CR and LF anywhere in the URL.\<close>

definition strip_unsafe :: "string \<Rightarrow> string" where
  "strip_unsafe s = filter (\<lambda>c. c \<notin> {CHR 0x09, CHR 0x0A, CHR 0x0D}) s"

section \<open>Resolving the reference's path\<close>

text \<open>The \<open>for seg in segments\<close> loop: \<open>..\<close> pops (nothing when empty), \<open>.\<close> is skipped.\<close>

fun resolve_segments :: "string list \<Rightarrow> string list \<Rightarrow> string list" where
  "resolve_segments acc [] = acc"
| "resolve_segments acc (seg # segs) =
     resolve_segments
       (if seg = ''..'' then butlast acc else if seg = ''.'' then acc else acc @ [seg]) segs"

definition dot_segment :: "string \<Rightarrow> bool" where
  "dot_segment s \<longleftrightarrow> s = ''.'' \<or> s = ''..''"

text \<open>
  \<open>segments = path.split('/')\<close> for a path starting with \<open>/\<close>, the loop, a
  trailing empty segment after a final dot segment, and \<open>'/'.join(...) or '/'\<close>.
\<close>

definition resolve_path :: "string \<Rightarrow> string" where
  "resolve_path p =
     (let segs = split_on CHR ''/'' p;
          r = resolve_segments [] segs;
          r' = (if dot_segment (last segs) then r @ [[]] else r);
          j = join_on CHR ''/'' r'
      in if j = [] then ''/'' else j)"

text \<open>\<open>_splitparams\<close>: the parameters after \<open>;\<close> in the last segment.\<close>

definition split_params :: "string \<Rightarrow> string \<times> string option" where
  "split_params p =
     (let k = length p - length (takeWhile (\<lambda>x. x \<noteq> CHR ''/'') (rev p));
          lastseg = drop k p
      in if CHR '';'' \<in> set lastseg
         then (take k p @ takeWhile (\<lambda>x. x \<noteq> CHR '';'') lastseg,
               Some (tl (dropWhile (\<lambda>x. x \<noteq> CHR '';'') lastseg)))
         else (p, None))"

section \<open>\<open>urljoin(base, ref)\<close> for a reference with an absolute path\<close>

definition urljoin_abs :: "string \<Rightarrow> string \<Rightarrow> string" where
  "urljoin_abs base ref =
     (if base = [] then ref
      else
        let (bscheme, brest) = split_scheme (strip_unsafe base);
            (bnetloc, _) = split_netloc brest;
            (r1, frag) = split_first CHR ''#'' (strip_unsafe ref);
            (r2, query) = split_first CHR ''?'' r1;
            (path, params) = (if bscheme \<in> set uses_params then split_params r2 else (r2, None));
            netloc = (if bscheme \<in> set uses_netloc then bnetloc else []);
            p = resolve_path path;
            p' = (case params of Some x \<Rightarrow> if x = [] then p else p @ CHR '';'' # x | None \<Rightarrow> p);
            u1 = (if netloc \<noteq> [] \<or> (bscheme \<noteq> [] \<and> bscheme \<in> set uses_netloc \<and> take 2 p' \<noteq> ''//'')
                  then ''//'' @ netloc @ (if p' \<noteq> [] \<and> hd p' \<noteq> CHR ''/'' then CHR ''/'' # p' else p')
                  else p');
            u2 = (if bscheme \<noteq> [] then bscheme @ CHR '':'' # u1 else u1);
            u3 = (case query of Some q \<Rightarrow> if q = [] then u2 else u2 @ CHR ''?'' # q | None \<Rightarrow> u2);
            u4 = (case frag of Some f \<Rightarrow> if f = [] then u3 else u3 @ CHR ''#'' # f | None \<Rightarrow> u3)
        in if bscheme \<notin> set uses_relative then ref else u4)"

text \<open>The two URLs of the service.\<close>

definition flows_url :: "string \<Rightarrow> string" where
  "flows_url base = urljoin_abs base ''/api/v1/flows/''"

definition run_url :: "string \<Rightarrow> string \<Rightarrow> string" where
  "run_url base fid = urljoin_abs base (''/api/v1/run/'' @ fid)"

text \<open>
  A flow id that \<open>urljoin\<close> leaves as it is: no separator of path, query,
  fragment or parameters, no character \<open>urlsplit\<close> strips, not a dot segment.
\<close>

definition plain_flow_id :: "string \<Rightarrow> bool" where
  "plain_flow_id fid \<longleftrightarrow>
     (\<forall>c \<in> set fid. c \<notin> set ''/?#;'' \<and> c \<notin> {CHR 0x09, CHR 0x0A, CHR 0x0D}) \<and> \<not> dot_segment fid"

text \<open>
  A network location \<open>urlsplit\<close> takes whole and accepts: ASCII, no path, query or
  fragment separator, no character it strips, and no bracket (so no IPv6 literal,
  whose validation is not modelled).
\<close>

definition plain_host :: "string \<Rightarrow> bool" where
  "plain_host h \<longleftrightarrow> h \<noteq> [] \<and>
     (\<forall>c \<in> set h. c \<notin> set ''/?#[]'' \<and> c \<notin> {CHR 0x09, CHR 0x0A, CHR 0x0D} \<and> (of_char c :: nat) < 128)"

section \<open>Lemmas\<close>

lemma split_on_no_sep: "c \<notin> set ys \<Longrightarrow> split_on c ys = [ys]"
  by (induction ys) auto

lemma split_first_absent: "c \<notin> set s \<Longrightarrow> split_first c s = (s, None)"
  by (simp add: split_first_def)

lemma split_params_absent: "CHR '';'' \<notin> set p \<Longrightarrow> split_params p = (p, None)"
  by (auto simp: split_params_def Let_def dest: in_set_dropD)

lemma strip_unsafe_id: "\<forall>c \<in> set s. c \<notin> {CHR 0x09, CHR 0x0A, CHR 0x0D} \<Longrightarrow> strip_unsafe s = s"
  by (simp add: strip_unsafe_def)

lemma strip_unsafe_Cons:
  "strip_unsafe (c # s) = (if c \<in> {CHR 0x09, CHR 0x0A, CHR 0x0D} then strip_unsafe s else c # strip_unsafe s)"
  by (simp add: strip_unsafe_def)

lemma split_scheme_web:
  "split_scheme (''http://'' @ h) = (''http'', ''//'' @ h)"
  "split_scheme (''https://'' @ h) = (''https'', ''//'' @ h)"
  by (simp_all add: split_scheme_def ascii_letter_def scheme_char_def lower_ascii_def lower_char_def)

text \<open>What follows the host: nothing, or a path, query or fragment.\<close>

lemma split_netloc_sep:
  assumes "\<forall>c \<in> set h. c \<notin> set ''/?#''" and "r = [] \<or> hd r \<in> set ''/?#''"
  shows "split_netloc (''//'' @ h @ r) = (h, r)"
proof -
  have "takeWhile (\<lambda>x. x \<notin> set ''/?#'') r = [] \<and> dropWhile (\<lambda>x. x \<notin> set ''/?#'') r = r"
    using assms(2) by (cases r) auto
  with assms(1) show ?thesis
    by (simp add: split_netloc_def takeWhile_append2 dropWhile_append2 del: set_simps insert_iff)
qed

lemma strip_unsafe_Nil [simp]: "strip_unsafe [] = []"
  by (simp add: strip_unsafe_def)

lemma strip_unsafe_append [simp]: "strip_unsafe (a @ b) = strip_unsafe a @ strip_unsafe b"
  by (simp add: strip_unsafe_def)

lemma strip_unsafe_sep: "r = [] \<or> hd r \<in> set ''/?#'' \<Longrightarrow> strip_unsafe r = [] \<or> hd (strip_unsafe r) \<in> set ''/?#''"
  by (cases r) (auto simp: strip_unsafe_def)

lemma split_first_Cons:
  "split_first c (y # s) = (if y = c then ([], Some s) else (case split_first c s of (a, r) \<Rightarrow> (y # a, r)))"
  by (auto simp: split_first_def split: prod.split)

lemma split_first_sep: "c \<notin> set a \<Longrightarrow> split_first c (a @ c # b) = (a, Some b)"
  by (induction a) (auto simp: split_first_def)

lemma split_on_sep: "c \<notin> set a \<Longrightarrow> split_on c (a @ c # b) = a # split_on c b"
  by (induction a) (auto split: list.split)

lemma plain_hostD:
  "plain_host h \<Longrightarrow> (\<forall>c \<in> set h. c \<notin> set ''/?#'') \<and> (\<forall>c \<in> set h. c \<notin> {CHR 0x09, CHR 0x0A, CHR 0x0D})"
  by (auto simp: plain_host_def)

lemma plain_flow_idD:
  "plain_flow_id fid \<Longrightarrow>
     CHR ''/'' \<notin> set fid \<and> CHR ''?'' \<notin> set fid \<and> CHR ''#'' \<notin> set fid \<and> CHR '';'' \<notin> set fid \<and>
     \<not> dot_segment fid \<and> (\<forall>c \<in> set fid. c \<notin> {CHR 0x09, CHR 0x0A, CHR 0x0D})"
  by (auto simp: plain_flow_id_def)

text \<open>The base URLs of the properties: \<open>urlsplit\<close> gives back the scheme and the host.\<close>

lemma base_web:
  assumes "sch = ''http'' \<or> sch = ''https''" and "plain_host h" and "rest = [] \<or> hd rest \<in> set ''/?#''"
  shows "split_scheme (strip_unsafe (sch @ ''://'' @ h @ rest)) = (sch, ''//'' @ h @ strip_unsafe rest) \<and>
         split_netloc (''//'' @ h @ strip_unsafe rest) = (h, strip_unsafe rest)"
proof -
  note hp = plain_hostD [OF assms(2)]
  have n: "split_netloc (''//'' @ h @ strip_unsafe rest) = (h, strip_unsafe rest)"
    using split_netloc_sep [OF conjunct1 [OF hp] strip_unsafe_sep [OF assms(3)]] .
  have u: "strip_unsafe (sch @ ''://'' @ h @ rest) = sch @ ''://'' @ h @ strip_unsafe rest"
    using assms(1) strip_unsafe_id [OF conjunct2 [OF hp]] by (auto simp: strip_unsafe_Cons)
  from assms(1) have "split_scheme (sch @ ''://'' @ h @ strip_unsafe rest) = (sch, ''//'' @ h @ strip_unsafe rest)"
    by (auto simp: split_scheme_web [simplified])
  with n u show ?thesis by simp
qed

section \<open>Properties\<close>

text \<open>
  C29.  \<open>urljoin\<close> with the references of lines 148 and 207, which start with \<open>/\<close>,
  keeps only the scheme and the host of the base.  For any base
  \<open>http://<host><rest>\<close> or \<open>https://<host><rest>\<close> with a plain host and any path,
  parameters, query or fragment \<open>rest\<close> (empty for the default
  \<open>http://localhost:7860\<close>), the listing URL is \<open><scheme>://<host>/api/v1/flows/\<close>
  and the run URL of a plain flow id \<open>fid\<close> is \<open><scheme>://<host>/api/v1/run/<fid>\<close>:
  a base with a path, such as Langflow behind a proxy at
  \<open>http://proxy.local/langflow\<close>, loses its path.
\<close>

theorem service_urls:
  assumes "sch = ''http'' \<or> sch = ''https''" and "plain_host h" and "rest = [] \<or> hd rest \<in> set ''/?#''"
    and "plain_flow_id fid"
  shows "flows_url (sch @ ''://'' @ h @ rest) = sch @ ''://'' @ h @ ''/api/v1/flows/'' \<and>
         run_url (sch @ ''://'' @ h @ rest) fid = sch @ ''://'' @ h @ ''/api/v1/run/'' @ fid"
proof -
  note b = base_web [OF assms(1-3)]
  note f = plain_flow_idD [OF assms(4)]
  have s: "sch \<in> set uses_params" "sch \<in> set uses_netloc" "sch \<in> set uses_relative" "sch \<noteq> []"
    using assms(1) by (auto simp: uses_params_def uses_netloc_def uses_relative_def)
  have "flows_url (sch @ ''://'' @ h @ rest) = sch @ ''://'' @ h @ ''/api/v1/flows/''"
    using b s by (simp add: flows_url_def urljoin_abs_def strip_unsafe_def split_first_absent split_params_absent
        resolve_path_def dot_segment_def plain_host_def)
  moreover have "run_url (sch @ ''://'' @ h @ rest) fid = sch @ ''://'' @ h @ ''/api/v1/run/'' @ fid"
    using b s f by (simp add: run_url_def urljoin_abs_def strip_unsafe_Cons strip_unsafe_id split_first_absent
        split_params_absent resolve_path_def split_on_no_sep dot_segment_def)
  ultimately show ?thesis ..
qed

theorem service_urls_witness:
  "(''http'' = ''http'' \<or> ''http'' = ''https'') \<and> plain_host ''proxy.local'' \<and>
   (''/langflow'' = [] \<or> hd ''/langflow'' \<in> set ''/?#'') \<and>
   plain_flow_id ''de90b072-14d5-4983-b9ac-85156fef9bb4'' \<and>
   flows_url ''http://proxy.local/langflow'' = ''http://proxy.local/api/v1/flows/'' \<and>
   run_url ''http://proxy.local/langflow'' ''de90b072-14d5-4983-b9ac-85156fef9bb4'' =
     ''http://proxy.local/api/v1/run/de90b072-14d5-4983-b9ac-85156fef9bb4''"
proof -
  have p: "plain_host ''proxy.local''" "plain_flow_id ''de90b072-14d5-4983-b9ac-85156fef9bb4''"
    by code_simp+
  show ?thesis
    using p service_urls [of "''http''" "''proxy.local''" "''/langflow''" "''de90b072-14d5-4983-b9ac-85156fef9bb4''"]
    by simp
qed

text \<open>
  C30.  The flow id is put into the run URL without quoting, and \<open>urljoin\<close>
  parses what it holds.  For any plain base and plain \<open>x\<close>: the id \<open>..\<close> makes
  \<open>execute_flow\<close> post to \<open>/api/v1/\<close>; the id \<open>../x/\<close> climbs out of the run
  endpoint to \<open>/api/v1/x/\<close> (with \<open>x = flows\<close>, the flow-listing endpoint); and
  the id \<open>x?q\<close>, for any non-empty \<open>q\<close> without \<open>#\<close> or a character \<open>urlsplit\<close>
  strips, runs the flow \<open>x\<close> with the query \<open>q\<close> appended to the request.
\<close>

theorem run_url_unquoted_id:
  assumes "sch = ''http'' \<or> sch = ''https''" and "plain_host h" and "plain_flow_id x"
    and "q \<noteq> []" and "CHR ''#'' \<notin> set q" and "strip_unsafe q = q"
  shows "run_url (sch @ ''://'' @ h) ''..'' = sch @ ''://'' @ h @ ''/api/v1/'' \<and>
         run_url (sch @ ''://'' @ h) (''../'' @ x @ ''/'') = sch @ ''://'' @ h @ ''/api/v1/'' @ x @ ''/'' \<and>
         run_url (sch @ ''://'' @ h) (x @ ''?'' @ q) = sch @ ''://'' @ h @ ''/api/v1/run/'' @ x @ ''?'' @ q"
proof -
  note b = base_web [OF assms(1,2), of "[]", simplified]
  note f = plain_flow_idD [OF assms(3)]
  have s: "sch \<in> set uses_params" "sch \<in> set uses_netloc" "sch \<in> set uses_relative" "sch \<noteq> []"
    using assms(1) by (auto simp: uses_params_def uses_netloc_def uses_relative_def)
  note q = assms(5,6)
  have "run_url (sch @ ''://'' @ h) ''..'' = sch @ ''://'' @ h @ ''/api/v1/''"
    using b s by (simp add: run_url_def urljoin_abs_def strip_unsafe_Cons split_first_absent
        split_params_absent resolve_path_def dot_segment_def)
  moreover have "run_url (sch @ ''://'' @ h) (''../'' @ x @ ''/'') = sch @ ''://'' @ h @ ''/api/v1/'' @ x @ ''/''"
    using b s f by (simp add: run_url_def urljoin_abs_def strip_unsafe_Cons strip_unsafe_id split_first_absent
        split_params_absent resolve_path_def split_on_sep dot_segment_def)
  moreover have "run_url (sch @ ''://'' @ h) (x @ ''?'' @ q) = sch @ ''://'' @ h @ ''/api/v1/run/'' @ x @ ''?'' @ q"
    using b s f q assms(4) by (simp add: run_url_def urljoin_abs_def strip_unsafe_Cons strip_unsafe_id split_first_absent
        split_first_Cons split_first_sep split_params_absent resolve_path_def split_on_no_sep dot_segment_def)
  ultimately show ?thesis by blast
qed

theorem run_url_unquoted_id_witness:
  "(''http'' = ''http'' \<or> ''http'' = ''https'') \<and> plain_host ''localhost:7860'' \<and> plain_flow_id ''flows'' \<and>
   ''y=1'' \<noteq> [] \<and> CHR ''#'' \<notin> set ''y=1'' \<and> strip_unsafe ''y=1'' = ''y=1'' \<and>
   run_url ''http://localhost:7860'' ''..'' = ''http://localhost:7860/api/v1/'' \<and>
   run_url ''http://localhost:7860'' ''../flows/'' = ''http://localhost:7860/api/v1/flows/'' \<and>
   run_url ''http://localhost:7860'' ''flows?y=1'' = ''http://localhost:7860/api/v1/run/flows?y=1''"
proof -
  have p: "plain_host ''localhost:7860''" "plain_flow_id ''flows''" "strip_unsafe ''y=1'' = ''y=1''"
    by code_simp+
  show ?thesis
    using p run_url_unquoted_id [of "''http''" "''localhost:7860''" "''flows''" "''y=1''", OF _ p(1,2) _ _ p(3)]
    by simp
qed

end
