(* ===== verification/Service.thy ===== *)
theory Service
  imports Models Retry Urls
begin

text \<open>
  The two public operations of \<open>LangflowService\<close> and its context manager
  (lines 137--256 of \<open>langflow_service.py\<close>).  \<open>get_flows\<close> is fail-fast: every
  failure leaves it as a \<open>LangflowServiceError\<close> (\<open>Inl\<close>).  \<open>execute_flow\<close> is
  fail-soft: its \<open>try\<close> body may raise, but both \<open>except\<close> clauses turn the
  exception into a \<open>FlowExecutionResponse\<close> with \<open>success=False\<close>.  Both are
  written as their code is: the request through \<open>make_request_with_retry\<close>,
  then \<open>response.json()\<close>, then the pure processing of the body, with every
  \<open>raise\<close> and \<open>except\<close> a branch on \<open>exn + _\<close>.  Each is defined over the request
  primitive (\<open>get_flows_with\<close>, \<open>execute_flow_with\<close>), which the service itself
  instantiates with \<open>make_request_with_retry\<close> and the unit tests with a mock.
\<close>

section \<open>\<open>get_flows\<close>\<close>

text \<open>Lines 148--155: the listing request.\<close>

definition flows_params :: "(string \<times> string) list" where
  "flows_params = [(''header_flows'', ''true''), (''get_all'', ''true'')]"

definition flows_args :: req_args where
  "flows_args = \<lparr>params = flows_params, json_payload = None, headers = []\<rparr>"

definition unexpected_format :: "json \<Rightarrow> exn" where
  "unexpected_format v = LangflowServiceError (''Unexpected response format: '' @ py_type_repr v)"

text \<open>Lines 161--166: the two accepted shapes of the body.\<close>

definition flows_data_of :: "json \<Rightarrow> exn + json" where
  "flows_data_of v =
     (case v of
        JObj d \<Rightarrow> (case dict_get d ''flows'' of Some x \<Rightarrow> Inr x | None \<Rightarrow> Inl (unexpected_format v))
      | JArr _ \<Rightarrow> Inr v
      | _ \<Rightarrow> Inl (unexpected_format v))"

text \<open>
  Lines 169--176: \<open>FlowResponse(**flow_data)\<close> for each item; a
  \<open>ValidationError\<close> skips the item, while \<open>**\<close> on an item that is not a
  mapping raises \<open>TypeError\<close>, which the \<open>except ValidationError\<close> does not catch.
\<close>

definition not_mapping :: "json \<Rightarrow> exn" where
  "not_mapping v = TypeError (''services.langflow_service.FlowResponse() argument after ** must be a mapping, not '' @ py_type_name v)"

fun collect_flows :: "flow_response list \<Rightarrow> json list \<Rightarrow> exn + flow_response list" where
  "collect_flows acc [] = Inr acc"
| "collect_flows acc (x # xs) =
     (case x of
        JObj d \<Rightarrow> (case validate_flow d of
                     Some f \<Rightarrow> collect_flows (acc @ [f]) xs
                   | None \<Rightarrow> collect_flows acc xs)
      | _ \<Rightarrow> Inl (not_mapping x))"

text \<open>\<open>for flow_data in flows_data\<close>: iterating a value that is not iterable raises \<open>TypeError\<close>.\<close>

definition parse_flows_response :: "json \<Rightarrow> exn + flow_response list" where
  "parse_flows_response v =
     (case flows_data_of v of
        Inl e \<Rightarrow> Inl e
      | Inr fd \<Rightarrow>
          (case py_iter fd of
             None \<Rightarrow> Inl (TypeError ([CHR 0x27] @ py_type_name fd @ [CHR 0x27] @ '' object is not iterable''))
           | Some items \<Rightarrow> collect_flows [] items))"

text \<open>Lines 181--186: a service error is re-raised as it is, anything else is wrapped.\<close>

definition wrap_fetch_error :: "exn \<Rightarrow> exn" where
  "wrap_fetch_error e =
     (if is_service_error e then e else LangflowServiceError (''Failed to fetch flows: '' @ exn_str e))"

text \<open>Lines 157--186: what \<open>get_flows\<close> makes of the outcome of its request.\<close>

definition flows_result :: "exn + response \<Rightarrow> exn + flow_response list" where
  "flows_result r =
     (case r of
        Inl e \<Rightarrow> Inl (wrap_fetch_error e)
      | Inr resp \<Rightarrow>
          (case response_json resp of
             Inl e \<Rightarrow> Inl (wrap_fetch_error e)
           | Inr v \<Rightarrow>
               (case parse_flows_response v of
                  Inl e \<Rightarrow> Inl (wrap_fetch_error e)
                | Inr fs \<Rightarrow> Inr fs)))"

text \<open>
  \<open>get_flows\<close> over the request primitive it calls, so that a test double can
  stand for \<open>_make_request_with_retry\<close> as \<open>patch.object\<close> makes it.
\<close>

type_synonym request_fn = "string \<Rightarrow> string \<Rightarrow> req_args \<Rightarrow> int \<Rightarrow> world \<Rightarrow> (exn + response) \<times> world"

definition get_flows_with :: "request_fn \<Rightarrow> world \<Rightarrow> (exn + flow_response list) \<times> world" where
  "get_flows_with req w =
     (case req ''GET'' (flows_url (base_url (svc w))) flows_args default_max_retries w of
        (r, w1) \<Rightarrow> (flows_result r, w1))"

definition get_flows :: "world \<Rightarrow> (exn + flow_response list) \<times> world" where
  "get_flows w = get_flows_with make_request_with_retry w"

section \<open>\<open>execute_flow\<close>\<close>

text \<open>Lines 214--219: the run request with the dumped payload and a JSON content type.\<close>

definition execute_args :: "flow_execution_request \<Rightarrow> req_args" where
  "execute_args r =
     \<lparr>params = [], json_payload = Some (dump_execution_request r),
      headers = [(''Content-Type'', ''application/json'')]\<rparr>"

text \<open>Lines 233--248: the two \<open>except\<close> clauses.\<close>

definition execution_failure :: "exn \<Rightarrow> flow_execution_response" where
  "execution_failure e =
     (if is_service_error e
      then \<lparr>success = False, result = JNull, error = Some (exn_str e)\<rparr>
      else \<lparr>success = False, result = JNull,
            error = Some (''Unexpected error during flow execution: '' @ exn_str e)\<rparr>)"

text \<open>Lines 206--231: the \<open>try\<close> body, which may raise.\<close>

text \<open>Lines 221--231: the rest of the \<open>try\<close> body after the request.\<close>

definition execution_outcome :: "exn + response \<Rightarrow> exn + flow_execution_response" where
  "execution_outcome r =
     (case r of
        Inl e \<Rightarrow> Inl e
      | Inr resp \<Rightarrow>
          (case response_json resp of
             Inl e \<Rightarrow> Inl e
           | Inr v \<Rightarrow> Inr \<lparr>success = True, result = v, error = None\<rparr>))"

definition execute_flow_body_with ::
  "request_fn \<Rightarrow> string \<Rightarrow> flow_execution_request \<Rightarrow> world \<Rightarrow> (exn + flow_execution_response) \<times> world"
where
  "execute_flow_body_with req fid r w =
     (case req ''POST'' (run_url (base_url (svc w)) fid) (execute_args r) default_max_retries w of
        (x, w1) \<Rightarrow> (execution_outcome x, w1))"

text \<open>The \<open>try\<close> statement: the body's result, or the response the \<open>except\<close> clauses build.\<close>

definition execution_response :: "exn + flow_execution_response \<Rightarrow> flow_execution_response" where
  "execution_response x = (case x of Inl e \<Rightarrow> execution_failure e | Inr res \<Rightarrow> res)"

definition execute_flow_with ::
  "request_fn \<Rightarrow> string \<Rightarrow> flow_execution_request \<Rightarrow> world \<Rightarrow> (exn + flow_execution_response) \<times> world"
where
  "execute_flow_with req fid r w =
     (case execute_flow_body_with req fid r w of (x, w1) \<Rightarrow> (Inr (execution_response x), w1))"

definition execute_flow_body ::
  "string \<Rightarrow> flow_execution_request \<Rightarrow> world \<Rightarrow> (exn + flow_execution_response) \<times> world"
where
  "execute_flow_body fid r w = execute_flow_body_with make_request_with_retry fid r w"

definition execute_flow ::
  "string \<Rightarrow> flow_execution_request \<Rightarrow> world \<Rightarrow> (exn + flow_execution_response) \<times> world"
where
  "execute_flow fid r w = execute_flow_with make_request_with_retry fid r w"

section \<open>Context manager\<close>

text \<open>\<open>__aenter__\<close> returns the service unchanged; \<open>__aexit__\<close> awaits \<open>close()\<close> (lines 250--256).\<close>

definition aexit :: "world \<Rightarrow> world" where
  "aexit w = close w"

section \<open>Fixtures of the test suite and result consistency\<close>

definition exec_result_consistent :: "flow_execution_response \<Rightarrow> bool" where
  "exec_result_consistent r \<longleftrightarrow>
     (success r \<longleftrightarrow> error r = None) \<and> (\<not> success r \<longrightarrow> result r = JNull \<and> error r \<noteq> Some [])"

definition flow1_json :: py_dict where
  "flow1_json = [(''id'', JStr ''flow-1''), (''name'', JStr ''Test Flow 1''), (''folder_id'', JStr ''folder-1''),
     (''is_component'', JBool False), (''endpoint_name'', JNull), (''description'', JStr ''A test flow''),
     (''data'', JNull), (''access_type'', JStr ''public''), (''tags'', JArr [JStr ''test'', JStr ''demo'']),
     (''mcp_enabled'', JBool True), (''action_name'', JNull), (''action_description'', JNull)]"

definition flow2_invalid_json :: py_dict where
  "flow2_invalid_json = [(''id'', JStr ''flow-2''), (''name'', JStr ''Invalid Flow'')]"

definition flow1 :: flow_response where
  "flow1 = \<lparr>flow_id = ''flow-1'', name = ''Test Flow 1'', folder_id = ''folder-1'', is_component = False,
     endpoint_name = None, description = ''A test flow'', data = JNull, access_type = ''public'',
     tags = [''test'', ''demo''], mcp_enabled = True, action_name = None, action_description = None\<rparr>"

definition ok_response :: "json \<Rightarrow> response" where
  "ok_response v = \<lparr>status_code = 200, response_text = [], json_body = Inr v\<rparr>"

definition W_body :: "json \<Rightarrow> world" where
  "W_body v = init_world default_service (\<lambda>_. Responded (ok_response v))"

definition test_request :: flow_execution_request where
  "test_request = mk_execution_request ''Test input'' [(''param1'', JStr ''value1'')]"

section \<open>Lemmas\<close>

lemma collect_flows_dicts:
  "collect_flows acc (map JObj ds) = Inr (acc @ List.map_filter validate_flow ds)"
  by (induction ds arbitrary: acc) (auto split: option.split)

lemma collect_flows_non_mapping:
  "(\<forall>d. x \<noteq> JObj d) \<Longrightarrow> collect_flows acc (map JObj ds @ x # rest) = Inl (not_mapping x)"
  by (induction ds arbitrary: acc) (auto split: option.split json.split)

lemma parse_flows_list:
  "parse_flows_response (JArr (map JObj ds)) = Inr (List.map_filter validate_flow ds)"
  by (simp add: parse_flows_response_def flows_data_of_def collect_flows_dicts)

lemma first_attempt_success:
  assumes "net w (sent w) = Responded resp" and "200 \<le> status_code resp" and "status_code resp < 300"
  shows "make_request_with_retry m u a default_max_retries w =
     (Inr resp, (snd (get_client w))\<lparr>events := events (snd (get_client w)) @ [Request m u a], sent := Suc (sent w)\<rparr>)"
proof -
  have "make_request_with_retry m u a default_max_retries w =
     (Inr resp, (snd (get_client w))\<lparr>events := events (snd (get_client w)) @ attempt_events m u a 0 (Suc 0),
                                   sent := sent w + Suc 0\<rparr>)"
    using assms by (intro make_request_stops) (simp_all add: default_max_retries_def attempt_result_Responded)
  then show ?thesis by simp
qed

lemma validate_flow1: "validate_flow flow1_json = Some flow1"
  by (simp add: validate_flow_def flow1_json_def flow1_def dict_get_def req_field_def opt_field_def any_field_def)

lemma validate_flow2_invalid: "validate_flow flow2_invalid_json = None"
  by (simp add: validate_flow_def flow2_invalid_json_def dict_get_def req_field_def)

lemma wrap_fetch_error_service [simp]: "is_service_error (wrap_fetch_error e)"
  by (cases e) (simp_all add: wrap_fetch_error_def)

lemma execute_flow_result:
  "fst (execute_flow fid r w) =
     Inr (case fst (execute_flow_body fid r w) of Inl e \<Rightarrow> execution_failure e | Inr res \<Rightarrow> res)"
  by (simp add: execute_flow_def execute_flow_with_def execute_flow_body_def execution_response_def split: prod.split sum.split)

section \<open>Properties of the listing and the execution\<close>

text \<open>
  C11.  When the listing request succeeds with a JSON list of objects, \<open>get_flows\<close>
  returns exactly the records that validate as \<open>FlowResponse\<close>, in the order received;
  records that fail validation are skipped and do not affect the others.
\<close>

theorem get_flows_returns_valid_records:
  assumes "net w (sent w) = Responded resp" and "200 \<le> status_code resp" and "status_code resp < 300"
    and "json_body resp = Inr (JArr (map JObj ds))"
  shows "fst (get_flows w) = Inr (List.map_filter validate_flow ds)"
  using first_attempt_success [OF assms(1-3)] assms(4)
  by (simp add: get_flows_def get_flows_with_def flows_result_def response_json_def parse_flows_list)

theorem get_flows_returns_valid_records_witness:
  "net (W_body (JArr (map JObj [flow1_json, flow2_invalid_json]))) 0 = Responded (ok_response (JArr (map JObj [flow1_json, flow2_invalid_json]))) \<and>
   fst (get_flows (W_body (JArr (map JObj [flow1_json, flow2_invalid_json])))) = Inr [flow1]"
  using get_flows_returns_valid_records [of "W_body (JArr (map JObj [flow1_json, flow2_invalid_json]))"
          "ok_response (JArr (map JObj [flow1_json, flow2_invalid_json]))" "[flow1_json, flow2_invalid_json]"]
  by (simp add: W_body_def init_world_def ok_response_def validate_flow1 validate_flow2_invalid)

text \<open>
  C12.  A body \<open>{"flows": [...]}\<close> is processed exactly as the bare list it wraps.
\<close>

theorem get_flows_wrapper_equivalence:
  assumes "dict_get d ''flows'' = Some (JArr xs)"
  shows "parse_flows_response (JObj d) = parse_flows_response (JArr xs)"
  using assms by (simp add: parse_flows_response_def flows_data_of_def)

theorem get_flows_wrapper_equivalence_witness:
  "dict_get [(''flows'', JArr (map JObj [flow1_json, flow2_invalid_json]))] ''flows'' = Some (JArr (map JObj [flow1_json, flow2_invalid_json])) \<and>
   parse_flows_response (JObj [(''flows'', JArr (map JObj [flow1_json, flow2_invalid_json]))]) =
   parse_flows_response (JArr (map JObj [flow1_json, flow2_invalid_json]))"
  using get_flows_wrapper_equivalence [of "[(''flows'', JArr (map JObj [flow1_json, flow2_invalid_json]))]" "map JObj [flow1_json, flow2_invalid_json]"]
  by (simp add: dict_get_def)

text \<open>
  C13.  A successful response whose JSON body is neither a list nor an object with a
  \<open>flows\<close> key makes \<open>get_flows\<close> raise
  \<open>LangflowServiceError("Unexpected response format: <class ...>")\<close>, unwrapped.
\<close>

theorem get_flows_unexpected_format:
  assumes "net w (sent w) = Responded resp" and "200 \<le> status_code resp" and "status_code resp < 300"
    and "json_body resp = Inr v" and "\<forall>xs. v \<noteq> JArr xs" and "\<forall>d. v = JObj d \<longrightarrow> \<not> dict_has d ''flows''"
  shows "fst (get_flows w) = Inl (LangflowServiceError (''Unexpected response format: '' @ py_type_repr v))"
proof -
  have "parse_flows_response v = Inl (unexpected_format v)"
    using assms(5,6) dict_get_has
    by (cases v) (auto simp: parse_flows_response_def flows_data_of_def split: option.split)
  then show ?thesis
    using first_attempt_success [OF assms(1-3)] assms(4)
    by (simp add: get_flows_def get_flows_with_def flows_result_def response_json_def wrap_fetch_error_def unexpected_format_def)
qed

theorem get_flows_unexpected_format_witness:
  "fst (get_flows (W_body (JObj [(''detail'', JStr ''x'')]))) =
     Inl (LangflowServiceError ''Unexpected response format: <class 'dict'>'')"
proof -
  have t: "py_type_repr (JObj [(''detail'', JStr ''x'')]) = ''<class 'dict'>''"
    by code_simp
  show ?thesis
    using get_flows_unexpected_format [of "W_body (JObj [(''detail'', JStr ''x'')])" "ok_response (JObj [(''detail'', JStr ''x'')])"]
    by (simp add: W_body_def init_world_def ok_response_def dict_has_def t)
qed

text \<open>
  C14.  \<open>get_flows\<close> fails only with a \<open>LangflowServiceError\<close>: every other exception
  of its body is wrapped.
\<close>

theorem get_flows_error_is_service_error:
  "fst (get_flows w) = Inl e \<Longrightarrow> is_service_error e"
  by (auto simp: get_flows_def get_flows_with_def flows_result_def wrap_fetch_error_def split: prod.splits sum.splits)

theorem get_flows_error_is_service_error_witness:
  "fst (get_flows W_400) = Inl (LangflowServiceError ''Client error 400: Bad Request'') \<and>
   is_service_error (LangflowServiceError ''Client error 400: Bad Request'')"
proof -
  have c: "show_int 400 = ''400''" by code_simp
  have r: "make_request_with_retry ''GET'' (flows_url (base_url (svc W_400))) flows_args default_max_retries W_400 =
     (Inl (LangflowServiceError (''Client error '' @ show_int 400 @ '': '' @ ''Bad Request'')),
      (snd (get_client W_400))\<lparr>events := events (snd (get_client W_400)) @ attempt_events ''GET'' (flows_url (base_url (svc W_400))) flows_args 0 (Suc 0),
                               sent := sent W_400 + Suc 0\<rparr>)"
    by (rule make_request_stops) (simp_all add: W_400_def init_world_def resp_400_def default_max_retries_def attempt_result_Responded)
  have g: "fst (get_flows W_400) = Inl (LangflowServiceError ''Client error 400: Bad Request'')"
    using r c by (simp add: get_flows_def get_flows_with_def flows_result_def wrap_fetch_error_def)
  show ?thesis
    using g get_flows_error_is_service_error [OF g] by simp
qed

text \<open>
  C15.  An error of the retry primitive reaches the caller of \<open>get_flows\<close>: a
  \<open>LangflowServiceError\<close> unchanged, any other exception as
  \<open>LangflowServiceError("Failed to fetch flows: <message>")\<close>.
\<close>

theorem get_flows_no_masking:
  assumes "fst (make_request_with_retry ''GET'' (flows_url (base_url (svc w))) flows_args default_max_retries w) = Inl e"
  shows "(is_service_error e \<longrightarrow> fst (get_flows w) = Inl e) \<and>
         (\<not> is_service_error e \<longrightarrow> fst (get_flows w) = Inl (LangflowServiceError (''Failed to fetch flows: '' @ exn_str e)))"
  using assms by (auto simp: get_flows_def get_flows_with_def flows_result_def wrap_fetch_error_def split: prod.splits)

theorem get_flows_no_masking_witness:
  "fst (make_request_with_retry ''GET'' (flows_url (base_url (svc W_400))) flows_args default_max_retries W_400) =
     Inl (LangflowServiceError ''Client error 400: Bad Request'') \<and>
   fst (get_flows W_400) = Inl (LangflowServiceError ''Client error 400: Bad Request'')"
  using get_flows_no_masking [of W_400 "LangflowServiceError ''Client error 400: Bad Request''"]
  by (simp add: make_request_W_400)

text \<open>
  C16.  \<open>get_flows\<close> sends between one and four requests (default \<open>max_retries=3\<close>),
  each a \<open>GET\<close> of the flows URL with the query parameters \<open>header_flows=true\<close>
  and \<open>get_all=true\<close>.
\<close>

theorem get_flows_request_shape:
  "\<exists>k. 1 \<le> k \<and> k \<le> 4 \<and>
     filter is_request (events (snd (get_flows w))) =
       filter is_request (events w) @
       replicate k (Request ''GET'' (flows_url (base_url (svc w)))
                      \<lparr>params = [(''header_flows'', ''true''), (''get_all'', ''true'')], json_payload = None, headers = []\<rparr>)"
proof -
  have "0 \<le> default_max_retries"
    by (simp add: default_max_retries_def)
  from make_request_trace_pos [OF this, of "''GET''" "flows_url (base_url (svc w))" flows_args w]
  obtain k where k: "1 \<le> k" "k \<le> nat (default_max_retries + 1)" and
    w': "snd (make_request_with_retry ''GET'' (flows_url (base_url (svc w))) flows_args default_max_retries w) =
       (snd (get_client w))\<lparr>events := events (snd (get_client w)) @ attempt_events ''GET'' (flows_url (base_url (svc w))) flows_args 0 k,
                             sent := sent w + k\<rparr>"
    by blast
  have "snd (get_flows w) = snd (make_request_with_retry ''GET'' (flows_url (base_url (svc w))) flows_args default_max_retries w)"
    by (simp add: get_flows_def get_flows_with_def flows_result_def split: prod.split sum.split)
  with k w' show ?thesis
    by (intro exI [of _ k]) (simp add: world_simps default_max_retries_def flows_args_def flows_params_def)
qed

text \<open>
  C17.  A record of the list that is not a JSON object is not skipped like an
  invalid record: \<open>FlowResponse(**x)\<close> raises \<open>TypeError\<close>, which \<open>except
  ValidationError\<close> does not catch, and the whole listing fails with
  "Failed to fetch flows: ...".
\<close>

theorem get_flows_non_mapping_record_aborts:
  assumes "net w (sent w) = Responded resp" and "200 \<le> status_code resp" and "status_code resp < 300"
    and "json_body resp = Inr (JArr (map JObj ds @ x # rest))" and "\<forall>d. x \<noteq> JObj d"
  shows "fst (get_flows w) =
           Inl (LangflowServiceError (''Failed to fetch flows: services.langflow_service.FlowResponse() argument after ** must be a mapping, not ''
                                      @ py_type_name x))"
  using first_attempt_success [OF assms(1-3)] assms(4,5)
  by (simp add: get_flows_def get_flows_with_def flows_result_def response_json_def parse_flows_response_def flows_data_of_def
                collect_flows_non_mapping wrap_fetch_error_def not_mapping_def)

theorem get_flows_non_mapping_record_aborts_witness:
  "fst (get_flows (W_body (JArr (map JObj [flow1_json] @ [JNull])))) =
     Inl (LangflowServiceError ''Failed to fetch flows: services.langflow_service.FlowResponse() argument after ** must be a mapping, not NoneType'')"
  using get_flows_non_mapping_record_aborts [of "W_body (JArr (map JObj [flow1_json] @ [JNull]))"
          "ok_response (JArr (map JObj [flow1_json] @ [JNull]))" "[flow1_json]" JNull "[]"]
  by (simp add: W_body_def init_world_def ok_response_def)

text \<open>
  C18.  \<open>execute_flow\<close> never raises: whatever the network does, it returns a
  \<open>FlowExecutionResponse\<close>.
\<close>

theorem execute_flow_never_raises:
  "\<exists>res. fst (execute_flow fid r w) = Inr res"
  by (simp add: execute_flow_def execute_flow_with_def execute_flow_body_def execution_response_def split: prod.split sum.split)

text \<open>
  C19.  When the run request succeeds with a JSON body, \<open>execute_flow\<close> returns
  \<open>success=True\<close>, the decoded body as \<open>result\<close>, and \<open>error=None\<close>.
\<close>

theorem execute_flow_success_echo:
  assumes "net w (sent w) = Responded resp" and "200 \<le> status_code resp" and "status_code resp < 300"
    and "json_body resp = Inr v"
  shows "fst (execute_flow fid r w) = Inr \<lparr>success = True, result = v, error = None\<rparr>"
  using first_attempt_success [OF assms(1-3)] assms(4)
  by (simp add: execute_flow_def execute_flow_with_def execute_flow_body_def execution_response_def execute_flow_body_def execute_flow_body_with_def execution_outcome_def response_json_def)

theorem execute_flow_success_echo_witness:
  "fst (execute_flow ''flow-1'' test_request (W_body (JObj [(''result'', JStr ''Flow executed successfully'')]))) =
     Inr \<lparr>success = True, result = JObj [(''result'', JStr ''Flow executed successfully'')], error = None\<rparr>"
  using execute_flow_success_echo [of "W_body (JObj [(''result'', JStr ''Flow executed successfully'')])"
          "ok_response (JObj [(''result'', JStr ''Flow executed successfully'')])"
          "JObj [(''result'', JStr ''Flow executed successfully'')]" "''flow-1''" test_request]
  by (simp add: W_body_def init_world_def ok_response_def)

text \<open>
  C20.  Every result of \<open>execute_flow\<close> is consistent: \<open>success\<close> holds exactly when
  \<open>error\<close> is \<open>None\<close>, and a failure has \<open>result=None\<close> and a non-empty error message.
\<close>

theorem execute_flow_result_consistent:
  "fst (execute_flow fid r w) = Inr res \<Longrightarrow> exec_result_consistent res"
proof -
  assume a: "fst (execute_flow fid r w) = Inr res"
  show ?thesis
  proof (cases "fst (execute_flow_body fid r w)")
    case (Inl e)
    then have res: "res = execution_failure e"
      using a by (auto simp: execute_flow_def execute_flow_with_def execute_flow_body_def execution_response_def split: prod.splits)
    have "is_service_error e \<Longrightarrow> exn_str e \<noteq> []"
      using Inl make_request_result_cases [of "''POST''" "run_url (base_url (svc w)) fid" "execute_args r"
                                              default_max_retries w e]
      by (auto simp: execute_flow_body_def execute_flow_body_with_def execution_outcome_def response_json_def split: prod.splits sum.splits)
    then show ?thesis
      by (auto simp: res execution_failure_def exec_result_consistent_def)
  next
    case (Inr x)
    then show ?thesis
      using a by (auto simp: execute_flow_def execute_flow_with_def execute_flow_body_def execution_response_def execute_flow_body_def execute_flow_body_with_def execution_outcome_def exec_result_consistent_def
                        split: prod.splits sum.splits)
  qed
qed

theorem execute_flow_result_consistent_witness:
  "fst (execute_flow ''flow-1'' test_request W_persist) =
     Inr \<lparr>success = False, result = JNull, error = Some ''Failed to make request after 4 attempts: Persistent timeout''\<rparr> \<and>
   exec_result_consistent \<lparr>success = False, result = JNull, error = Some ''Failed to make request after 4 attempts: Persistent timeout''\<rparr>"
proof -
  have h: "fst (execute_flow ''flow-1'' test_request W_persist) =
     Inr \<lparr>success = False, result = JNull, error = Some ''Failed to make request after 4 attempts: Persistent timeout''\<rparr>"
  proof -
    have all: "\<forall>i<nat (default_max_retries + 1). is_again (attempt_result u (net W_persist (sent W_persist + i)))" for u
      by (simp add: W_persist_def init_world_def)
    have rs: "map (attempt_result u \<circ> net W_persist) [sent W_persist..<sent W_persist + nat (default_max_retries + 1)] =
                replicate 4 (Again (TimeoutException ''Persistent timeout''))" for u
      by (simp add: W_persist_def init_world_def comp_def map_replicate_const default_max_retries_def)
    have four: "show_int (default_max_retries + 1) = ''4''"
      by code_simp
    show ?thesis
      using make_request_exhausts [OF all] rs four
      by (simp add: execute_flow_def execute_flow_with_def execute_flow_body_def execution_response_def execute_flow_body_def execute_flow_body_with_def execution_outcome_def execution_failure_def exhausted_error_def)
  qed
  show ?thesis
    using h execute_flow_result_consistent [OF h] by simp
qed

text \<open>
  C21.  When every attempt times out, \<open>execute_flow\<close> reports the failure as data:
  \<open>success=False\<close>, \<open>result=None\<close>, and the retry primitive's message
  "Failed to make request after 4 attempts: ...".
\<close>

theorem execute_flow_persistent_timeout:
  assumes "\<forall>i. net w i = TimedOut s"
  shows "fst (execute_flow fid r w) =
           Inr \<lparr>success = False, result = JNull, error = Some (''Failed to make request after 4 attempts: '' @ s)\<rparr>"
proof -
  have all: "\<forall>i<nat (default_max_retries + 1). is_again (attempt_result u (net w (sent w + i)))" for u
    using assms by simp
  have rs: "map (attempt_result u \<circ> net w) [sent w..<sent w + nat (default_max_retries + 1)] =
              replicate (Suc 3) (Again (TimeoutException s))" for u
  proof -
    have "net w = (\<lambda>_. TimedOut s)" using assms by auto
    then show ?thesis by (simp add: comp_def map_replicate_const default_max_retries_def)
  qed
  have four: "show_int (default_max_retries + 1) = ''4''"
    by code_simp
  show ?thesis
    using make_request_exhausts [OF all] rs four
    by (simp add: execute_flow_def execute_flow_with_def execute_flow_body_def execution_response_def execute_flow_body_def execute_flow_body_with_def execution_outcome_def execution_failure_def exhausted_error_def)
qed

theorem execute_flow_persistent_timeout_witness:
  "(\<forall>i. net W_persist i = TimedOut ''Persistent timeout'') \<and>
   fst (execute_flow ''flow-1'' test_request W_persist) =
     Inr \<lparr>success = False, result = JNull, error = Some ''Failed to make request after 4 attempts: Persistent timeout''\<rparr>"
  using execute_flow_persistent_timeout [of W_persist "''Persistent timeout''" "''flow-1''" test_request]
  by (simp add: W_persist_def init_world_def)

text \<open>
  C22.  \<open>execute_flow\<close> sends between one and four requests, each a \<open>POST\<close> of
  the run URL of the flow with the dumped \<open>FlowExecutionRequest\<close> as JSON body and
  the header \<open>Content-Type: application/json\<close>.
\<close>

theorem execute_flow_request_shape:
  "\<exists>k. 1 \<le> k \<and> k \<le> 4 \<and>
     filter is_request (events (snd (execute_flow fid r w))) =
       filter is_request (events w) @
       replicate k (Request ''POST'' (run_url (base_url (svc w)) fid)
                      \<lparr>params = [], json_payload = Some (dump_execution_request r),
                       headers = [(''Content-Type'', ''application/json'')]\<rparr>)"
proof -
  have "0 \<le> default_max_retries"
    by (simp add: default_max_retries_def)
  from make_request_trace_pos [OF this, of "''POST''" "run_url (base_url (svc w)) fid" "execute_args r" w]
  obtain k where k: "1 \<le> k" "k \<le> nat (default_max_retries + 1)" and
    w': "snd (make_request_with_retry ''POST'' (run_url (base_url (svc w)) fid) (execute_args r) default_max_retries w) =
       (snd (get_client w))\<lparr>events := events (snd (get_client w)) @ attempt_events ''POST'' (run_url (base_url (svc w)) fid) (execute_args r) 0 k,
                             sent := sent w + k\<rparr>"
    by blast
  have "snd (execute_flow fid r w) =
          snd (make_request_with_retry ''POST'' (run_url (base_url (svc w)) fid) (execute_args r) default_max_retries w)"
    by (simp add: execute_flow_def execute_flow_with_def execute_flow_body_def execution_response_def execute_flow_body_def execute_flow_body_with_def execution_outcome_def split: prod.split sum.split)
  with k w' show ?thesis
    by (intro exI [of _ k]) (simp add: world_simps default_max_retries_def execute_args_def)
qed

text \<open>
  C34.  A 2xx answer whose body is not JSON (\<open>response.json()\<close> raises
  \<open>JSONDecodeError\<close>, a \<open>ValueError\<close>) is not retried: \<open>get_flows\<close> raises
  \<open>LangflowServiceError("Failed to fetch flows: <decode error>")\<close>, and
  \<open>execute_flow\<close> returns \<open>success=False\<close> with the error
  \<open>"Unexpected error during flow execution: <decode error>"\<close>.
\<close>

theorem non_json_body:
  assumes "net w (sent w) = Responded resp" and "200 \<le> status_code resp" and "status_code resp < 300"
    and "json_body resp = Inl msg"
  shows "fst (get_flows w) = Inl (LangflowServiceError (''Failed to fetch flows: '' @ msg)) \<and>
         fst (execute_flow fid r w) =
           Inr \<lparr>success = False, result = JNull, error = Some (''Unexpected error during flow execution: '' @ msg)\<rparr>"
  using first_attempt_success [OF assms(1-3)] assms(4)
  by (simp add: get_flows_def get_flows_with_def flows_result_def execute_flow_def execute_flow_with_def execute_flow_body_def execution_response_def execute_flow_body_def execute_flow_body_with_def execution_outcome_def response_json_def wrap_fetch_error_def
      execution_failure_def)

theorem non_json_body_witness:
  "net (init_world default_service (\<lambda>_. Responded \<lparr>status_code = 200, response_text = ''<html>'', json_body = Inl ''Expecting value''\<rparr>)) 0 =
     Responded \<lparr>status_code = 200, response_text = ''<html>'', json_body = Inl ''Expecting value''\<rparr> \<and>
   fst (get_flows (init_world default_service (\<lambda>_. Responded \<lparr>status_code = 200, response_text = ''<html>'', json_body = Inl ''Expecting value''\<rparr>))) =
     Inl (LangflowServiceError (''Failed to fetch flows: '' @ ''Expecting value''))"
  using non_json_body [of "init_world default_service (\<lambda>_. Responded \<lparr>status_code = 200, response_text = ''<html>'', json_body = Inl ''Expecting value''\<rparr>)"
      "\<lparr>status_code = 200, response_text = ''<html>'', json_body = Inl ''Expecting value''\<rparr>" "''Expecting value''"]
  by (simp add: init_world_def)

end
