(* ===== verification/Session.thy ===== *)
theory Session
  imports Service
begin

text \<open>
  The lifecycle of one \<open>LangflowService\<close> object under any sequence of calls:
  \<open>get_flows\<close>, \<open>execute_flow\<close>, \<open>_make_request_with_retry\<close> and \<open>close\<close>
  (\<open>__aexit__\<close>), in any order and any number of times, against any network.
  \<open>svc_reachable\<close> is the set of worlds such a sequence can produce from a
  fresh object; \<open>lifecycle_inv\<close> is what every one of them satisfies: the
  object's pool, if any, has the limits and timeout of lines 69--72, and the
  pools opened so far are all closed except the current one when it is open.
  So the object never holds more than one open pool, and after \<open>close()\<close> none.
\<close>

section \<open>Calls and reachable worlds\<close>

datatype svc_call =
    CallGetFlows
  | CallExecute string flow_execution_request
  | CallRequest string string req_args int
  | CallClose

fun run_call :: "svc_call \<Rightarrow> world \<Rightarrow> world" where
  "run_call CallGetFlows w = snd (get_flows w)"
| "run_call (CallExecute fid r) w = snd (execute_flow fid r w)"
| "run_call (CallRequest m u a mr) w = snd (make_request_with_retry m u a mr w)"
| "run_call CallClose w = aexit w"

inductive svc_reachable :: "world \<Rightarrow> bool" where
  init: "svc_reachable (init_world (new_service b t) n)"
| step: "svc_reachable w \<Longrightarrow> svc_reachable (run_call c w)"

inductive_cases svc_reachable_stepE: "svc_reachable (run_call c w)"

section \<open>The invariant\<close>

definition pool_ok :: "service \<Rightarrow> pool \<Rightarrow> bool" where
  "pool_ok s p \<longleftrightarrow> max_keepalive_connections p = 5 \<and> max_connections p = 10 \<and> pool_timeout p = timeout s"

definition pool_open :: "service \<Rightarrow> bool" where
  "pool_open s \<longleftrightarrow> (case client s of None \<Rightarrow> False | Some p \<Rightarrow> \<not> is_closed p)"

definition pool_config_ok :: "service \<Rightarrow> bool" where
  "pool_config_ok s \<longleftrightarrow> (case client s of None \<Rightarrow> True | Some p \<Rightarrow> pool_ok s p)"

definition lifecycle_inv :: "world \<Rightarrow> bool" where
  "lifecycle_inv w \<longleftrightarrow>
     pool_config_ok (svc w) \<and>
     opened_count (events w) = closed_count (events w) + (if pool_open (svc w) then 1 else 0)"

text \<open>A fresh object that listed the flows once, against a network that always times out.\<close>

definition W_listed :: world where
  "W_listed = run_call CallGetFlows
                (init_world (new_service ''http://localhost:7860'' 30) (\<lambda>_. TimedOut ''timeout''))"

section \<open>Each call keeps the invariant\<close>

lemma counts_append [simp]:
  "opened_count (xs @ ys) = opened_count xs + opened_count ys"
  "closed_count (xs @ ys) = closed_count xs + closed_count ys"
  by (simp_all add: opened_count_def closed_count_def)

lemma counts_attempt_events [simp]:
  "opened_count (attempt_events m u a j k) = 0"
  "closed_count (attempt_events m u a j k) = 0"
  by (induction m u a j k rule: attempt_events.induct) (simp_all add: opened_count_def closed_count_def)

lemma counts_single [simp]:
  "opened_count [] = 0" "closed_count [] = 0"
  "opened_count [PoolOpened] = 1" "closed_count [PoolOpened] = 0"
  "opened_count [PoolClosed] = 0" "closed_count [PoolClosed] = 1"
  by (simp_all add: opened_count_def closed_count_def)

lemma counts_PoolOpened_Cons [simp]:
  "opened_count (PoolOpened # xs) = Suc (opened_count xs)"
  "closed_count (PoolOpened # xs) = closed_count xs"
  by (simp_all add: opened_count_def closed_count_def)

lemma get_client_inv: "lifecycle_inv w \<Longrightarrow> lifecycle_inv (snd (get_client w))"
  by (auto simp: lifecycle_inv_def pool_config_ok_def get_client_def open_pool_def pool_ok_def pool_open_def Let_def
           split: option.splits if_splits)

lemma make_request_inv: "lifecycle_inv w \<Longrightarrow> lifecycle_inv (snd (make_request_with_retry m u a mr w))"
proof -
  assume inv: "lifecycle_inv w"
  obtain k where "k \<le> nat (mr + 1)" and
    w': "snd (make_request_with_retry m u a mr w) =
       (snd (get_client w))\<lparr>events := events (snd (get_client w)) @ attempt_events m u a 0 k,
                             sent := sent w + k\<rparr>"
    using make_request_trace by blast
  from get_client_inv [OF inv] show ?thesis
    by (simp add: w' lifecycle_inv_def)
qed

lemma get_flows_world: "snd (get_flows w) =
  snd (make_request_with_retry ''GET'' (flows_url (base_url (svc w))) flows_args default_max_retries w)"
  by (simp add: get_flows_def get_flows_with_def flows_result_def split: prod.split sum.split)

lemma execute_flow_world: "snd (execute_flow fid r w) =
  snd (make_request_with_retry ''POST'' (run_url (base_url (svc w)) fid) (execute_args r) default_max_retries w)"
  by (simp add: execute_flow_def execute_flow_with_def execution_response_def execute_flow_body_def execute_flow_body_with_def execution_outcome_def split: prod.split sum.split)

lemma close_inv: "lifecycle_inv w \<Longrightarrow> lifecycle_inv (close w)"
  by (auto simp: lifecycle_inv_def pool_config_ok_def close_def pool_ok_def pool_open_def split: option.splits)

lemma run_call_inv: "lifecycle_inv w \<Longrightarrow> lifecycle_inv (run_call c w)"
  by (cases c) (simp_all add: get_flows_world execute_flow_world make_request_inv close_inv aexit_def)

lemma init_inv: "lifecycle_inv (init_world (new_service b t) n)"
  by (simp add: lifecycle_inv_def pool_config_ok_def init_world_def new_service_def pool_open_def opened_count_def closed_count_def)

lemma close_releases: "lifecycle_inv w \<Longrightarrow> opened_count (events (close w)) = closed_count (events (close w))"
  by (auto simp: lifecycle_inv_def close_def pool_open_def split: option.splits if_splits)

lemma svc_make_request [simp]:
  "svc (snd (make_request_with_retry m u a mr w)) = svc (snd (get_client w))"
  using make_request_trace [of mr m u a w] by auto

lemma events_make_request:
  "\<exists>k. events (snd (make_request_with_retry m u a mr w)) = events (snd (get_client w)) @ attempt_events m u a 0 k"
  using make_request_trace [of mr m u a w] by auto

lemma get_client_when_open [simp]: "pool_open (svc w) \<Longrightarrow> get_client w = (the (client (svc w)), w)"
  by (auto simp: get_client_def pool_open_def split: option.splits)

lemma get_client_after_close:
  "\<not> pool_open (svc w) \<Longrightarrow>
     events (snd (get_client w)) = events w @ [PoolOpened] \<and> pool_open (svc (snd (get_client w)))"
  by (auto simp: get_client_def open_pool_def pool_open_def Let_def split: option.splits)

lemma close_not_open [simp]: "\<not> pool_open (svc (close w))"
  by (auto simp: close_def pool_open_def split: option.splits)

lemma close_idle: "\<not> pool_open (svc w) \<Longrightarrow> close w = w"
  by (auto simp: close_def pool_open_def split: option.splits)

text \<open>Every call but \<open>close\<close> is one retried request; its world is determined by the request.\<close>

lemma run_call_request:
  "c \<noteq> CallClose \<Longrightarrow> \<exists>m u a mr. run_call c w = snd (make_request_with_retry m u a mr w)"
  by (cases c) (auto simp: get_flows_world execute_flow_world)

section \<open>Properties\<close>

text \<open>
  C23.  In every world reachable by any sequence of calls on one service object,
  the object's pool has at most 5 keep-alive and 10 total connections and the
  object's timeout, and every pool opened so far is closed except the current one
  when it is open: the object never holds more than one open pool.  Whatever
  calls came before, \<open>close()\<close> then leaves every pool the object opened closed.
\<close>

theorem lifecycle_invariant:
  assumes "svc_reachable w"
  shows "lifecycle_inv w \<and> opened_count (events (aexit w)) = closed_count (events (aexit w))"
proof -
  from assms have inv: "lifecycle_inv w"
  proof (induction rule: svc_reachable.induct)
    case (init b t n)
    show ?case by (rule init_inv)
  next
    case (step w c)
    from step.IH show ?case by (rule run_call_inv)
  qed
  then show ?thesis by (simp add: aexit_def close_releases)
qed

theorem lifecycle_invariant_witness:
  "svc_reachable W_listed \<and> lifecycle_inv W_listed \<and>
   opened_count (events (aexit W_listed)) = closed_count (events (aexit W_listed))"
proof -
  have r: "svc_reachable W_listed"
    unfolding W_listed_def by (rule svc_reachable.step [OF svc_reachable.init])
  show ?thesis using r lifecycle_invariant [OF r] by simp
qed

text \<open>
  C31.  While the object holds an open pool, every call other than \<open>close\<close>
  reuses it: the object keeps the same pool and no pool is opened.
\<close>

theorem open_pool_reused:
  assumes "pool_open (svc w)" and "c \<noteq> CallClose"
  shows "svc (run_call c w) = svc w \<and> opened_count (events (run_call c w)) = opened_count (events w)"
proof -
  obtain m u a mr where r: "run_call c w = snd (make_request_with_retry m u a mr w)"
    using run_call_request [OF assms(2)] by blast
  obtain k where "events (snd (make_request_with_retry m u a mr w)) = events w @ attempt_events m u a 0 k"
    using events_make_request [of m u a mr w] assms(1) by auto
  with r assms(1) show ?thesis by simp
qed

theorem open_pool_reused_witness:
  "pool_open (svc W_listed) \<and> CallGetFlows \<noteq> CallClose \<and>
   svc (run_call CallGetFlows W_listed) = svc W_listed \<and>
   opened_count (events (run_call CallGetFlows W_listed)) = opened_count (events W_listed)"
proof -
  have p: "pool_open (svc W_listed)"
    by (simp add: W_listed_def get_flows_world get_client_def open_pool_def init_world_def new_service_def
        pool_open_def Let_def)
  show ?thesis using open_pool_reused [OF p, of CallGetFlows] p by simp
qed

text \<open>
  C32.  \<open>close()\<close> twice is \<open>close()\<close> once, and a call after \<open>close()\<close> opens exactly
  one new pool, which stays open: the object can be used again after it was closed.
\<close>

theorem close_then_reopen:
  assumes "c \<noteq> CallClose"
  shows "aexit (aexit w) = aexit w \<and>
         opened_count (events (run_call c (aexit w))) = Suc (opened_count (events (aexit w))) \<and>
         pool_open (svc (run_call c (aexit w)))"
proof -
  obtain m u a mr where r: "run_call c (aexit w) = snd (make_request_with_retry m u a mr (aexit w))"
    using run_call_request [OF assms] by blast
  have g: "events (snd (get_client (aexit w))) = events (aexit w) @ [PoolOpened]"
      and o: "pool_open (svc (snd (get_client (aexit w))))"
    using get_client_after_close [of "aexit w"] by (simp_all add: aexit_def)
  obtain k where "events (snd (make_request_with_retry m u a mr (aexit w))) =
                    events (snd (get_client (aexit w))) @ attempt_events m u a 0 k"
    using events_make_request by blast
  with r g o show ?thesis by (simp add: aexit_def close_idle)
qed

theorem close_then_reopen_witness:
  "CallGetFlows \<noteq> CallClose \<and> aexit (aexit W_listed) = aexit W_listed \<and>
   opened_count (events (run_call CallGetFlows (aexit W_listed))) = Suc (opened_count (events (aexit W_listed))) \<and>
   pool_open (svc (run_call CallGetFlows (aexit W_listed)))"
  using close_then_reopen [of CallGetFlows W_listed] by simp

end
