(* ===== verification/Gateway.thy ===== *)
theory Gateway
  imports Session
begin

text \<open>
  The FastAPI gateway of \<open>main.py\<close>.  Every service endpoint opens a fresh
  \<open>LangflowService()\<close> in an \<open>async with\<close> block (\<open>with_service\<close>), calls one
  operation of the service, builds its JSON reply, and leaves the block, which
  awaits \<open>close()\<close> whether the body returned or raised; an exception that
  leaves the block is translated into an HTTP error: 503 for a
  \<open>LangflowServiceError\<close>, 500 for anything else (\<open>service_error_reply\<close>).
  The body of a POST is validated as \<open>ExecuteFlowRequest\<close> before the handler
  runs; a body that does not validate is answered 422 by FastAPI.
  \<open>handle\<close> dispatches a request to its endpoint, as the route decorators do.
\<close>

section \<open>Replies and the request body\<close>

datatype http_reply = HttpOk json | HttpError int string | HttpValidationError

text \<open>\<open>ExecuteFlowRequest\<close> (lines 22--24): \<open>input_value: str\<close>, \<open>tweaks: dict = {}\<close>.\<close>

definition validate_execute_body :: "json \<Rightarrow> (string \<times> py_dict) option" where
  "validate_execute_body b =
     (case b of
        JObj d \<Rightarrow> do {
          iv \<leftarrow> req_field v_str ''input_value'' d;
          tw \<leftarrow> (case dict_get d ''tweaks'' of
                   None \<Rightarrow> Some []
                 | Some (JObj t) \<Rightarrow> Some t
                 | Some _ \<Rightarrow> None);
          Some (iv, tw)
        }
      | _ \<Rightarrow> None)"

text \<open>The two \<open>except\<close> clauses every service endpoint ends with.\<close>

definition service_error_reply :: "exn \<Rightarrow> http_reply" where
  "service_error_reply e =
     (if is_service_error e then HttpError 503 (''Langflow service error: '' @ exn_str e)
      else HttpError 500 (''Unexpected error: '' @ exn_str e))"

section \<open>The service session\<close>

text \<open>\<open>LangflowService()\<close>: a new object with the default base URL and timeout.\<close>

definition fresh_service :: "world \<Rightarrow> world" where
  "fresh_service w = w\<lparr>svc := default_service\<rparr>"

text \<open>
  \<open>try: async with LangflowService() as service: return body\<close>: the body runs on
  the fresh object, \<open>__aexit__\<close> closes it, then the result is returned or the
  exception translated.
\<close>

definition with_service :: "(world \<Rightarrow> (exn + json) \<times> world) \<Rightarrow> world \<Rightarrow> http_reply \<times> world" where
  "with_service body w =
     (case body (fresh_service w) of
        (r, w1) \<Rightarrow> ((case r of Inl e \<Rightarrow> service_error_reply e | Inr v \<Rightarrow> HttpOk v), aexit w1))"

text \<open>Building the reply from the operation's result; an exception passes through.\<close>

definition on_success :: "('a \<Rightarrow> json) \<Rightarrow> (exn + 'a) \<times> world \<Rightarrow> (exn + json) \<times> world" where
  "on_success f p = (case p of (r, w1) \<Rightarrow> (map_sum id f r, w1))"

section \<open>Endpoints\<close>

definition root :: json where
  "root = JObj [(''message'', JStr ''Langflow Integration API'')]"

definition get_flows_endpoint :: "world \<Rightarrow> http_reply \<times> world" where
  "get_flows_endpoint =
     with_service (\<lambda>w. on_success (\<lambda>fs. JObj [(''flows'', JArr (map dump_flow fs))]) (get_flows w))"

definition execute_flow_endpoint :: "string \<Rightarrow> string \<Rightarrow> py_dict \<Rightarrow> world \<Rightarrow> http_reply \<times> world" where
  "execute_flow_endpoint fid iv tw =
     with_service (\<lambda>w. on_success dump_execution_response (execute_flow fid (mk_execution_request iv tw) w))"

definition hardcoded_flow_id :: string where
  "hardcoded_flow_id = ''de90b072-14d5-4983-b9ac-85156fef9bb4''"

definition test_hardcoded_flow :: "string \<Rightarrow> py_dict \<Rightarrow> world \<Rightarrow> http_reply \<times> world" where
  "test_hardcoded_flow iv tw =
     with_service (\<lambda>w. on_success
       (\<lambda>res. JObj [(''flow_id'', JStr hardcoded_flow_id), (''execution_result'', dump_execution_response res)])
       (execute_flow hardcoded_flow_id (mk_execution_request iv tw) w))"

definition flow_sample :: "flow_response \<Rightarrow> json" where
  "flow_sample f = JObj [(''id'', JStr (flow_id f)), (''name'', JStr (name f))]"

definition test_langflow_reply :: "flow_response list \<Rightarrow> json" where
  "test_langflow_reply fs = JObj
     [(''status'', JStr ''success''),
      (''message'', JStr (''Successfully connected to Langflow. Found '' @ show_nat (length fs) @ '' flows.'')),
      (''flows_count'', JInt (int (length fs))),
      (''sample_flows'', JArr (map flow_sample (take 3 fs)))]"

definition test_langflow :: "world \<Rightarrow> http_reply \<times> world" where
  "test_langflow = with_service (\<lambda>w. on_success test_langflow_reply (get_flows w))"

section \<open>Routing\<close>

datatype gw_request =
    GetRoot
  | GetFlows
  | PostExecute string json
  | PostTestFlow json
  | GetTestLangflow

fun handle :: "gw_request \<Rightarrow> world \<Rightarrow> http_reply \<times> world" where
  "handle GetRoot w = (HttpOk root, w)"
| "handle GetFlows w = get_flows_endpoint w"
| "handle (PostExecute fid b) w =
     (case validate_execute_body b of
        None \<Rightarrow> (HttpValidationError, w)
      | Some (iv, tw) \<Rightarrow> execute_flow_endpoint fid iv tw w)"
| "handle (PostTestFlow b) w =
     (case validate_execute_body b of
        None \<Rightarrow> (HttpValidationError, w)
      | Some (iv, tw) \<Rightarrow> test_hardcoded_flow iv tw w)"
| "handle GetTestLangflow w = test_langflow w"

text \<open>The requests that reach the service, opening a session.\<close>

fun opens_service :: "gw_request \<Rightarrow> bool" where
  "opens_service GetRoot = False"
| "opens_service GetFlows = True"
| "opens_service (PostExecute _ b) = (validate_execute_body b \<noteq> None)"
| "opens_service (PostTestFlow b) = (validate_execute_body b \<noteq> None)"
| "opens_service GetTestLangflow = True"

text \<open>A request whose body is valid JSON of \<open>ExecuteFlowRequest\<close> with only an input.\<close>

definition B_hi :: json where
  "B_hi = JObj [(''input_value'', JStr ''hi'')]"

text \<open>A network that is down: every request times out.\<close>

definition W_down :: world where
  "W_down = init_world default_service (\<lambda>_. TimedOut ''timeout'')"

section \<open>Lemmas\<close>

lemma with_service_world: "snd (with_service body w) = aexit (snd (body (fresh_service w)))"
  by (simp add: with_service_def split: prod.split)

lemma with_service_reply:
  "fst (with_service body w) =
     (case fst (body (fresh_service w)) of Inl e \<Rightarrow> service_error_reply e | Inr v \<Rightarrow> HttpOk v)"
  by (simp add: with_service_def split: prod.split)

lemma on_success_simps [simp]:
  "snd (on_success f p) = snd p"
  "fst (on_success f p) = map_sum id f (fst p)"
  by (simp_all add: on_success_def split: prod.split)

text \<open>A session whose body is one retried request: open, the attempts, close.\<close>

lemma session_events:
  assumes "snd (body (fresh_service w)) = snd (make_request_with_retry m u a mr (fresh_service w))"
    and "0 \<le> mr"
  shows "\<exists>k. 1 \<le> k \<and> k \<le> nat (mr + 1) \<and>
           events (snd (with_service body w)) = events w @ PoolOpened # attempt_events m u a 0 k @ [PoolClosed]
           \<and> \<not> pool_open (svc (snd (with_service body w)))"
proof -
  obtain k where k: "1 \<le> k" "k \<le> nat (mr + 1)" and t:
    "snd (make_request_with_retry m u a mr (fresh_service w)) =
       (snd (get_client (fresh_service w)))\<lparr>events := events (snd (get_client (fresh_service w))) @ attempt_events m u a 0 k,
                                          sent := sent (fresh_service w) + k\<rparr>"
    using make_request_trace_pos [OF assms(2)] by blast
  show ?thesis
    unfolding with_service_world assms(1) t aexit_def
    by (rule exI [of _ k])
       (insert k, simp add: get_client_def open_pool_def fresh_service_def default_service_def
          new_service_def Let_def close_def pool_open_def)
qed

lemma base_url_default [simp]: "base_url default_service = ''http://localhost:7860''"
  by (simp add: default_service_def new_service_def rstrip_slash_def)

lemma get_flows_session:
  "\<exists>k. 1 \<le> k \<and> k \<le> 4 \<and> events (snd (with_service (\<lambda>w. on_success f (get_flows w)) w)) =
         events w @ PoolOpened # attempt_events ''GET'' (flows_url ''http://localhost:7860'') flows_args 0 k @ [PoolClosed]
       \<and> \<not> pool_open (svc (snd (with_service (\<lambda>w. on_success f (get_flows w)) w)))"
  using session_events [of "\<lambda>w. on_success f (get_flows w)" w "''GET''" "flows_url ''http://localhost:7860''"
          flows_args default_max_retries]
  by (simp add: get_flows_world fresh_service_def default_max_retries_def)

lemma execute_flow_session:
  "\<exists>k. 1 \<le> k \<and> k \<le> 4 \<and> events (snd (with_service (\<lambda>w. on_success f (execute_flow fid r w)) w)) =
         events w @ PoolOpened # attempt_events ''POST'' (run_url ''http://localhost:7860'' fid) (execute_args r) 0 k @ [PoolClosed]
       \<and> \<not> pool_open (svc (snd (with_service (\<lambda>w. on_success f (execute_flow fid r w)) w)))"
  using session_events [of "\<lambda>w. on_success f (execute_flow fid r w)" w "''POST''" "run_url ''http://localhost:7860'' fid"
          "execute_args r" default_max_retries]
  by (simp add: execute_flow_world fresh_service_def default_max_retries_def)

lemma execute_flow_session_requests:
  "\<exists>k. 1 \<le> k \<and> k \<le> 4 \<and>
     filter is_request (events (snd (with_service (\<lambda>w. on_success f (execute_flow fid r w)) w))) =
       filter is_request (events w) @ replicate k (Request ''POST'' (run_url ''http://localhost:7860'' fid) (execute_args r))"
  using execute_flow_session [of f fid r w] by auto

lemma session_shape:
  "\<exists>k. 1 \<le> k \<and> k \<le> 4 \<and> events w' = events w @ PoolOpened # attempt_events m u a 0 k @ [PoolClosed]
      \<and> \<not> pool_open (svc w') \<Longrightarrow>
   \<exists>xs. events w' = events w @ xs \<and>
     (\<exists>ys. xs = PoolOpened # ys @ [PoolClosed] \<and> opened_count ys = 0 \<and> closed_count ys = 0) \<and> \<not> pool_open (svc w')"
  by auto

lemma run_url_hardcoded:
  "run_url ''http://localhost:7860'' hardcoded_flow_id =
     ''http://localhost:7860/api/v1/run/de90b072-14d5-4983-b9ac-85156fef9bb4''"
  by (simp add: hardcoded_flow_id_def) code_simp

lemma validate_B_hi: "validate_execute_body B_hi = Some (''hi'', [])"
  by (simp add: validate_execute_body_def B_hi_def req_field_def json_simps)

lemma service_error_reply_503 [simp]:
  "is_service_error e \<Longrightarrow> service_error_reply e = HttpError 503 (''Langflow service error: '' @ exn_str e)"
  by (simp add: service_error_reply_def)

lemma get_flows_fresh_ok:
  "fst (get_flows (W_body (JArr [JObj flow1_json]))) = Inr [flow1]"
  using first_attempt_success [of "W_body (JArr [JObj flow1_json])" "ok_response (JArr [JObj flow1_json])"]
  by (simp add: W_body_def init_world_def ok_response_def get_flows_def get_flows_with_def flows_result_def response_json_def
      parse_flows_response_def flows_data_of_def validate_flow1)

lemma inj_dump_flow: "inj dump_flow"
  by (rule injI) (rule dump_flow_inj)

lemma fresh_service_W_body [simp]: "fresh_service (W_body v) = W_body v"
  by (simp add: fresh_service_def W_body_def init_world_def)

lemma flows_endpoint_W_body:
  "fst (handle GetFlows (W_body (JArr [JObj flow1_json]))) = HttpOk (JObj [(''flows'', JArr (map dump_flow [flow1]))])"
  by (simp add: get_flows_endpoint_def with_service_reply get_flows_fresh_ok)

lemma fresh_service_W_down [simp]: "fresh_service W_down = W_down"
  by (simp add: fresh_service_def W_down_def init_world_def)

text \<open>Langflow down: every attempt of the listing times out, and \<open>/flows\<close> answers 503.\<close>

lemma flows_endpoint_W_down:
  "fst (handle GetFlows W_down) = HttpError 503 ''Langflow service error: Failed to make request after 4 attempts: timeout''"
proof -
  have all: "\<forall>i<nat (default_max_retries + 1). is_again (attempt_result u (net W_down (sent W_down + i)))" for u
    by (simp add: W_down_def init_world_def)
  have rs: "map (attempt_result u \<circ> net W_down) [sent W_down..<sent W_down + nat (default_max_retries + 1)] =
              replicate (Suc 3) (Again (TimeoutException ''timeout''))" for u
    by (simp add: W_down_def init_world_def comp_def map_replicate_const default_max_retries_def)
  have four: "show_int (default_max_retries + 1) = ''4''"
    by code_simp
  show ?thesis
    using make_request_exhausts [OF all] rs four
    by (simp add: get_flows_endpoint_def with_service_reply get_flows_def get_flows_with_def flows_result_def
        exhausted_error_def last_exn_def wrap_fetch_error_def str_opt_exn_def eval_nat_numeral)
qed

section \<open>Properties\<close>

text \<open>
  C24.  Every request the gateway answers leaves the network trace as it was except for
  what it appends: nothing for \<open>/\<close> and for a body that fails validation; for any
  other request exactly one pool opened first and closed last, with only the
  requests and sleeps of one retried call between, and no pool left open.
\<close>

theorem gateway_session_events:
  "\<exists>xs. events (snd (handle q w)) = events w @ xs \<and>
     (if opens_service q
      then (\<exists>ys. xs = PoolOpened # ys @ [PoolClosed] \<and> opened_count ys = 0 \<and> closed_count ys = 0)
           \<and> \<not> pool_open (svc (snd (handle q w)))
      else xs = [] \<and> snd (handle q w) = w)"
proof (cases q)
  case GetFlows
  then show ?thesis
    using session_shape [OF get_flows_session] by (simp add: get_flows_endpoint_def)
next
  case GetTestLangflow
  then show ?thesis
    using session_shape [OF get_flows_session] by (simp add: test_langflow_def)
next
  case (PostExecute fid b)
  then show ?thesis
    using session_shape [OF execute_flow_session]
    by (auto simp: execute_flow_endpoint_def split: option.split)
next
  case (PostTestFlow b)
  then show ?thesis
    using session_shape [OF execute_flow_session]
    by (auto simp: test_hardcoded_flow_def split: option.split)
qed simp

text \<open>
  C25.  \<open>GET /flows\<close> never answers 500: its reply is the list of dumped flows, or a
  503 carrying the service error's message, since \<open>get_flows\<close> raises nothing but
  \<open>LangflowServiceError\<close>.
\<close>

theorem flows_endpoint_never_500:
  "(\<exists>fs. fst (handle GetFlows w) = HttpOk (JObj [(''flows'', JArr (map dump_flow fs))])) \<or>
   (\<exists>m. fst (handle GetFlows w) = HttpError 503 (''Langflow service error: '' @ m))"
proof (cases "fst (get_flows (fresh_service w))")
  case (Inl e)
  then have "is_service_error e"
    by (auto simp: get_flows_def get_flows_with_def flows_result_def split: prod.splits sum.splits)
  with Inl show ?thesis by (simp add: get_flows_endpoint_def with_service_reply)
qed (auto simp: get_flows_endpoint_def with_service_reply)

text \<open>
  C26.  \<open>POST /flows/{flow_id}/execute\<close> with a valid body never answers 503 or 500,
  even when the Langflow service fails: the reply is always the dumped
  \<open>FlowExecutionResponse\<close> that \<open>execute_flow\<close> returned on a fresh service object,
  because \<open>execute_flow\<close> turns every exception into \<open>success=False\<close>.
\<close>

theorem execute_endpoint_never_errors:
  assumes "validate_execute_body b = Some (iv, tw)"
  shows "\<exists>res. fst (execute_flow fid (mk_execution_request iv tw) (fresh_service w)) = Inr res \<and>
              fst (handle (PostExecute fid b) w) = HttpOk (dump_execution_response res)"
  using assms execute_flow_result by (simp add: execute_flow_endpoint_def with_service_reply)

theorem execute_endpoint_never_errors_witness:
  "validate_execute_body B_hi = Some (''hi'', []) \<and>
   (\<exists>res. fst (execute_flow ''flow-1'' (mk_execution_request ''hi'' []) (fresh_service W_down)) = Inr res \<and>
          fst (handle (PostExecute ''flow-1'' B_hi) W_down) = HttpOk (dump_execution_response res))"
  using validate_B_hi execute_endpoint_never_errors [OF validate_B_hi, of "''flow-1''" W_down] by simp

text \<open>
  C27.  \<open>GET /test-langflow\<close> agrees with \<open>GET /flows\<close> on the same upstream.
  When \<open>/flows\<close> lists the flows \<open>fs\<close>, the probe answers \<open>status: success\<close>,
  the message \<open>Successfully connected to Langflow. Found <len(fs)> flows.\<close>,
  \<open>flows_count = len(fs)\<close> and the id and name of the first three flows, in order;
  when \<open>/flows\<close> answers an error, the probe answers the same status and detail.
\<close>

theorem test_langflow_matches_flows:
  "(\<forall>fs. fst (handle GetFlows w) = HttpOk (JObj [(''flows'', JArr (map dump_flow fs))]) \<longrightarrow>
      fst (handle GetTestLangflow w) = HttpOk (JObj
        [(''status'', JStr ''success''),
         (''message'', JStr (''Successfully connected to Langflow. Found '' @ show_nat (length fs) @ '' flows.'')),
         (''flows_count'', JInt (int (length fs))),
         (''sample_flows'', JArr (map (\<lambda>f. JObj [(''id'', JStr (flow_id f)), (''name'', JStr (name f))]) (take 3 fs)))])) \<and>
   (\<forall>c m. fst (handle GetFlows w) = HttpError c m \<longrightarrow> fst (handle GetTestLangflow w) = HttpError c m)"
proof (cases "fst (get_flows (fresh_service w))")
  case (Inl e)
  then show ?thesis
    by (auto simp: get_flows_endpoint_def test_langflow_def with_service_reply service_error_reply_def)
next
  case (Inr fs')
  have "fs' = fs" if "map dump_flow fs' = map dump_flow fs" for fs
    using that by (simp add: inj_dump_flow)
  with Inr show ?thesis
    by (auto simp: get_flows_endpoint_def test_langflow_def with_service_reply test_langflow_reply_def flow_sample_def)
qed

theorem test_langflow_matches_flows_witness:
  "fst (handle GetFlows (W_body (JArr [JObj flow1_json]))) = HttpOk (JObj [(''flows'', JArr (map dump_flow [flow1]))]) \<and>
   fst (handle GetTestLangflow (W_body (JArr [JObj flow1_json]))) = HttpOk (JObj
     [(''status'', JStr ''success''), (''message'', JStr ''Successfully connected to Langflow. Found 1 flows.''),
      (''flows_count'', JInt 1), (''sample_flows'', JArr [JObj [(''id'', JStr (flow_id flow1)), (''name'', JStr (name flow1))]])]) \<and>
   fst (handle GetFlows W_down) = HttpError 503 ''Langflow service error: Failed to make request after 4 attempts: timeout'' \<and>
   fst (handle GetTestLangflow W_down) = HttpError 503 ''Langflow service error: Failed to make request after 4 attempts: timeout''"
proof -
  note h = flows_endpoint_W_body
  note d = flows_endpoint_W_down
  have one: "show_nat (length [flow1]) = ''1''"
    by code_simp
  have ok: "fst (handle GetTestLangflow (W_body (JArr [JObj flow1_json]))) = HttpOk (JObj
     [(''status'', JStr ''success''), (''message'', JStr ''Successfully connected to Langflow. Found 1 flows.''),
      (''flows_count'', JInt 1), (''sample_flows'', JArr [JObj [(''id'', JStr (flow_id flow1)), (''name'', JStr (name flow1))]])])"
    using spec [OF conjunct1 [OF test_langflow_matches_flows [of "W_body (JArr [JObj flow1_json])"]], of "[flow1]"] h one
    by simp
  have err: "fst (handle GetTestLangflow W_down) =
      HttpError 503 ''Langflow service error: Failed to make request after 4 attempts: timeout''"
    using conjunct2 [OF test_langflow_matches_flows [of W_down]] d by blast
  show ?thesis using h d ok err by simp
qed

text \<open>
  C33.  End to end, the two POST endpoints with the body
  \<open>{"input_value": iv, "tweaks": tw}\<close> send Langflow one to four identical
  requests.  \<open>POST /flows/{fid}/execute\<close> sends
  \<open>POST http://localhost:7860/api/v1/run/<fid>\<close> with the JSON body
  \<open>{"input_value": iv, "output_type": "chat", "input_type": "chat", "tweaks": tw}\<close>
  and the header \<open>Content-Type: application/json\<close>; \<open>POST /test-flow\<close> sends the
  same payload to the run URL of the hardcoded flow
  \<open>de90b072-14d5-4983-b9ac-85156fef9bb4\<close>, whatever the body.
\<close>

theorem post_endpoints_requests:
  assumes "validate_execute_body b = Some (iv, tw)"
  shows "(\<exists>k. 1 \<le> k \<and> k \<le> 4 \<and>
     filter is_request (events (snd (handle (PostExecute fid b) w))) =
       filter is_request (events w) @
       replicate k (Request ''POST'' (run_url ''http://localhost:7860'' fid)
         \<lparr>params = [],
          json_payload = Some (JObj [(''input_value'', JStr iv), (''output_type'', JStr ''chat''),
                                     (''input_type'', JStr ''chat''), (''tweaks'', JObj tw)]),
          headers = [(''Content-Type'', ''application/json'')]\<rparr>)) \<and>
   (\<exists>k. 1 \<le> k \<and> k \<le> 4 \<and>
     filter is_request (events (snd (handle (PostTestFlow b) w))) =
       filter is_request (events w) @
       replicate k (Request ''POST'' ''http://localhost:7860/api/v1/run/de90b072-14d5-4983-b9ac-85156fef9bb4''
                      (execute_args (mk_execution_request iv tw))))"
proof
  show "\<exists>k. 1 \<le> k \<and> k \<le> 4 \<and>
     filter is_request (events (snd (handle (PostExecute fid b) w))) =
       filter is_request (events w) @
       replicate k (Request ''POST'' (run_url ''http://localhost:7860'' fid)
         \<lparr>params = [],
          json_payload = Some (JObj [(''input_value'', JStr iv), (''output_type'', JStr ''chat''),
                                     (''input_type'', JStr ''chat''), (''tweaks'', JObj tw)]),
          headers = [(''Content-Type'', ''application/json'')]\<rparr>)"
    using assms execute_flow_session_requests [of dump_execution_response fid "mk_execution_request iv tw" w]
    by (simp add: execute_flow_endpoint_def execute_args_def dump_execution_request_def mk_execution_request_def)
  show "\<exists>k. 1 \<le> k \<and> k \<le> 4 \<and>
     filter is_request (events (snd (handle (PostTestFlow b) w))) =
       filter is_request (events w) @
       replicate k (Request ''POST'' ''http://localhost:7860/api/v1/run/de90b072-14d5-4983-b9ac-85156fef9bb4''
                      (execute_args (mk_execution_request iv tw)))"
    using assms execute_flow_session_requests [of _ hardcoded_flow_id "mk_execution_request iv tw" w]
    by (simp add: test_hardcoded_flow_def run_url_hardcoded)
qed

theorem post_endpoints_requests_witness:
  "validate_execute_body B_hi = Some (''hi'', []) \<and>
   (\<exists>k. 1 \<le> k \<and> k \<le> 4 \<and>
     filter is_request (events (snd (handle (PostExecute ''flow-1'' B_hi) W_down))) =
       filter is_request (events W_down) @
       replicate k (Request ''POST'' (run_url ''http://localhost:7860'' ''flow-1'')
         \<lparr>params = [],
          json_payload = Some (JObj [(''input_value'', JStr ''hi''), (''output_type'', JStr ''chat''),
                                     (''input_type'', JStr ''chat''), (''tweaks'', JObj [])]),
          headers = [(''Content-Type'', ''application/json'')]\<rparr>)) \<and>
   (\<exists>k. 1 \<le> k \<and> k \<le> 4 \<and>
     filter is_request (events (snd (handle (PostTestFlow B_hi) W_down))) =
       filter is_request (events W_down) @
       replicate k (Request ''POST'' ''http://localhost:7860/api/v1/run/de90b072-14d5-4983-b9ac-85156fef9bb4''
                      (execute_args (mk_execution_request ''hi'' []))))"
  using validate_B_hi post_endpoints_requests [OF validate_B_hi, of "''flow-1''" W_down] by simp

end
