(* ===== verification/Cors.thy ===== *)
theory Cors
  imports Gateway "HOL-Library.List_Lexorder" "HOL-Library.Char_ord"
begin

text \<open>
  The CORS layer of \<open>main.py\<close> (lines 12--19): \<open>app.add_middleware(CORSMiddleware,
  allow_origins=["http://localhost:3000"], allow_credentials=True,
  allow_methods=["*"], allow_headers=["*"])\<close>.  The middleware is Starlette's
  \<open>CORSMiddleware\<close> (\<open>starlette/middleware/cors.py\<close>, release 0.46), which is
  library code: its constructor (\<open>cors_init\<close>), \<open>__call__\<close> (\<open>cors_call\<close>),
  \<open>is_allowed_origin\<close>, \<open>preflight_response\<close> and \<open>send\<close> (\<open>cors_send\<close>) are
  written after that source, with the header semantics of Starlette's
  \<open>Headers\<close> and \<open>MutableHeaders\<close> (names lower-cased, a set replaces the
  first occurrence and drops the others) and the headers \<open>PlainTextResponse\<close>
  adds.  \<open>allow_origin_regex\<close> is left out: the application does not pass one,
  so the branch of \<open>is_allowed_origin\<close> that uses it never runs.

  The application is the middleware around the gateway: a request names a route
  (\<open>Route q\<close>, answered by \<open>handle\<close>) or is an \<open>OPTIONS\<close> request to a route's
  path, which the router answers 405 when the middleware lets it through.
\<close>

section \<open>Header lists and string dictionaries\<close>

type_synonym str_dict = "(string \<times> string) list"
type_synonym raw_headers = "(string \<times> string) list"

text \<open>\<open>d[k] = v\<close> on a Python \<open>dict\<close>: in place if present, else appended.\<close>

fun sdict_set :: "string \<Rightarrow> string \<Rightarrow> str_dict \<Rightarrow> str_dict" where
  "sdict_set k v [] = [(k, v)]"
| "sdict_set k v ((k', v') # d) = (if k' = k then (k, v) # d else (k', v') # sdict_set k v d)"

text \<open>\<open>Headers.get\<close> and \<open>h[k]\<close>: the first entry of the lower-cased name.\<close>

definition hdr_get :: "string \<Rightarrow> raw_headers \<Rightarrow> string option" where
  "hdr_get k hs = map_of hs (lower_ascii k)"

text \<open>\<open>MutableHeaders.__setitem__\<close>: the first entry replaced, later duplicates dropped, or appended.\<close>

fun hdr_set_raw :: "string \<Rightarrow> string \<Rightarrow> raw_headers \<Rightarrow> raw_headers" where
  "hdr_set_raw k v [] = [(k, v)]"
| "hdr_set_raw k v ((k', v') # hs) =
     (if k' = k then (k, v) # filter (\<lambda>(a, _). a \<noteq> k) hs else (k', v') # hdr_set_raw k v hs)"

definition hdr_set :: "string \<Rightarrow> string \<Rightarrow> raw_headers \<Rightarrow> raw_headers" where
  "hdr_set k v hs = hdr_set_raw (lower_ascii k) v hs"

text \<open>\<open>MutableHeaders.update\<close> and \<open>add_vary_header\<close>.\<close>

definition hdr_update :: "str_dict \<Rightarrow> raw_headers \<Rightarrow> raw_headers" where
  "hdr_update d hs = fold (\<lambda>(k, v). hdr_set k v) d hs"

definition add_vary_header :: "string \<Rightarrow> raw_headers \<Rightarrow> raw_headers" where
  "add_vary_header vary hs =
     hdr_set ''vary'' (case hdr_get ''vary'' hs of None \<Rightarrow> vary | Some e \<Rightarrow> e @ '', '' @ vary) hs"

text \<open>\<open>sep.join(parts)\<close> and \<open>s.strip()\<close> (the characters \<open>str.isspace\<close> accepts in Latin-1).\<close>

fun join_str :: "string \<Rightarrow> string list \<Rightarrow> string" where
  "join_str sep [] = []"
| "join_str sep [p] = p"
| "join_str sep (p # ps) = p @ sep @ join_str sep ps"

definition py_space :: "char \<Rightarrow> bool" where
  "py_space c \<longleftrightarrow> (let n = (of_char c :: nat) in
     (9 \<le> n \<and> n \<le> 13) \<or> (28 \<le> n \<and> n \<le> 32) \<or> n = 133 \<or> n = 160)"

definition py_strip :: "string \<Rightarrow> string" where
  "py_strip s = rev (dropWhile py_space (rev (dropWhile py_space s)))"

section \<open>Responses\<close>

datatype resp_body = TextBody string | JsonBody json | ValidationErrorBody

record asgi_response =
  r_status :: int
  r_headers :: raw_headers
  r_body :: resp_body

text \<open>
  \<open>PlainTextResponse(text, status_code, headers)\<close>: the given headers with
  lower-cased names, then \<open>content-length\<close> and \<open>content-type\<close> unless given
  (\<open>Response.init_headers\<close>).  The texts it is used with are ASCII, so their
  length is their length in bytes.
\<close>

definition plain_text_response :: "int \<Rightarrow> string \<Rightarrow> str_dict \<Rightarrow> asgi_response" where
  "plain_text_response c t d =
     (let raw = map (\<lambda>(k, v). (lower_ascii k, v)) d; keys = map fst raw in
      \<lparr>r_status = c,
       r_headers = raw @
         (if ''content-length'' \<notin> set keys \<and> \<not> (c < 200 \<or> c = 204 \<or> c = 304)
          then [(''content-length'', show_nat (length t))] else []) @
         (if ''content-type'' \<notin> set keys then [(''content-type'', ''text/plain; charset=utf-8'')] else []),
       r_body = TextBody t\<rparr>)"

section \<open>The middleware\<close>

record cors_config =
  allow_origins :: "string list"
  allow_methods :: "string list"
  allow_headers :: "string list"
  allow_credentials :: bool
  expose_headers :: "string list"
  max_age :: int

definition all_methods :: "string list" where
  "all_methods = [''DELETE'', ''GET'', ''HEAD'', ''OPTIONS'', ''PATCH'', ''POST'', ''PUT'']"

definition safelisted_headers :: "string list" where
  "safelisted_headers = [''Accept'', ''Accept-Language'', ''Content-Language'', ''Content-Type'']"

record cors_mw =
  mw_allow_origins :: "string list"
  mw_allow_methods :: "string list"
  mw_allow_headers :: "string list"
  mw_allow_all_origins :: bool
  mw_allow_all_headers :: bool
  mw_explicit_origin :: bool
  mw_simple_headers :: str_dict
  mw_preflight_headers :: str_dict

text \<open>\<open>CORSMiddleware.__init__\<close>: \<open>sorted(SAFELISTED_HEADERS | set(allow_headers))\<close> is the sorted list of distinct names.\<close>

definition cors_init :: "cors_config \<Rightarrow> cors_mw" where
  "cors_init c =
     (let methods = (if ''*'' \<in> set (allow_methods c) then all_methods else allow_methods c);
          all_origins = (''*'' \<in> set (allow_origins c));
          all_headers = (''*'' \<in> set (allow_headers c));
          explicit = (\<not> all_origins \<or> allow_credentials c);
          simple = (if all_origins then [(''Access-Control-Allow-Origin'', ''*'')] else []) @
                   (if allow_credentials c then [(''Access-Control-Allow-Credentials'', ''true'')] else []) @
                   (if expose_headers c \<noteq> []
                    then [(''Access-Control-Expose-Headers'', join_str '', '' (expose_headers c))] else []);
          pre0 = (if explicit then [(''Vary'', ''Origin'')] else [(''Access-Control-Allow-Origin'', ''*'')]);
          pre1 = sdict_set ''Access-Control-Max-Age'' (show_int (max_age c))
                   (sdict_set ''Access-Control-Allow-Methods'' (join_str '', '' methods) pre0);
          hdrs = sort (remdups (safelisted_headers @ allow_headers c));
          pre2 = (if hdrs \<noteq> [] \<and> \<not> all_headers
                  then sdict_set ''Access-Control-Allow-Headers'' (join_str '', '' hdrs) pre1 else pre1);
          pre3 = (if allow_credentials c then sdict_set ''Access-Control-Allow-Credentials'' ''true'' pre2 else pre2)
      in \<lparr>mw_allow_origins = allow_origins c, mw_allow_methods = methods,
          mw_allow_headers = map lower_ascii hdrs, mw_allow_all_origins = all_origins,
          mw_allow_all_headers = all_headers, mw_explicit_origin = explicit,
          mw_simple_headers = simple, mw_preflight_headers = pre3\<rparr>)"

definition is_allowed_origin :: "cors_mw \<Rightarrow> string \<Rightarrow> bool" where
  "is_allowed_origin mw origin \<longleftrightarrow> mw_allow_all_origins mw \<or> origin \<in> set (mw_allow_origins mw)"

text \<open>\<open>preflight_response\<close>: the failures collected in order, 400 if any, else 200 \<open>OK\<close>.\<close>

definition preflight_response :: "cors_mw \<Rightarrow> string \<Rightarrow> string \<Rightarrow> string option \<Rightarrow> asgi_response" where
  "preflight_response mw origin meth req_hdrs =
     (let h0 = mw_preflight_headers mw;
          (h1, f1) = (if is_allowed_origin mw origin
                      then (if mw_explicit_origin mw then sdict_set ''Access-Control-Allow-Origin'' origin h0 else h0, [])
                      else (h0, [''origin'']));
          f2 = f1 @ (if meth \<notin> set (mw_allow_methods mw) then [''method''] else []);
          (h2, f3) = (case req_hdrs of
                        None \<Rightarrow> (h1, f2)
                      | Some r \<Rightarrow>
                          if mw_allow_all_headers mw then (sdict_set ''Access-Control-Allow-Headers'' r h1, f2)
                          else (h1, f2 @ (if list_ex (\<lambda>h. py_strip (lower_ascii h) \<notin> set (mw_allow_headers mw))
                                                   (split_on (CHR '','') r)
                                          then [''headers''] else [])))
      in if f3 \<noteq> [] then plain_text_response 400 (''Disallowed CORS '' @ join_str '', '' f3) h2
         else plain_text_response 200 ''OK'' h2)"

definition allow_explicit_origin :: "raw_headers \<Rightarrow> string \<Rightarrow> raw_headers" where
  "allow_explicit_origin hs origin = add_vary_header ''Origin'' (hdr_set ''Access-Control-Allow-Origin'' origin hs)"

text \<open>\<open>send\<close>, applied to the \<open>http.response.start\<close> message of the wrapped application.\<close>

definition cors_send :: "cors_mw \<Rightarrow> raw_headers \<Rightarrow> string \<Rightarrow> asgi_response \<Rightarrow> asgi_response" where
  "cors_send mw req_hs origin r =
     (let h1 = hdr_update (mw_simple_headers mw) (r_headers r);
          has_cookie = (hdr_get ''cookie'' req_hs \<noteq> None);
          h2 = (if mw_allow_all_origins mw \<and> has_cookie then allow_explicit_origin h1 origin
                else if \<not> mw_allow_all_origins mw \<and> is_allowed_origin mw origin
                then allow_explicit_origin h1 origin else h1)
      in r\<lparr>r_headers := h2\<rparr>)"

text \<open>\<open>__call__\<close> for an HTTP request with method \<open>meth\<close> and headers \<open>req_hs\<close>.\<close>

definition cors_call ::
  "cors_mw \<Rightarrow> ('w \<Rightarrow> asgi_response \<times> 'w) \<Rightarrow> string \<Rightarrow> raw_headers \<Rightarrow> 'w \<Rightarrow> asgi_response \<times> 'w" where
  "cors_call mw app meth req_hs w =
     (case hdr_get ''origin'' req_hs of
        None \<Rightarrow> app w
      | Some origin \<Rightarrow>
          (case (meth = ''OPTIONS'', hdr_get ''access-control-request-method'' req_hs) of
             (True, Some m) \<Rightarrow>
               (preflight_response mw origin m (hdr_get ''access-control-request-headers'' req_hs), w)
           | _ \<Rightarrow> (case app w of (r, w') \<Rightarrow> (cors_send mw req_hs origin r, w'))))"

section \<open>The application\<close>

text \<open>The arguments of \<open>app.add_middleware\<close>; the others keep their defaults.\<close>

definition app_cors :: cors_config where
  "app_cors = \<lparr>allow_origins = [''http://localhost:3000''], allow_methods = [''*''],
               allow_headers = [''*''], allow_credentials = True, expose_headers = [], max_age = 600\<rparr>"

definition app_mw :: cors_mw where
  "app_mw = cors_init app_cors"

datatype app_req = Route gw_request | OptionsReq

fun req_method :: "app_req \<Rightarrow> string" where
  "req_method (Route (PostExecute _ _)) = ''POST''"
| "req_method (Route (PostTestFlow _)) = ''POST''"
| "req_method (Route _) = ''GET''"
| "req_method OptionsReq = ''OPTIONS''"

text \<open>FastAPI's rendering of a gateway reply: a JSON body, \<open>{"detail": ...}\<close> for an error.\<close>

fun reply_response :: "http_reply \<Rightarrow> asgi_response" where
  "reply_response (HttpOk v) =
     \<lparr>r_status = 200, r_headers = [(''content-type'', ''application/json'')], r_body = JsonBody v\<rparr>"
| "reply_response (HttpError c m) =
     \<lparr>r_status = c, r_headers = [(''content-type'', ''application/json'')],
      r_body = JsonBody (JObj [(''detail'', JStr m)])\<rparr>"
| "reply_response HttpValidationError =
     \<lparr>r_status = 422, r_headers = [(''content-type'', ''application/json'')], r_body = ValidationErrorBody\<rparr>"

fun route_app :: "app_req \<Rightarrow> world \<Rightarrow> asgi_response \<times> world" where
  "route_app (Route q) w = (case handle q w of (r, w') \<Rightarrow> (reply_response r, w'))"
| "route_app OptionsReq w =
     (\<lparr>r_status = 405, r_headers = [(''content-type'', ''application/json'')],
       r_body = JsonBody (JObj [(''detail'', JStr ''Method Not Allowed'')])\<rparr>, w)"

definition app_call :: "app_req \<Rightarrow> raw_headers \<Rightarrow> world \<Rightarrow> asgi_response \<times> world" where
  "app_call q req_hs = cors_call app_mw (route_app q) (req_method q) req_hs"

text \<open>A preflight of a \<open>POST\<close> from the front end, and a request with a cookie from another site.\<close>

definition H_preflight :: raw_headers where
  "H_preflight = [(''origin'', ''http://localhost:3000''), (''access-control-request-method'', ''POST''),
                  (''access-control-request-headers'', ''content-type'')]"

definition H_foreign :: raw_headers where
  "H_foreign = [(''origin'', ''http://evil.example''), (''cookie'', ''session=1'')]"

section \<open>Lemmas\<close>

text \<open>The middleware as \<open>main.py\<close> configures it.\<close>

lemma app_mw_eq: "app_mw =
  \<lparr>mw_allow_origins = [''http://localhost:3000''], mw_allow_methods = all_methods,
   mw_allow_headers = [''*'', ''accept'', ''accept-language'', ''content-language'', ''content-type''],
   mw_allow_all_origins = False, mw_allow_all_headers = True, mw_explicit_origin = True,
   mw_simple_headers = [(''Access-Control-Allow-Credentials'', ''true'')],
   mw_preflight_headers = [(''Vary'', ''Origin''),
     (''Access-Control-Allow-Methods'', ''DELETE, GET, HEAD, OPTIONS, PATCH, POST, PUT''),
     (''Access-Control-Max-Age'', ''600''), (''Access-Control-Allow-Credentials'', ''true'')]\<rparr>"
  by code_simp

lemma route_app_headers: "r_headers (fst (route_app q w)) = [(''content-type'', ''application/json'')]"
proof (cases q)
  case (Route g)
  then show ?thesis by (cases "handle g w"; cases "fst (handle g w)") simp_all
qed simp

lemma lower_ascii_Nil [simp]: "lower_ascii [] = []"
  by (simp add: lower_ascii_def)

lemma lower_header_names [simp]:
  "lower_ascii ''Access-Control-Allow-Origin'' = ''access-control-allow-origin''"
  "lower_ascii ''Access-Control-Allow-Credentials'' = ''access-control-allow-credentials''"
  "lower_ascii ''Access-Control-Allow-Methods'' = ''access-control-allow-methods''"
  "lower_ascii ''Access-Control-Allow-Headers'' = ''access-control-allow-headers''"
  "lower_ascii ''Access-Control-Max-Age'' = ''access-control-max-age''"
  "lower_ascii ''Vary'' = ''vary''" "lower_ascii ''vary'' = ''vary''"
  "lower_ascii ''access-control-allow-origin'' = ''access-control-allow-origin''"
  "lower_ascii ''access-control-allow-credentials'' = ''access-control-allow-credentials''"
  "lower_ascii ''origin'' = ''origin''" "lower_ascii ''cookie'' = ''cookie''"
  "lower_ascii ''access-control-request-method'' = ''access-control-request-method''"
  "lower_ascii ''access-control-request-headers'' = ''access-control-request-headers''"
  by code_simp+

lemma cors_send_app:
  assumes "r_headers r = [(''content-type'', ''application/json'')]"
  shows "r_headers (cors_send app_mw hs origin r) =
    [(''content-type'', ''application/json''), (''access-control-allow-credentials'', ''true'')] @
    (if origin = ''http://localhost:3000'' then [(''access-control-allow-origin'', origin), (''vary'', ''Origin'')] else [])"
  using assms
  by (simp add: cors_send_def app_mw_eq hdr_update_def hdr_set_def hdr_get_def allow_explicit_origin_def
      add_vary_header_def is_allowed_origin_def)

lemma preflight_app:
  "preflight_response app_mw origin m rh =
     plain_text_response (if origin = ''http://localhost:3000'' \<and> m \<in> set all_methods then 200 else 400)
       (if origin = ''http://localhost:3000'' \<and> m \<in> set all_methods then ''OK''
        else ''Disallowed CORS '' @ join_str '', '' ((if origin = ''http://localhost:3000'' then [] else [''origin'']) @
                                                  (if m \<in> set all_methods then [] else [''method''])))
       ([(''Vary'', ''Origin''),
         (''Access-Control-Allow-Methods'', ''DELETE, GET, HEAD, OPTIONS, PATCH, POST, PUT''),
         (''Access-Control-Max-Age'', ''600''), (''Access-Control-Allow-Credentials'', ''true'')] @
        (if origin = ''http://localhost:3000'' then [(''Access-Control-Allow-Origin'', origin)] else []) @
        (case rh of None \<Rightarrow> [] | Some r \<Rightarrow> [(''Access-Control-Allow-Headers'', r)]))"
  by (cases rh) (simp_all add: preflight_response_def app_mw_eq is_allowed_origin_def)

lemma hdr_get_plain_text:
  "lower_ascii k \<noteq> ''content-length'' \<Longrightarrow> lower_ascii k \<noteq> ''content-type'' \<Longrightarrow>
   hdr_get k (r_headers (plain_text_response c t d)) = map_of (map (\<lambda>(k, v). (lower_ascii k, v)) d) (lower_ascii k)"
  by (auto simp: plain_text_response_def hdr_get_def Let_def map_add_def split: option.split)

lemma r_status_plain_text [simp]: "r_status (plain_text_response c t d) = c"
  by (simp add: plain_text_response_def Let_def)

lemma route_not_options [simp]: "req_method (Route g) \<noteq> ''OPTIONS''"
  by (cases g) simp_all

section \<open>Properties\<close>

text \<open>
  C28.  With the configuration of \<open>main.py\<close>, a response to a request that
  carries an \<open>Origin\<close> header lets a browser read it only when the origin is
  \<open>http://localhost:3000\<close>: \<open>Access-Control-Allow-Origin\<close> echoes that origin
  and is absent for every other one, whatever the route and the cookies;
  \<open>Access-Control-Allow-Credentials: true\<close> is always sent.  A preflight
  (\<open>OPTIONS\<close> with \<open>Access-Control-Request-Method\<close>) is answered by the
  middleware alone, without touching the service, 200 exactly when the origin is
  the front end's and the method one of the seven HTTP methods, else 400; any
  other request reaches the router and changes the world exactly as the route does.
\<close>

theorem cors_origin_policy:
  assumes "hdr_get ''origin'' hs = Some origin"
  shows "hdr_get ''access-control-allow-origin'' (r_headers (fst (app_call q hs w))) =
           (if origin = ''http://localhost:3000'' then Some origin else None) \<and>
         hdr_get ''access-control-allow-credentials'' (r_headers (fst (app_call q hs w))) = Some ''true'' \<and>
         (case (q, hdr_get ''access-control-request-method'' hs) of
            (OptionsReq, Some m) \<Rightarrow> snd (app_call q hs w) = w \<and>
               r_status (fst (app_call q hs w)) =
                 (if origin = ''http://localhost:3000'' \<and> m \<in> set all_methods then 200 else 400)
          | _ \<Rightarrow> snd (app_call q hs w) = snd (route_app q w))"
proof (cases "q = OptionsReq \<and> hdr_get ''access-control-request-method'' hs \<noteq> None")
  case True
  then obtain m where q: "q = OptionsReq" and m: "hdr_get ''access-control-request-method'' hs = Some m" by auto
  show ?thesis
    by (cases "hdr_get ''access-control-request-headers'' hs")
       (simp_all add: q m assms app_call_def cors_call_def preflight_app hdr_get_plain_text)
next
  case False
  then have c: "app_call q hs w = (cors_send app_mw hs origin (fst (route_app q w)), snd (route_app q w))"
    by (cases q) (auto simp: app_call_def cors_call_def assms split: prod.split option.split bool.split)
  have h: "r_headers (fst (app_call q hs w)) =
    [(''content-type'', ''application/json''), (''access-control-allow-credentials'', ''true'')] @
    (if origin = ''http://localhost:3000'' then [(''access-control-allow-origin'', origin), (''vary'', ''Origin'')] else [])"
    by (simp add: c cors_send_app route_app_headers)
  have s: "snd (app_call q hs w) = snd (route_app q w)" by (simp add: c)
  from False show ?thesis
    unfolding h s by (cases q) (auto simp: hdr_get_def split: option.split)
qed

theorem cors_origin_policy_witness:
  "hdr_get ''origin'' H_preflight = Some ''http://localhost:3000'' \<and>
   hdr_get ''access-control-allow-origin'' (r_headers (fst (app_call OptionsReq H_preflight W_down))) =
     Some ''http://localhost:3000'' \<and>
   r_status (fst (app_call OptionsReq H_preflight W_down)) = 200 \<and>
   snd (app_call OptionsReq H_preflight W_down) = W_down \<and>
   hdr_get ''origin'' H_foreign = Some ''http://evil.example'' \<and>
   hdr_get ''access-control-allow-origin'' (r_headers (fst (app_call (Route GetRoot) H_foreign W_down))) = None \<and>
   hdr_get ''access-control-allow-credentials'' (r_headers (fst (app_call (Route GetRoot) H_foreign W_down))) =
     Some ''true''"
proof -
  have p: "hdr_get ''origin'' H_preflight = Some ''http://localhost:3000''"
    and pm: "hdr_get ''access-control-request-method'' H_preflight = Some ''POST''"
    and f: "hdr_get ''origin'' H_foreign = Some ''http://evil.example''"
    by (simp_all add: H_preflight_def H_foreign_def hdr_get_def)
  have "''POST'' \<in> set all_methods" by (simp add: all_methods_def)
  then show ?thesis
    using p f cors_origin_policy [OF p, of OptionsReq W_down] cors_origin_policy [OF f, of "Route GetRoot" W_down]
    by (simp add: pm)
qed

end
