(* ===== verification/Tests.thy ===== *)
theory Tests
  imports Service
begin

text \<open>
  The unit tests of \<open>src/backend/tests/test_langflow_service.py\<close>, run against
  the model.  Each test is a boolean: its scenario (fixtures, test doubles) is
  built from the definitions of the service, and its value is the conjunction of
  its assertions, \<open>False\<close> when the call under test raises where the test does
  not expect it.  The test doubles follow \<open>unittest.mock\<close>:
  \<open>patch.object(service, "_make_request_with_retry")\<close> is \<open>mock_request\<close>, which
  returns its configured value (or raises its side effect) and records the call;
  a patched \<open>_get_client\<close> whose client's \<open>request\<close> returns or raises in turn is
  a network oracle.  An attribute of an \<open>AsyncMock\<close> is itself an \<open>AsyncMock\<close>,
  so \<open>mock_response.json()\<close> returns a coroutine unless the test replaces
  \<open>json\<close> by a plain function; \<open>raise_for_status\<close> is configured not to raise,
  which a 2xx status models.  \<open>patch.object(service, "close")\<close> makes the close
  method a parameter of \<open>__aexit__\<close> (\<open>aexit_with\<close>), and the mock counts its awaits.
  All twelve tests are modelled; the lemmas at the end record the outcome of
  each against the code (four fail, eight pass) and that the three tests built
  on \<open>AsyncMock\<close> responses pass once \<open>json\<close> is a plain function.
\<close>

section \<open>Fixtures\<close>

text \<open>The \<open>service\<close> fixture (line 28).\<close>

definition test_service :: service where
  "test_service = new_service ''http://test-langflow:7860'' 10"

text \<open>The second record of \<open>mock_flows_response\<close> (lines 48--61); the first is \<open>flow1_json\<close>.\<close>

definition flow2_json :: py_dict where
  "flow2_json = [(''id'', JStr ''flow-2''), (''name'', JStr ''Test Flow 2''), (''folder_id'', JStr ''folder-1''),
     (''is_component'', JBool True), (''endpoint_name'', JStr ''test_endpoint''),
     (''description'', JStr ''Another test flow''), (''data'', JObj [(''some'', JStr ''data'')]),
     (''access_type'', JStr ''private''), (''tags'', JArr [JStr ''test'']), (''mcp_enabled'', JBool False),
     (''action_name'', JStr ''test_action''), (''action_description'', JStr ''Test action description'')]"

definition flow2 :: flow_response where
  "flow2 = \<lparr>flow_id = ''flow-2'', name = ''Test Flow 2'', folder_id = ''folder-1'', is_component = True,
     endpoint_name = Some ''test_endpoint'', description = ''Another test flow'', data = JObj [(''some'', JStr ''data'')],
     access_type = ''private'', tags = [''test''], mcp_enabled = False, action_name = Some ''test_action'',
     action_description = Some ''Test action description''\<rparr>"

definition mock_flows_response :: json where
  "mock_flows_response = JArr [JObj flow1_json, JObj flow2_json]"

definition mock_execution_response :: json where
  "mock_execution_response = JObj [(''result'', JStr ''Flow executed successfully''),
     (''output'', JStr ''Test output''), (''session_id'', JStr ''test-session-123'')]"

text \<open>The records of \<open>test_get_flows_invalid_data\<close> (lines 120--136).\<close>

definition valid_flow_json :: py_dict where
  "valid_flow_json =
     [(''id'', JStr ''flow-1''), (''name'', JStr ''Valid Flow''), (''folder_id'', JStr ''folder-1''),
      (''is_component'', JBool False), (''description'', JStr ''Valid flow''),
      (''access_type'', JStr ''public''), (''tags'', JArr []), (''mcp_enabled'', JBool True)]"

definition invalid_flows :: json where
  "invalid_flows = JArr (map JObj [valid_flow_json, flow2_invalid_json])"

text \<open>The record the first of them validates to: the optional fields take their defaults.\<close>

definition valid_flow :: flow_response where
  "valid_flow = \<lparr>flow_id = ''flow-1'', name = ''Valid Flow'', folder_id = ''folder-1'', is_component = False,
     endpoint_name = None, description = ''Valid flow'', data = JNull, access_type = ''public'', tags = [],
     mcp_enabled = True, action_name = None, action_description = None\<rparr>"

section \<open>Test doubles\<close>

text \<open>\<open>mock_response = AsyncMock()\<close>: its \<open>json()\<close> gives a coroutine.\<close>

definition async_mock_response :: response where
  "async_mock_response = \<lparr>status_code = 200, response_text = [], json_body = Inr (JOther ''coroutine'')\<rparr>"

text \<open>\<open>mock_response.json = lambda: v\<close>.\<close>

definition plain_json_response :: "json \<Rightarrow> response" where
  "plain_json_response v = \<lparr>status_code = 200, response_text = [], json_body = Inr v\<rparr>"

text \<open>The patched \<open>_make_request_with_retry\<close>: its result, and the call recorded.\<close>

definition mock_request :: "exn + response \<Rightarrow> request_fn" where
  "mock_request r m u a mr w = (r, w\<lparr>events := events w @ [Request m u a]\<rparr>)"

text \<open>Two dicts of string items are equal when every key of either maps to the same value.\<close>

definition str_dict_eq :: "(string \<times> string) list \<Rightarrow> (string \<times> string) list \<Rightarrow> bool" where
  "str_dict_eq p q \<longleftrightarrow>
     (let ks = map fst p @ map fst q in map (map_of (rev p)) ks = map (map_of (rev q)) ks)"

text \<open>Keyword arguments compare as dicts.\<close>

definition same_args :: "req_args \<Rightarrow> req_args \<Rightarrow> bool" where
  "same_args a b \<longleftrightarrow>
     str_dict_eq (params a) (params b) \<and> json_payload a = json_payload b \<and> str_dict_eq (headers a) (headers b)"

text \<open>\<open>assert_called_once_with(m, u, **a)\<close>.\<close>

definition called_once_with :: "event list \<Rightarrow> string \<Rightarrow> string \<Rightarrow> req_args \<Rightarrow> bool" where
  "called_once_with es m u a \<longleftrightarrow>
     (case filter is_request es of [Request m' u' a'] \<Rightarrow> m' = m \<and> u' = u \<and> same_args a' a | _ \<Rightarrow> False)"

text \<open>A network the patched tests never reach.\<close>

definition W_test :: world where
  "W_test = init_world test_service (\<lambda>_. TimedOut ''unused'')"

text \<open>
  \<open>__aenter__\<close> returns the object; \<open>__aexit__\<close> awaits \<open>self.close()\<close> (lines
  250--256 of the service), here with the \<open>close\<close> method a parameter, as
  \<open>patch.object(service, "close")\<close> replaces it.
\<close>

definition aenter :: "world \<Rightarrow> service \<times> world" where
  "aenter w = (svc w, w)"

definition aexit_with :: "('s \<Rightarrow> 's) \<Rightarrow> 's \<Rightarrow> 's" where
  "aexit_with close_m s = close_m s"

text \<open>The patched \<open>close\<close>: an \<open>AsyncMock\<close> that counts its awaits, kept beside the world.\<close>

definition mock_close :: "world \<times> nat \<Rightarrow> world \<times> nat" where
  "mock_close s = (case s of (w, n) \<Rightarrow> (w, Suc n))"

text \<open>
  \<open>mock_client = AsyncMock(); mock_client.is_closed = False\<close>: an open client;
  its other attributes take no part in \<open>close()\<close>.
\<close>

definition mock_client :: pool where
  "mock_client = \<lparr>pool_timeout = 10, max_keepalive_connections = 5, max_connections = 10, is_closed = False\<rparr>"

section \<open>The tests\<close>

text \<open>Lines 73--99, over the response the mock returns.\<close>

definition test_get_flows_success_with :: "response \<Rightarrow> bool" where
  "test_get_flows_success_with resp \<longleftrightarrow>
     (case get_flows_with (mock_request (Inr resp)) W_test of
        (Inr flows, w1) \<Rightarrow>
          called_once_with (events w1) ''GET'' ''http://test-langflow:7860/api/v1/flows/''
            \<lparr>params = [(''components_only'', ''true''), (''get_all'', ''true'')], json_payload = None, headers = []\<rparr> \<and>
          length flows = 2 \<and> flow_id (flows ! 0) = ''flow-1'' \<and> name (flows ! 0) = ''Test Flow 1'' \<and>
          tags (flows ! 0) = [''test'', ''demo''] \<and> flow_id (flows ! 1) = ''flow-2'' \<and> \<not> mcp_enabled (flows ! 1)
      | (Inl _, _) \<Rightarrow> False)"

definition test_get_flows_success :: bool where
  "test_get_flows_success = test_get_flows_success_with (plain_json_response mock_flows_response)"

text \<open>Lines 101--113.\<close>

definition test_get_flows_with_flows_wrapper_with :: "response \<Rightarrow> bool" where
  "test_get_flows_with_flows_wrapper_with resp \<longleftrightarrow>
     (case fst (get_flows_with (mock_request (Inr resp)) W_test) of
        Inr flows \<Rightarrow> length flows = 2 \<and> flow_id (flows ! 0) = ''flow-1''
      | Inl _ \<Rightarrow> False)"

definition test_get_flows_with_flows_wrapper :: bool where
  "test_get_flows_with_flows_wrapper = test_get_flows_with_flows_wrapper_with async_mock_response"

text \<open>Lines 115--146.\<close>

definition test_get_flows_invalid_data_with :: "response \<Rightarrow> bool" where
  "test_get_flows_invalid_data_with resp \<longleftrightarrow>
     (case fst (get_flows_with (mock_request (Inr resp)) W_test) of
        Inr flows \<Rightarrow> length flows = 1 \<and> flow_id (flows ! 0) = ''flow-1''
      | Inl _ \<Rightarrow> False)"

definition test_get_flows_invalid_data :: bool where
  "test_get_flows_invalid_data = test_get_flows_invalid_data_with async_mock_response"

text \<open>Lines 148--155: \<open>pytest.raises(LangflowServiceError, match="Connection failed")\<close>.\<close>

definition test_get_flows_request_failure :: bool where
  "test_get_flows_request_failure \<longleftrightarrow>
     (case fst (get_flows_with (mock_request (Inl (LangflowServiceError ''Connection failed''))) W_test) of
        Inl e \<Rightarrow> is_service_error e \<and> str_contains (exn_str e) ''Connection failed''
      | Inr _ \<Rightarrow> False)"

text \<open>Lines 157--194.\<close>

definition test_execute_flow_success_with :: "response \<Rightarrow> bool" where
  "test_execute_flow_success_with resp \<longleftrightarrow>
     (case execute_flow_with (mock_request (Inr resp)) ''flow-1'' test_request W_test of
        (Inr res, w1) \<Rightarrow>
          called_once_with (events w1) ''POST'' ''http://test-langflow:7860/api/v1/run/flow-1''
            \<lparr>params = [],
             json_payload = Some (JObj [(''input_value'', JStr ''Test input''), (''output_type'', JStr ''chat''),
                                        (''input_type'', JStr ''chat''), (''tweaks'', JObj [(''param1'', JStr ''value1'')])]),
             headers = [(''Content-Type'', ''application/json'')]\<rparr> \<and>
          success res \<and> result res = mock_execution_response \<and> error res = None
      | (Inl _, _) \<Rightarrow> False)"

definition test_execute_flow_success :: bool where
  "test_execute_flow_success = test_execute_flow_success_with async_mock_response"

text \<open>Lines 196--209.\<close>

definition test_execute_flow_failure :: bool where
  "test_execute_flow_failure \<longleftrightarrow>
     (case fst (execute_flow_with (mock_request (Inl (LangflowServiceError ''Execution failed''))) ''flow-1''
                  (mk_execution_request ''Test input'' []) W_test) of
        Inr res \<Rightarrow> \<not> success res \<and> result res = JNull \<and>
                   (case error res of Some m \<Rightarrow> str_contains m ''Execution failed'' | None \<Rightarrow> False)
      | Inl _ \<Rightarrow> False)"

text \<open>Lines 211--224.\<close>

definition test_make_request_with_retry_success :: bool where
  "test_make_request_with_retry_success \<longleftrightarrow>
     (case make_request_with_retry ''GET'' ''http://test.com'' no_args default_max_retries
             (init_world test_service (\<lambda>_. Responded async_mock_response)) of
        (Inr r, w1) \<Rightarrow> r = async_mock_response \<and> called_once_with (events w1) ''GET'' ''http://test.com'' no_args
      | (Inl _, _) \<Rightarrow> False)"

text \<open>Lines 226--248.\<close>

definition test_make_request_with_retry_timeout_then_success :: bool where
  "test_make_request_with_retry_timeout_then_success \<longleftrightarrow>
     (case make_request_with_retry ''GET'' ''http://test.com'' no_args default_max_retries
             (init_world test_service (\<lambda>i. if i = 0 then TimedOut ''Timeout'' else Responded async_mock_response)) of
        (Inr r, w1) \<Rightarrow> r = async_mock_response \<and> request_count (events w1) = 2 \<and> slept_times (events w1) = [1]
      | (Inl _, _) \<Rightarrow> False)"

text \<open>Lines 250--269.\<close>

definition test_make_request_with_retry_max_retries_exceeded :: bool where
  "test_make_request_with_retry_max_retries_exceeded \<longleftrightarrow>
     (case make_request_with_retry ''GET'' ''http://test.com'' no_args 3
             (init_world test_service (\<lambda>_. TimedOut ''Persistent timeout'')) of
        (Inl e, w1) \<Rightarrow> is_service_error e \<and> str_contains (exn_str e) ''Failed to make request after 4 attempts''
                       \<and> request_count (events w1) = 4
      | (Inr _, _) \<Rightarrow> False)"

text \<open>Lines 271--290: the request raises \<open>HTTPStatusError\<close> for a 400 response.\<close>

definition test_make_request_with_retry_client_error_no_retry :: bool where
  "test_make_request_with_retry_client_error_no_retry \<longleftrightarrow>
     (case make_request_with_retry ''GET'' ''http://test.com'' no_args default_max_retries
             (init_world test_service
               (\<lambda>_. Responded \<lparr>status_code = 400, response_text = ''Bad Request'', json_body = Inr (JOther ''coroutine'')\<rparr>)) of
        (Inl e, w1) \<Rightarrow> is_service_error e \<and> str_contains (exn_str e) ''Client error 400'' \<and> request_count (events w1) = 1
      | (Inr _, _) \<Rightarrow> False)"

text \<open>Lines 292--299: \<open>async with service as svc\<close> gives the service, and \<open>close\<close> is awaited once.\<close>

definition test_context_manager :: bool where
  "test_context_manager \<longleftrightarrow>
     (case aenter W_test of (s, w1) \<Rightarrow> s = svc W_test \<and> snd (aexit_with mock_close (w1, 0)) = 1)"

text \<open>Lines 301--311: \<open>service._client = mock_client; await service.close()\<close>; \<open>aclose\<close> awaited once.\<close>

definition test_close_client :: bool where
  "test_close_client \<longleftrightarrow>
     closed_count (events (close (W_test\<lparr>svc := test_service\<lparr>client := Some mock_client\<rparr>\<rparr>))) = 1"

section \<open>Lemmas\<close>

text \<open>The unpatched \<open>__aexit__\<close> is \<open>aexit\<close>.\<close>

lemma aexit_with_close: "aexit_with close = aexit"
  by (simp add: fun_eq_iff aexit_with_def aexit_def)

lemma test_context_manager_holds: "test_context_manager"
  by (simp add: test_context_manager_def aenter_def aexit_with_def mock_close_def)

lemma test_close_client_holds: "test_close_client"
  by (simp add: test_close_client_def close_def mock_client_def closed_count_def W_test_def init_world_def)

lemma validate_flow2: "validate_flow flow2_json = Some flow2"
  by (simp add: validate_flow_def flow2_json_def flow2_def dict_get_def req_field_def opt_field_def any_field_def)

lemma get_client_test_world:
  "snd (get_client (init_world test_service n)) =
     init_world test_service n\<lparr>svc := test_service\<lparr>client := Some \<lparr>pool_timeout = 10, max_keepalive_connections = 5,
        max_connections = 10, is_closed = False\<rparr>\<rparr>, events := [PoolOpened]\<rparr>"
  by (simp add: get_client_def open_pool_def init_world_def test_service_def new_service_def Let_def)

lemma test_make_request_with_retry_success_holds: "test_make_request_with_retry_success"
proof -
  have "make_request_with_retry ''GET'' ''http://test.com'' no_args default_max_retries
             (init_world test_service (\<lambda>_. Responded async_mock_response)) =
        (Inr async_mock_response, (snd (get_client (init_world test_service (\<lambda>_. Responded async_mock_response))))
           \<lparr>events := events (snd (get_client (init_world test_service (\<lambda>_. Responded async_mock_response))))
                       @ attempt_events ''GET'' ''http://test.com'' no_args 0 (Suc 0),
            sent := sent (init_world test_service (\<lambda>_. Responded async_mock_response)) + Suc 0\<rparr>)"
    by (rule make_request_stops)
       (simp_all add: default_max_retries_def attempt_result_Responded async_mock_response_def init_world_def)
  then show ?thesis
    by (simp add: test_make_request_with_retry_success_def get_client_test_world called_once_with_def
        same_args_def str_dict_eq_def no_args_def)
qed

lemma test_make_request_with_retry_timeout_then_success_holds: "test_make_request_with_retry_timeout_then_success"
proof -
  let ?n = "\<lambda>i::nat. if i = 0 then TimedOut ''Timeout'' else Responded async_mock_response"
  have "make_request_with_retry ''GET'' ''http://test.com'' no_args default_max_retries (init_world test_service ?n) =
        (Inr async_mock_response, (snd (get_client (init_world test_service ?n)))
           \<lparr>events := events (snd (get_client (init_world test_service ?n))) @ attempt_events ''GET'' ''http://test.com'' no_args 0 (Suc 1),
            sent := sent (init_world test_service ?n) + Suc 1\<rparr>)"
    by (rule make_request_stops)
       (simp_all add: default_max_retries_def attempt_result_Responded async_mock_response_def init_world_def)
  then show ?thesis
    by (simp add: test_make_request_with_retry_timeout_then_success_def get_client_test_world)
qed

lemma test_make_request_with_retry_max_retries_exceeded_holds: "test_make_request_with_retry_max_retries_exceeded"
proof -
  let ?n = "\<lambda>_::nat. TimedOut ''Persistent timeout''"
  have f: "show_int (3 + 1) = ''4''" by code_simp
  have "make_request_with_retry ''GET'' ''http://test.com'' no_args 3 (init_world test_service ?n) =
     (Inl (exhausted_error 3 (last_exn (map (attempt_result ''http://test.com'' \<circ> ?n) [0..<0 + nat (3 + 1)]))),
      (snd (get_client (init_world test_service ?n)))\<lparr>events := events (snd (get_client (init_world test_service ?n))) @ attempt_events ''GET'' ''http://test.com'' no_args 0 (nat (3 + 1)),
                            sent := 0 + nat (3 + 1)\<rparr>)"
    using make_request_exhausts [of 3 "''http://test.com''" "init_world test_service ?n" "''GET''" no_args]
    by (simp add: init_world_def)
  then show ?thesis
    using f by (simp add: test_make_request_with_retry_max_retries_exceeded_def get_client_test_world
        exhausted_error_def last_exn_def numeral_eq_Suc)
qed


lemma test_make_request_with_retry_client_error_no_retry_holds: "test_make_request_with_retry_client_error_no_retry"
proof -
  let ?r = "\<lparr>status_code = 400, response_text = ''Bad Request'', json_body = Inr (JOther ''coroutine'')\<rparr>"
  have c: "show_int 400 = ''400''" by code_simp
  have "make_request_with_retry ''GET'' ''http://test.com'' no_args default_max_retries (init_world test_service (\<lambda>_. Responded ?r)) =
        (Inl (LangflowServiceError (''Client error '' @ show_int 400 @ '': '' @ ''Bad Request'')),
         (snd (get_client (init_world test_service (\<lambda>_. Responded ?r))))
           \<lparr>events := events (snd (get_client (init_world test_service (\<lambda>_. Responded ?r)))) @ attempt_events ''GET'' ''http://test.com'' no_args 0 (Suc 0),
            sent := sent (init_world test_service (\<lambda>_. Responded ?r)) + Suc 0\<rparr>)"
    by (rule make_request_stops) (simp_all add: default_max_retries_def attempt_result_Responded init_world_def)
  then show ?thesis
    using c by (simp add: test_make_request_with_retry_client_error_no_retry_def get_client_test_world)
qed

lemma test_service_run_url: "run_url (base_url test_service) ''flow-1'' = ''http://test-langflow:7860/api/v1/run/flow-1''"
  by (simp add: test_service_def new_service_def rstrip_slash_def) code_simp

lemma execute_mocked:
  "execute_flow_with (mock_request (Inr (plain_json_response v))) fid r w =
     (Inr \<lparr>success = True, result = v, error = None\<rparr>,
      w\<lparr>events := events w @ [Request ''POST'' (run_url (base_url (svc w)) fid) (execute_args r)]\<rparr>)"
  by (simp add: execute_flow_with_def execute_flow_body_with_def mock_request_def execution_outcome_def
      execution_response_def plain_json_response_def response_json_def)

lemma test_execute_flow_success_repaired: "test_execute_flow_success_with (plain_json_response mock_execution_response)"
  by (simp add: test_execute_flow_success_with_def execute_mocked W_test_def init_world_def test_service_run_url
      called_once_with_def same_args_def str_dict_eq_def execute_args_def test_request_def mk_execution_request_def
      dump_execution_request_def)

lemma test_execute_flow_success_fails: "\<not> test_execute_flow_success"
proof -
  have a: "async_mock_response = plain_json_response (JOther ''coroutine'')"
    by (simp add: async_mock_response_def plain_json_response_def)
  show ?thesis
    unfolding test_execute_flow_success_def test_execute_flow_success_with_def a execute_mocked
    by (simp add: mock_execution_response_def)
qed

lemma coroutine_format:
  "fst (get_flows_with (mock_request (Inr async_mock_response)) w) =
     Inl (LangflowServiceError (''Unexpected response format: <class '' @ [CHR 0x27] @ ''coroutine'' @ [CHR 0x27, CHR ''>'']))"
  by (simp add: get_flows_with_def mock_request_def flows_result_def async_mock_response_def response_json_def
      parse_flows_response_def flows_data_of_def unexpected_format_def py_type_repr_def wrap_fetch_error_def)

lemma async_mock_listing_tests_fail: "\<not> test_get_flows_with_flows_wrapper \<and> \<not> test_get_flows_invalid_data"
  by (simp add: test_get_flows_with_flows_wrapper_def test_get_flows_with_flows_wrapper_with_def
      test_get_flows_invalid_data_def test_get_flows_invalid_data_with_def coroutine_format)

lemma test_get_flows_with_flows_wrapper_repaired: "test_get_flows_with_flows_wrapper_with (plain_json_response (JObj [(''flows'', mock_flows_response)]))"
proof -
  have "fst (get_flows_with (mock_request (Inr (plain_json_response (JObj [(''flows'', mock_flows_response)])))) W_test) = Inr [flow1, flow2]"
    by (simp add: get_flows_with_def mock_request_def flows_result_def plain_json_response_def response_json_def
        parse_flows_response_def flows_data_of_def mock_flows_response_def validate_flow1 validate_flow2 json_simps)
  then show ?thesis by (simp add: test_get_flows_with_flows_wrapper_with_def flow1_def)
qed

lemma test_service_flows_url: "flows_url (base_url test_service) = ''http://test-langflow:7860/api/v1/flows/''"
  by (simp add: test_service_def new_service_def rstrip_slash_def flows_url_def) code_simp

lemma get_flows_mocked_listing:
  "get_flows_with (mock_request (Inr (plain_json_response mock_flows_response))) W_test =
     (Inr [flow1, flow2], W_test\<lparr>events := [Request ''GET'' ''http://test-langflow:7860/api/v1/flows/'' flows_args]\<rparr>)"
proof -
  have r: "flows_result (Inr (plain_json_response mock_flows_response)) = Inr [flow1, flow2]"
    by (simp add: flows_result_def response_json_def parse_flows_response_def flows_data_of_def
        plain_json_response_def mock_flows_response_def validate_flow1 validate_flow2)
  show ?thesis
    by (simp add: get_flows_with_def mock_request_def W_test_def init_world_def r test_service_flows_url)
qed

lemma test_get_flows_success_fails: "\<not> test_get_flows_success"
  by (simp add: test_get_flows_success_def test_get_flows_success_with_def get_flows_mocked_listing
      called_once_with_def same_args_def flows_args_def flows_params_def str_dict_eq_def)

lemma test_get_flows_request_failure_holds: "test_get_flows_request_failure"
  by (simp add: test_get_flows_request_failure_def get_flows_with_def mock_request_def flows_result_def wrap_fetch_error_def)

lemma test_execute_flow_failure_holds: "test_execute_flow_failure"
  by (simp add: test_execute_flow_failure_def execute_flow_with_def execute_flow_body_with_def mock_request_def
      execution_outcome_def execution_response_def execution_failure_def)

lemma validate_valid_flow: "validate_flow valid_flow_json = Some valid_flow"
  by (simp add: validate_flow_def valid_flow_json_def valid_flow_def dict_get_def req_field_def opt_field_def any_field_def)

lemma test_get_flows_invalid_data_repaired: "test_get_flows_invalid_data_with (plain_json_response invalid_flows)"
proof -
  have "flows_result (Inr (plain_json_response invalid_flows)) = Inr [valid_flow]"
    by (simp add: flows_result_def response_json_def parse_flows_response_def flows_data_of_def
        plain_json_response_def invalid_flows_def validate_valid_flow validate_flow2_invalid)
  then show ?thesis
    by (simp add: test_get_flows_invalid_data_with_def get_flows_with_def mock_request_def valid_flow_def)
qed

end
