(* ===== verification/Spec2Isabelle.thy ===== *)
theory Spec2Isabelle
  imports Cors Tests
begin

text \<open>
  \<^bold>\<open>A verification library for the Langflow integration backend.\<close>

  The program is a FastAPI gateway (\<open>src/backend/main.py\<close>), wrapped in
  Starlette's CORS middleware, in front of a
  client for the Langflow REST API (\<open>src/backend/services/langflow_service.py\<close>).
  Each gateway request builds a fresh \<open>LangflowService\<close>, uses it inside
  \<open>async with\<close>, and maps its exceptions to HTTP 503 or 500.  The service
  owns a lazily created \<open>httpx.AsyncClient\<close> (the pool), sends every request
  through \<open>_make_request_with_retry\<close> (up to \<open>max_retries + 1\<close> attempts with
  exponential backoff), and offers \<open>get_flows\<close> (fail-fast: every error
  becomes \<open>LangflowServiceError\<close>) and \<open>execute_flow\<close> (fail-soft: every error
  becomes a \<open>FlowExecutionResponse\<close> with \<open>success=False\<close>).

  \<^bold>\<open>Theories and what they model.\<close>
  \<^item> \<open>Prelude\<close>: Python built-ins the code relies on (\<open>str()\<close> of integers as
    \<open>show_int\<close>, \<open>range()\<close> as \<open>py_range\<close>, ASCII lower-casing), the named
    collections \<open>world_simps\<close> and \<open>json_simps\<close>, and shared list lemmas.
  \<^item> \<open>Runtime\<close>: decoded JSON (\<open>json\<close>; a \<open>dict\<close> is an association list in
    which the last duplicate key wins, as in \<open>json.loads\<close>; \<open>JOther\<close> stands for any
    other Python object, such as a coroutine returned by a test double), \<open>type()\<close> names,
    \<open>iter()\<close>, and the exceptions the code raises or catches (\<open>exn\<close>: httpx
    \<open>TimeoutException\<close>, \<open>ConnectError\<close>, \<open>HTTPStatusError\<close>, other transport
    errors, \<open>LangflowServiceError\<close>, \<open>TypeError\<close>, \<open>ValueError\<close>) with \<open>str(e)\<close>.
  \<^item> \<open>Models\<close>: the three pydantic models (lines 15--43) as records,
    \<open>model_dump()\<close> as \<open>dump_flow\<close>, \<open>dump_execution_request\<close> and
    \<open>dump_execution_response\<close>, and \<open>FlowResponse(**d)\<close> as the option-valued
    validator \<open>validate_flow\<close> following pydantic's lax mode.
  \<^item> \<open>Transport\<close>: the service object (\<open>service\<close>: \<open>base_url\<close>, \<open>timeout\<close>,
    optional \<open>pool\<close>), \<open>__init__\<close> (\<open>new_service\<close>, \<open>default_service\<close>),
    \<open>_get_client\<close> (\<open>get_client\<close>, \<open>open_pool\<close>), \<open>close\<close>, one
    \<open>client.request\<close> (\<open>client_request\<close>), \<open>raise_for_status\<close>, \<open>response.json()\<close>
    and \<open>asyncio.sleep\<close>.  All of it acts on a \<open>world\<close>: the service object, the
    trace of effects (\<open>PoolOpened\<close>, \<open>PoolClosed\<close>, \<open>Request\<close>, \<open>Slept\<close>), and
    the network as an oracle \<open>net\<close> giving the outcome of the n-th request
    sent, with the counter \<open>sent\<close>.  Every result is \<open>exn + _\<close>.
  \<^item> \<open>Retry\<close>: \<open>_make_request_with_retry\<close> (lines 80--135) as
    \<open>make_request_with_retry\<close>: the \<open>for\<close> loop is \<open>retry_loop\<close>, structural
    recursion on \<open>range(max_retries + 1)\<close>; \<open>send_once\<close> is the \<open>try\<close> body,
    \<open>retry_handler\<close> the three \<open>except\<close> clauses, \<open>backoff\<close> the sleep of
    \<open>2 ** attempt\<close>, \<open>exhausted_error\<close> the final raise.  \<open>retry_spec\<close> is the
    loop-free specification (the first attempt that is not retried decides,
    or the error after the last one).
  \<^item> \<open>Urls\<close>: \<open>urllib.parse.urljoin\<close> for a reference with an absolute path,
    the only kind the two call sites pass (\<open>urljoin_abs\<close>, \<open>flows_url\<close>,
    \<open>run_url\<close>), with dot-segment resolution and the query, fragment and
    parameter split, checked against CPython 3.11.
  \<^item> \<open>Service\<close>: \<open>get_flows\<close> (lines 137--186) and \<open>execute_flow\<close> (lines
    188--248) written as their code is, over the request primitive they call
    (\<open>get_flows_with\<close>, \<open>execute_flow_with\<close> take a \<open>request_fn\<close>; \<open>get_flows\<close> and
    \<open>execute_flow\<close> pass \<open>make_request_with_retry\<close>), the processing of the
    response (\<open>flows_result\<close>, \<open>flows_data_of\<close>, \<open>collect_flows\<close>,
    \<open>execution_outcome\<close>, \<open>execution_response\<close>), and \<open>__aexit__\<close> as \<open>aexit\<close>.
  \<^item> \<open>Session\<close>: any sequence of calls on one service object, as the inductive
    set \<open>svc_reachable\<close> over the call type \<open>svc_call\<close>.
  \<^item> \<open>Gateway\<close>: \<open>main.py\<close>: \<open>ExecuteFlowRequest\<close> validation (422), the
    session \<open>with_service\<close> (fresh object, body, \<open>close()\<close> on both exits, 503/500
    translation), the five routes and the dispatcher \<open>handle\<close> over \<open>gw_request\<close>.
  \<^item> \<open>Cors\<close>: \<open>app.add_middleware(CORSMiddleware, ...)\<close> (lines 13--19) as
    \<open>app_cors\<close>, Starlette's \<open>CORSMiddleware\<close> written after its source
    (\<open>cors_init\<close> for \<open>__init__\<close>, \<open>cors_call\<close> for \<open>__call__\<close>,
    \<open>preflight_response\<close>, \<open>cors_send\<close> for \<open>send\<close>) with Starlette's header
    semantics (\<open>hdr_get\<close>, \<open>hdr_set\<close>, \<open>add_vary_header\<close>,
    \<open>plain_text_response\<close>), and the application \<open>app_call\<close>: the middleware
    around the router \<open>route_app\<close>, which renders a gateway reply as FastAPI does
    and answers an \<open>OPTIONS\<close> request that passes the middleware with 405.
  \<^item> \<open>Tests\<close>: the twelve tests of \<open>src/backend/tests/test_langflow_service.py\<close>
    as booleans: fixtures, \<open>patch.object\<close> of \<open>_make_request_with_retry\<close> as the
    request function \<open>mock_request\<close>, \<open>AsyncMock\<close> responses,
    \<open>assert_called_once_with\<close> as \<open>called_once_with\<close>, and \<open>patch.object\<close> of
    \<open>close\<close> as the parameter of \<open>__aexit__\<close> (\<open>aexit_with\<close>).

  \<^bold>\<open>What is proved.\<close>
  \<^item> Retry (C1--C10): the loop equals \<open>retry_spec\<close> in result, number of
    requests and trace (a refinement, proved by induction on the attempts
    left); the test-suite scenarios; the sleeps are exactly \<open>2^0, 2^1, ...\<close>; at
    most \<open>max_retries + 1\<close> requests and less than \<open>2^max_retries\<close> total sleep;
    a call succeeds exactly when the server answers 2xx within the attempt budget
    after only retryable failures (C7); which failures are retried (timeouts,
    connect errors, any non-2xx non-4xx status, redirects included) and which
    propagate (4xx as \<open>LangflowServiceError\<close>, other transport errors raw); a
    negative \<open>max_retries\<close> sends nothing.
  \<^item> Service (C11--C22, C34): \<open>get_flows\<close> returns exactly the records that
    validate, in order; the \<open>{"flows": [...]}\<close> shape equals the bare list; the
    errors it raises are only \<open>LangflowServiceError\<close>, with non-service errors
    wrapped and service errors kept; a non-object list item aborts the listing;
    \<open>execute_flow\<close> never raises, echoes a 2xx JSON body (\<open>null\<close> included), and
    its result is consistent; the shape of the requests both send; a 2xx body that
    is not JSON is not retried.
  \<^item> Session (C23, C31, C32): in every reachable world the pool has limits
    5/10 and the object's timeout, and all pools but the current open one are
    closed (rule induction on \<open>svc_reachable\<close>), so \<open>close()\<close> leaves none open;
    an open pool is reused by every call; \<open>close()\<close> is idempotent and a call
    after it opens one new pool.
  \<^item> Gateway (C24--C27, C33): every request opens at most one pool and closes
    it last; \<open>/flows\<close> never answers 500; the execute endpoint never answers 503
    or 500, even when Langflow is down; \<open>/test-langflow\<close> answers the count,
    message and first three flows of what \<open>/flows\<close> lists, and the same error
    when it fails; end to end, the execute endpoint sends Langflow the run request
    with the client's input and tweaks, and \<open>/test-flow\<close> only ever runs the
    hardcoded flow.
  \<^item> Cors (C28): only \<open>http://localhost:3000\<close> is granted
    \<open>Access-Control-Allow-Origin\<close>; a preflight is answered by the middleware
    without reaching the service; any other request changes the world as its
    route does.
  \<^item> Urls (C29, C30): for any base with a plain host, whatever path, query or
    fragment follows it, the two URLs are \<open><scheme>://<host>/api/v1/...\<close> (the
    base's path is dropped); an unquoted flow id can leave the run endpoint
    through \<open>..\<close> or add a query through \<open>?\<close>.

  \<^bold>\<open>Bounds and fuel.\<close>  No fuel is needed: every loop of the program is a
  \<open>for\<close> over a finite list and is modelled by structural recursion, so every
  operation is a total function and every theorem about a result is about the
  value computed; there is no separate termination property because no
  definition needs a termination argument beyond structural recursion.  Witnesses run with the default \<open>max_retries = 3\<close> (line 84)
  and the default base URL \<open>http://localhost:7860\<close> (line 54), the values the
  gateway uses.

  \<^bold>\<open>Not modelled.\<close>  Logging (no effect on results); the title and version
  of the FastAPI application object (line 10), which only feed the OpenAPI
  document; \<open>uvicorn.run\<close> (lines 104--107: process start-up, pure I/O); the
  \<open>allow_origin_regex\<close> branch of the CORS middleware, which the configuration
  does not use, and the exact headers FastAPI adds to a JSON reply besides its
  content type; \<open>urlsplit\<close>'s validation of the base's host (\<open>ValueError\<close> for
  bracketed IPv6 hosts it rejects and for some non-ASCII hosts) and its stripping
  of leading control characters, outside the hosts the URL properties admit; the wall-clock duration of sleeps and
  requests (a sleep is an event carrying its length; the timeout value is kept
  but its expiry is an outcome of the network oracle); concurrency between
  gateway requests (each request has its own service object, so requests share
  nothing the model tracks); JSON numbers with a fraction.
\<close>

end
